theory Spec2Isabelle
  imports Complex_Main "HOL-Library.Sublist" "HOL-Library.Monad_Syntax"
    "HOL-Library.Multiset"
begin

section \<open>JavaScript numbers and strings\<close>

text \<open>
  The value parsers of \<^verbatim>\<open>src/mcp-server/html-parser.ts\<close> compute with JavaScript numbers.
  A number is modelled as an exact real or the value \<open>NaN\<close> (what \<^verbatim>\<open>parseFloat\<close> returns on
  a capture such as \<^verbatim>\<open>.\<close>). The overflow of IEEE doubles is not modelled. Their rounding is
  modelled in \<^verbatim>\<open>hslToRgb\<close>, where the sign of a result depends on it, and nowhere else.
  An operation with a \<open>NaN\<close> operand is \<open>NaN\<close>, a comparison with \<open>NaN\<close> is false.
  A string is a list of 8-bit characters, read as the code units 0..255.
\<close>

datatype jsnum = NaN | Fin real

fun lift2 :: "(real \<Rightarrow> real \<Rightarrow> real) \<Rightarrow> jsnum \<Rightarrow> jsnum \<Rightarrow> jsnum" where
  "lift2 f (Fin a) (Fin b) = Fin (f a b)"
| "lift2 f _ _ = NaN"

definition jadd :: "jsnum \<Rightarrow> jsnum \<Rightarrow> jsnum" where
  "jadd = lift2 (+)"

definition jsub :: "jsnum \<Rightarrow> jsnum \<Rightarrow> jsnum" where
  "jsub = lift2 (-)"

definition jmul :: "jsnum \<Rightarrow> jsnum \<Rightarrow> jsnum" where
  "jmul = lift2 (*)"

text \<open>Division is only ever reached with a divisor that is not zero (the source guards it,
  or divides by a literal); a zero divisor is mapped to \<open>NaN\<close> here so that HOL's \<open>x / 0 = 0\<close>
  never stands in for a JavaScript result.\<close>

fun jdiv :: "jsnum \<Rightarrow> jsnum \<Rightarrow> jsnum" where
  "jdiv (Fin a) (Fin b) = (if b = 0 then NaN else Fin (a / b))"
| "jdiv _ _ = NaN"

fun jabs :: "jsnum \<Rightarrow> jsnum" where
  "jabs (Fin a) = Fin \<bar>a\<bar>"
| "jabs NaN = NaN"

text \<open>\<^verbatim>\<open>a % b\<close>: the remainder has the sign of the dividend (truncated division).\<close>

definition trunc :: "real \<Rightarrow> int" where
  "trunc x = (if 0 \<le> x then \<lfloor>x\<rfloor> else \<lceil>x\<rceil>)"

definition rmod :: "real \<Rightarrow> real \<Rightarrow> real" where
  "rmod a b = a - b * of_int (trunc (a / b))"

fun jmod :: "jsnum \<Rightarrow> jsnum \<Rightarrow> jsnum" where
  "jmod (Fin a) (Fin b) = (if b = 0 then NaN else Fin (rmod a b))"
| "jmod _ _ = NaN"

text \<open>\<^verbatim>\<open>Math.max\<close>, \<^verbatim>\<open>Math.min\<close>.\<close>

definition jmax :: "jsnum \<Rightarrow> jsnum \<Rightarrow> jsnum" where
  "jmax = lift2 max"

definition jmin :: "jsnum \<Rightarrow> jsnum \<Rightarrow> jsnum" where
  "jmin = lift2 min"

fun jlt :: "jsnum \<Rightarrow> jsnum \<Rightarrow> bool" where
  "jlt (Fin a) (Fin b) = (a < b)"
| "jlt _ _ = False"

subsection \<open>Character classes\<close>

definition code :: "char \<Rightarrow> nat" where
  "code c = of_char c"

text \<open>\<^verbatim>\<open>\d\<close>\<close>

definition isDigit :: "char \<Rightarrow> bool" where
  "isDigit c = (48 \<le> code c \<and> code c \<le> 57)"

text \<open>\<^verbatim>\<open>[\d.]\<close>\<close>

definition isNumChar :: "char \<Rightarrow> bool" where
  "isNumChar c = (isDigit c \<or> c = CHR ''.'')"

text \<open>\<^verbatim>\<open>\s\<close> and the characters removed by \<^verbatim>\<open>trim()\<close>, among the code units below 256:
  tab, line feed, vertical tab, form feed, carriage return, space, no-break space.\<close>

definition isWhitespace :: "char \<Rightarrow> bool" where
  "isWhitespace c = (code c \<in> {9, 10, 11, 12, 13, 32, 160})"

text \<open>The characters that \<^verbatim>\<open>.\<close> does not match.\<close>

definition isLineTerminator :: "char \<Rightarrow> bool" where
  "isLineTerminator c = (code c \<in> {10, 13})"

definition toLowerChar :: "char \<Rightarrow> char" where
  "toLowerChar c = (if 65 \<le> code c \<and> code c \<le> 90 then char_of (code c + 32) else c)"

definition toLowerCase :: "string \<Rightarrow> string" where
  "toLowerCase s = map toLowerChar s"

definition trim :: "string \<Rightarrow> string" where
  "trim s = rev (dropWhile isWhitespace (rev (dropWhile isWhitespace s)))"

subsection \<open>parseInt and parseFloat on the captures they are applied to\<close>

definition digitVal :: "nat \<Rightarrow> char \<Rightarrow> nat option" where
  "digitVal radix c =
     (let n = code c;
          v = (if 48 \<le> n \<and> n \<le> 57 then Some (n - 48)
               else if 97 \<le> n \<and> n \<le> 122 then Some (n - 87)
               else if 65 \<le> n \<and> n \<le> 90 then Some (n - 55)
               else None)
      in case v of None \<Rightarrow> None | Some d \<Rightarrow> if d < radix then Some d else None)"

fun digitsVal :: "nat \<Rightarrow> nat \<Rightarrow> string \<Rightarrow> nat" where
  "digitsVal radix acc [] = acc"
| "digitsVal radix acc (c # cs) =
     (case digitVal radix c of
        None \<Rightarrow> acc
      | Some d \<Rightarrow> digitsVal radix (acc * radix + d) cs)"

text \<open>\<^verbatim>\<open>parseInt(s, radix)\<close> on a capture of digits: the longest prefix of digits of the radix,
  \<open>NaN\<close> when there is none. (Leading white space, a sign and a \<^verbatim>\<open>0x\<close> prefix cannot occur
  in the captures of \<^verbatim>\<open>\d+\<close> and \<^verbatim>\<open>[0-9a-f]\<close> the source passes.)\<close>

definition parseInt :: "string \<Rightarrow> nat \<Rightarrow> jsnum" where
  "parseInt s radix =
     (case s of
        [] \<Rightarrow> NaN
      | c # cs \<Rightarrow> (case digitVal radix c of
                     None \<Rightarrow> NaN
                   | Some d \<Rightarrow> Fin (real (digitsVal radix 0 s))))"

text \<open>\<^verbatim>\<open>parseFloat\<close> on a capture of \<^verbatim>\<open>-?[\d.]+\<close>: an optional sign, digits, an optional
  point with digits; \<open>NaN\<close> when there is no digit before the first point and none after it.
  Whatever follows (a second point) is ignored.\<close>

definition parseFloat :: "string \<Rightarrow> jsnum" where
  "parseFloat s =
     (let neg = (s \<noteq> [] \<and> hd s = CHR ''-'');
          t = (if neg then tl s else s);
          ip = takeWhile isDigit t;
          rest = dropWhile isDigit t;
          fp = (case rest of
                  [] \<Rightarrow> []
                | c # r \<Rightarrow> if c = CHR ''.'' then takeWhile isDigit r else []);
          v = real (digitsVal 10 0 ip) + real (digitsVal 10 0 fp) / 10 ^ length fp
      in if ip = [] \<and> fp = [] then NaN else Fin (if neg then - v else v))"

section \<open>Length values: \<^verbatim>\<open>parseLength\<close> and \<^verbatim>\<open>parseCalc\<close>\<close>

text \<open>
  Group 1 of \<^verbatim>\<open>/^calc\s*\(\s*(.+)\s*\)$/i\<close>. The string must start with \<^verbatim>\<open>calc\<close> (any case), white
  space, \<^verbatim>\<open>(\<close>, and end with \<^verbatim>\<open>)\<close>. Between the two, \<open>body\<close>, the engine gives the leading
  white space to the first \<^verbatim>\<open>\s*\<close>, and \<^verbatim>\<open>(.+)\<close> takes the longest run without a line terminator
  after which only white space is left. So with \<open>body = lead @ core @ trail\<close> (\<open>core\<close> the
  trimmed body): when \<open>core\<close> is not empty, the match exists iff \<open>core\<close> holds no line terminator
  and the group is \<open>core\<close> followed by the part of \<open>trail\<close> before its first line terminator;
  when \<open>body\<close> is all white space, the first \<^verbatim>\<open>\s*\<close> backtracks to the last character that is
  not a line terminator, which becomes the group.
\<close>

definition calcGroup :: "string \<Rightarrow> string option" where
  "calcGroup body =
     (let afterLead = dropWhile isWhitespace body;
          k = length (dropWhile isWhitespace (rev afterLead));
          core = take k afterLead;
          trail = drop k afterLead
      in if core = [] then
           (case filter (\<lambda>c. \<not> isLineTerminator c) body of
              [] \<Rightarrow> None
            | x # xs \<Rightarrow> Some [last (x # xs)])
         else if list_ex isLineTerminator core then None
         else Some (take (k + length (takeWhile (\<lambda>c. \<not> isLineTerminator c) trail)) afterLead))"

definition calcMatch :: "string \<Rightarrow> string option" where
  "calcMatch s =
     (if toLowerCase (take 4 s) = ''calc'' then
        (case dropWhile isWhitespace (drop 4 s) of
           [] \<Rightarrow> None
         | c # rest \<Rightarrow>
             if c = CHR ''('' \<and> rest \<noteq> [] \<and> last rest = CHR '')''
             then calcGroup (butlast rest)
             else None)
      else None)"

text \<open>\<^verbatim>\<open>-?[\d.]+\<close> at the start of a string: the token and what follows it.\<close>

definition numToken :: "string \<Rightarrow> (string \<times> string) option" where
  "numToken s =
     (let neg = (s \<noteq> [] \<and> hd s = CHR ''-'');
          t = (if neg then tl s else s);
          ds = takeWhile isNumChar t
      in if ds = [] then None
         else Some ((if neg then ''-'' else []) @ ds, dropWhile isNumChar t))"

text \<open>An optional unit, the alternatives tried in the order written.\<close>

definition unitToken :: "string list \<Rightarrow> string \<Rightarrow> string option \<times> string" where
  "unitToken units s =
     (case find (\<lambda>u. prefix u s) units of
        None \<Rightarrow> (None, s)
      | Some u \<Rightarrow> (Some u, drop (length u) s))"

text \<open>
  \<^verbatim>\<open>/^(-?[\d.]+)(px|em|rem)?\s*([\+\-\*\/])\s*(-?[\d.]+)(px|em|rem)?$/\<close>: the five groups.
  Each piece of the pattern is followed by a piece that starts with a character outside
  its own class, so the greedy choice is the only one and no backtracking can find
  another match.
\<close>

definition binaryMatch :: "string \<Rightarrow> (string \<times> string option \<times> char \<times> string \<times> string option) option" where
  "binaryMatch s =
     (case numToken s of
        None \<Rightarrow> None
      | Some (n1, r1) \<Rightarrow>
          (let (u1, r2) = unitToken [''px'', ''em'', ''rem''] r1
           in case dropWhile isWhitespace r2 of
                [] \<Rightarrow> None
              | op # r4 \<Rightarrow>
                  if op \<in> set ''+-*/'' then
                    (case numToken (dropWhile isWhitespace r4) of
                       None \<Rightarrow> None
                     | Some (n2, r6) \<Rightarrow>
                         (let (u2, r7) = unitToken [''px'', ''em'', ''rem''] r6
                          in if r7 = [] then Some (n1, u1, op, n2, u2) else None))
                  else None))"

text \<open>\<^verbatim>\<open>/^(-?[\d.]+)(px|em|rem|%)?$/\<close>\<close>

definition lengthMatch :: "string \<Rightarrow> (string \<times> string option) option" where
  "lengthMatch s =
     (case numToken s of
        None \<Rightarrow> None
      | Some (n, r1) \<Rightarrow>
          (let (u, r2) = unitToken [''px'', ''em'', ''rem'', ''%''] r1
           in if r2 = [] then Some (n, u) else None))"

text \<open>\<^verbatim>\<open>unit === 'em' || unit === 'rem' ? num * baseFontSize : num\<close>, the unit defaulting
  to \<^verbatim>\<open>px\<close>.\<close>

definition toPx :: "jsnum \<Rightarrow> string option \<Rightarrow> real \<Rightarrow> jsnum" where
  "toPx num unit baseFontSize =
     (if unit = Some ''em'' \<or> unit = Some ''rem'' then jmul num (Fin baseFontSize) else num)"

lemma length_trim_le: "length (trim s) \<le> length s"
  unfolding trim_def
  by (metis length_rev length_dropWhile_le le_trans)

lemma calcGroup_length:
  assumes "calcGroup body = Some g"
  shows "length g \<le> length body"
proof (cases "filter (\<lambda>c. \<not> isLineTerminator c) body")
  case Nil
  then show ?thesis
    using assms length_dropWhile_le[of isWhitespace body]
    by (auto simp: calcGroup_def Let_def split: if_splits)
next
  case (Cons x xs)
  then have "body \<noteq> []" by auto
  then have "Suc 0 \<le> length body" by (cases body) auto
  then show ?thesis
    using assms Cons length_dropWhile_le[of isWhitespace body]
    by (auto simp: calcGroup_def Let_def split: if_splits)
qed

lemma calcMatch_shorter:
  assumes "calcMatch s = Some g"
  shows "length g < length s"
proof -
  from assms obtain c rest where dw: "dropWhile isWhitespace (drop 4 s) = c # rest"
    and rest: "rest \<noteq> []" and grp: "calcGroup (butlast rest) = Some g"
    by (auto simp: calcMatch_def split: if_splits list.splits)
  have "length (c # rest) \<le> length (drop 4 s)"
    using length_dropWhile_le[of isWhitespace "drop 4 s"] dw by simp
  then have "length rest < length s" by simp
  moreover have "length (butlast rest) < length rest" using rest by simp
  ultimately show ?thesis using calcGroup_length[OF grp] by linarith
qed

text \<open>
  \<^verbatim>\<open>parseLength\<close> hands a value that starts with \<^verbatim>\<open>calc(\<close> to \<^verbatim>\<open>parseCalc\<close>, and \<^verbatim>\<open>parseCalc\<close> hands
  the trimmed inside of the parentheses back to \<^verbatim>\<open>parseLength\<close> when it is not a binary
  expression. The result \<open>None\<close> is the source's \<^verbatim>\<open>null\<close>.
\<close>

function parseCalc :: "string \<Rightarrow> real \<Rightarrow> jsnum option"
  and parseLength :: "string \<Rightarrow> real \<Rightarrow> jsnum option" where
  "parseCalc value baseFontSize =
     (case calcMatch value of
        None \<Rightarrow> None
      | Some g \<Rightarrow>
          (case binaryMatch (trim g) of
             Some (n1, unit1, op, n2, unit2) \<Rightarrow>
               (let val1 = toPx (parseFloat n1) unit1 baseFontSize;
                    val2 = toPx (parseFloat n2) unit2 baseFontSize
                in if op = CHR ''+'' then Some (jadd val1 val2)
                   else if op = CHR ''-'' then Some (jsub val1 val2)
                   else if op = CHR ''*'' then Some (jmul val1 val2)
                   else if op = CHR ''/'' then (if val2 \<noteq> Fin 0 then Some (jdiv val1 val2) else None)
                   else parseLength (trim g) baseFontSize)
           | None \<Rightarrow> parseLength (trim g) baseFontSize))"
| "parseLength value baseFontSize =
     (if value = [] then None
      else if prefix ''calc('' (toLowerCase value) then parseCalc value baseFontSize
      else (case lengthMatch value of
              None \<Rightarrow> None
            | Some (n, u) \<Rightarrow>
                (let num = parseFloat n
                 in if u = None \<or> u = Some ''px'' then Some num
                    else if u = Some ''em'' \<or> u = Some ''rem'' then Some (jmul num (Fin baseFontSize))
                    else if u = Some ''%'' then None
                    else Some num)))"
  by pat_completeness auto
termination
proof (relation "measure (\<lambda>x. case x of Inl (v, b) \<Rightarrow> 2 * length v | Inr (v, b) \<Rightarrow> 2 * length v + 1)")
  show "wf (measure (\<lambda>x. case x of Inl (v, b) \<Rightarrow> 2 * length v | Inr (v, b) \<Rightarrow> 2 * length v + 1))"
    by simp
next
  fix "value" :: string and baseFontSize :: real and g
  assume "calcMatch value = Some g"
  then have "length (trim g) < length value"
    using calcMatch_shorter length_trim_le le_less_trans by blast
  then show "(Inr (trim g, baseFontSize), Inl (value, baseFontSize))
      \<in> measure (\<lambda>x. case x of Inl (v, b) \<Rightarrow> 2 * length v | Inr (v, b) \<Rightarrow> 2 * length v + 1)"
    by simp
next
  fix "value" :: string and baseFontSize :: real and g a b c d e f h
  assume "calcMatch value = Some g"
  then have "length (trim g) < length value"
    using calcMatch_shorter length_trim_le le_less_trans by blast
  then show "(Inr (trim g, baseFontSize), Inl (value, baseFontSize))
      \<in> measure (\<lambda>x. case x of Inl (v, b) \<Rightarrow> 2 * length v | Inr (v, b) \<Rightarrow> 2 * length v + 1)"
    by simp
next
  fix "value" :: string and baseFontSize :: real
  show "(Inl (value, baseFontSize), Inr (value, baseFontSize))
      \<in> measure (\<lambda>x. case x of Inl (v, b) \<Rightarrow> 2 * length v | Inr (v, b) \<Rightarrow> 2 * length v + 1)"
    by simp
qed

section \<open>Colours: \<^verbatim>\<open>hslToRgb\<close> and \<^verbatim>\<open>parseColor\<close>\<close>

record RGBA =
  rgba_r :: jsnum
  rgba_g :: jsnum
  rgba_b :: jsnum
  rgba_a :: jsnum

definition rgba :: "jsnum \<Rightarrow> jsnum \<Rightarrow> jsnum \<Rightarrow> jsnum \<Rightarrow> RGBA" where
  "rgba x y z w = \<lparr>rgba_r = x, rgba_g = y, rgba_b = z, rgba_a = w\<rparr>"

subsection \<open>Rounding to binary64\<close>

text \<open>
  Every operation of \<^verbatim>\<open>hslToRgb\<close> rounds its exact result to the nearest binary64 number,
  ties to the even one. \<open>exponent x\<close> is the exponent of the leading bit of a positive \<open>x\<close>,
  and -1022 for the numbers below 2 to the power -1022 (the subnormal ones); a number is
  rounded to a multiple of 2 to the power \<open>exponent - 52\<close>. The search for the exponent
  stops after 1023 halvings or 1022 doublings, the range of binary64; numbers of
  magnitude 2 to the power 1024 and more, which binary64 turns into an infinity, are
  outside the model.
\<close>

fun exponentDown :: "nat \<Rightarrow> real \<Rightarrow> int" where
  "exponentDown 0 x = 0"
| "exponentDown (Suc n) x = (if 1 \<le> x then 0 else exponentDown n (2 * x) - 1)"

fun exponentUp :: "nat \<Rightarrow> real \<Rightarrow> int" where
  "exponentUp 0 x = 0"
| "exponentUp (Suc n) x = (if x < 2 then 0 else exponentUp n (x / 2) + 1)"

definition exponent :: "real \<Rightarrow> int" where
  "exponent x = (if 1 \<le> x then exponentUp 1023 x else exponentDown 1022 x)"

definition roundHalfEven :: "real \<Rightarrow> int" where
  "roundHalfEven q =
     (let f = \<lfloor>q\<rfloor>; d = q - of_int f
      in if d < 1 / 2 then f else if 1 / 2 < d then f + 1 else if even f then f else f + 1)"

definition fl :: "real \<Rightarrow> real" where
  "fl x = (if x = 0 then 0
           else (let u = 2 powi (exponent \<bar>x\<bar> - 52) in of_int (roundHalfEven (x / u)) * u))"

fun jfl :: "jsnum \<Rightarrow> jsnum" where
  "jfl (Fin a) = Fin (fl a)"
| "jfl NaN = NaN"

text \<open>The four operations with their rounding. The remainder \<^verbatim>\<open>%\<close> of two binary64 numbers
  is a binary64 number and is not rounded.\<close>

definition fadd :: "jsnum \<Rightarrow> jsnum \<Rightarrow> jsnum" where
  "fadd a b = jfl (jadd a b)"

definition fsub :: "jsnum \<Rightarrow> jsnum \<Rightarrow> jsnum" where
  "fsub a b = jfl (jsub a b)"

definition fmul :: "jsnum \<Rightarrow> jsnum \<Rightarrow> jsnum" where
  "fmul a b = jfl (jmul a b)"

definition fdiv :: "jsnum \<Rightarrow> jsnum \<Rightarrow> jsnum" where
  "fdiv a b = jfl (jdiv a b)"

subsection \<open>\<^verbatim>\<open>hslToRgb\<close>\<close>

text \<open>\<^verbatim>\<open>hslToRgb(h, s, l)\<close>, line by line; the result is the triple \<open>(r, g, b)\<close>. Nothing
  clamps the three sums at the end.\<close>

definition hslToRgb :: "jsnum \<Rightarrow> jsnum \<Rightarrow> jsnum \<Rightarrow> jsnum \<times> jsnum \<times> jsnum" where
  "hslToRgb h0 s0 l0 =
     (let h = jmod (fadd (jmod h0 (Fin 360)) (Fin 360)) (Fin 360);
          s = jmax (Fin 0) (jmin (Fin 1) s0);
          l = jmax (Fin 0) (jmin (Fin 1) l0);
          c = fmul (fsub (Fin 1) (jabs (fsub (fmul (Fin 2) l) (Fin 1)))) s;
          x = fmul c (fsub (Fin 1) (jabs (fsub (jmod (fdiv h (Fin 60)) (Fin 2)) (Fin 1))));
          m = fsub l (fdiv c (Fin 2));
          (r, g, b) =
            (if jlt h (Fin 60) then (c, x, Fin 0)
             else if jlt h (Fin 120) then (x, c, Fin 0)
             else if jlt h (Fin 180) then (Fin 0, c, x)
             else if jlt h (Fin 240) then (Fin 0, x, c)
             else if jlt h (Fin 300) then (x, Fin 0, c)
             else (c, Fin 0, x))
      in (fadd r m, fadd g m, fadd b m))"

subsection \<open>The three patterns\<close>

text \<open>\<^verbatim>\<open>[0-9a-f]\<close> under the flag \<^verbatim>\<open>i\<close>.\<close>

definition isHexDigit :: "char \<Rightarrow> bool" where
  "isHexDigit c = (c \<in> set ''0123456789abcdefABCDEF'')"

text \<open>Group 1 of \<^verbatim>\<open>/^#([0-9a-f]{3,8})$/i\<close>.\<close>

definition hexMatch :: "string \<Rightarrow> string option" where
  "hexMatch s =
     (case s of
        [] \<Rightarrow> None
      | c # hex \<Rightarrow>
          if c = CHR ''#'' \<and> 3 \<le> length hex \<and> length hex \<le> 8 \<and> list_all isHexDigit hex
          then Some hex else None)"

text \<open>Pieces of a pattern, each applied at the start of what is left of the string and
  returning what follows the piece.\<close>

definition skipWs :: "string \<Rightarrow> string" where
  "skipWs s = dropWhile isWhitespace s"

definition lit :: "char \<Rightarrow> string \<Rightarrow> string option" where
  "lit c s = (case s of [] \<Rightarrow> None | x # xs \<Rightarrow> if x = c then Some xs else None)"

definition litCI :: "string \<Rightarrow> string \<Rightarrow> string option" where
  "litCI w s = (if toLowerCase (take (length w) s) = w then Some (drop (length w) s) else None)"

text \<open>\<^verbatim>\<open>a?\<close> under the flag \<^verbatim>\<open>i\<close>.\<close>

definition optA :: "string \<Rightarrow> string" where
  "optA s = (case s of [] \<Rightarrow> [] | x # xs \<Rightarrow> if toLowerChar x = CHR ''a'' then xs else s)"

text \<open>\<^verbatim>\<open>(\d+)\<close> and \<^verbatim>\<open>([\d.]+)\<close>: the longest run, which must not be empty.\<close>

definition run1 :: "(char \<Rightarrow> bool) \<Rightarrow> string \<Rightarrow> (string \<times> string) option" where
  "run1 P s = (if takeWhile P s = [] then None else Some (takeWhile P s, dropWhile P s))"

text \<open>\<^verbatim>\<open>(?:,\s*([\d.]+))?\s*\)\<close> after the white space that follows the third number: when a
  comma is there the group has to match (without it the closing parenthesis would have
  to stand where the comma is).\<close>

definition alphaTail :: "string \<Rightarrow> string option option" where
  "alphaTail s =
     (case lit (CHR '','') s of
        Some t \<Rightarrow>
          (case run1 isNumChar (skipWs t) of
             None \<Rightarrow> None
           | Some (g4, u) \<Rightarrow>
               (case lit (CHR '')'') (skipWs u) of None \<Rightarrow> None | Some _ \<Rightarrow> Some (Some g4)))
      | None \<Rightarrow>
          (case lit (CHR '')'') s of None \<Rightarrow> None | Some _ \<Rightarrow> Some None))"

text \<open>\<^verbatim>\<open>rgba?\s*\(\s*(\d+)\s*,\s*(\d+)\s*,\s*(\d+)\s*(?:,\s*([\d.]+))?\s*\)\<close> with the flag \<^verbatim>\<open>i\<close>,
  tried at the start of the given string. Each piece is followed by one that starts
  outside its class, so the greedy reading is the only one.\<close>

definition rgbAt :: "string \<Rightarrow> (string \<times> string \<times> string \<times> string option) option" where
  "rgbAt s = do {
     s1 \<leftarrow> litCI ''rgb'' s;
     s2 \<leftarrow> lit (CHR ''('') (skipWs (optA s1));
     (g1, s3) \<leftarrow> run1 isDigit (skipWs s2);
     s4 \<leftarrow> lit (CHR '','') (skipWs s3);
     (g2, s5) \<leftarrow> run1 isDigit (skipWs s4);
     s6 \<leftarrow> lit (CHR '','') (skipWs s5);
     (g3, s7) \<leftarrow> run1 isDigit (skipWs s6);
     g4 \<leftarrow> alphaTail (skipWs s7);
     Some (g1, g2, g3, g4)
   }"

text \<open>\<^verbatim>\<open>hsla?\s*\(\s*([\d.]+)\s*,\s*([\d.]+)%\s*,\s*([\d.]+)%\s*(?:,\s*([\d.]+))?\s*\)\<close> with the
  flag \<^verbatim>\<open>i\<close>, at the start of the given string.\<close>

definition hslAt :: "string \<Rightarrow> (string \<times> string \<times> string \<times> string option) option" where
  "hslAt s = do {
     s1 \<leftarrow> litCI ''hsl'' s;
     s2 \<leftarrow> lit (CHR ''('') (skipWs (optA s1));
     (g1, s3) \<leftarrow> run1 isNumChar (skipWs s2);
     s4 \<leftarrow> lit (CHR '','') (skipWs s3);
     (g2, s5) \<leftarrow> run1 isNumChar (skipWs s4);
     s6 \<leftarrow> lit (CHR ''%'') s5;
     s7 \<leftarrow> lit (CHR '','') (skipWs s6);
     (g3, s8) \<leftarrow> run1 isNumChar (skipWs s7);
     s9 \<leftarrow> lit (CHR ''%'') s8;
     g4 \<leftarrow> alphaTail (skipWs s9);
     Some (g1, g2, g3, g4)
   }"

text \<open>A pattern that is not anchored matches at the leftmost position where it can.\<close>

fun searchFrom :: "(string \<Rightarrow> 'a option) \<Rightarrow> string \<Rightarrow> 'a option" where
  "searchFrom m [] = m []"
| "searchFrom m (c # cs) = (case m (c # cs) of Some x \<Rightarrow> Some x | None \<Rightarrow> searchFrom m cs)"

definition rgbMatch :: "string \<Rightarrow> (string \<times> string \<times> string \<times> string option) option" where
  "rgbMatch s = searchFrom rgbAt s"

definition hslMatch :: "string \<Rightarrow> (string \<times> string \<times> string \<times> string option) option" where
  "hslMatch s = searchFrom hslAt s"

subsection \<open>The named colours\<close>

text \<open>The own entries of the table \<^verbatim>\<open>namedColors\<close>.\<close>

definition namedColors :: "(string \<times> RGBA) list" where
  "namedColors =
     [(''white'', rgba (Fin 1) (Fin 1) (Fin 1) (Fin 1)),
      (''black'', rgba (Fin 0) (Fin 0) (Fin 0) (Fin 1)),
      (''red'', rgba (Fin 1) (Fin 0) (Fin 0) (Fin 1)),
      (''green'', rgba (Fin 0) (Fin (128 / 255)) (Fin 0) (Fin 1)),
      (''blue'', rgba (Fin 0) (Fin 0) (Fin 1) (Fin 1)),
      (''yellow'', rgba (Fin 1) (Fin 1) (Fin 0) (Fin 1)),
      (''transparent'', rgba (Fin 0) (Fin 0) (Fin 0) (Fin 0)),
      (''gray'', rgba (Fin (128 / 255)) (Fin (128 / 255)) (Fin (128 / 255)) (Fin 1)),
      (''grey'', rgba (Fin (128 / 255)) (Fin (128 / 255)) (Fin (128 / 255)) (Fin 1)),
      (''silver'', rgba (Fin (192 / 255)) (Fin (192 / 255)) (Fin (192 / 255)) (Fin 1)),
      (''darkgray'', rgba (Fin (169 / 255)) (Fin (169 / 255)) (Fin (169 / 255)) (Fin 1)),
      (''darkgrey'', rgba (Fin (169 / 255)) (Fin (169 / 255)) (Fin (169 / 255)) (Fin 1)),
      (''lightgray'', rgba (Fin (211 / 255)) (Fin (211 / 255)) (Fin (211 / 255)) (Fin 1)),
      (''lightgrey'', rgba (Fin (211 / 255)) (Fin (211 / 255)) (Fin (211 / 255)) (Fin 1)),
      (''orange'', rgba (Fin 1) (Fin (165 / 255)) (Fin 0) (Fin 1)),
      (''purple'', rgba (Fin (128 / 255)) (Fin 0) (Fin (128 / 255)) (Fin 1)),
      (''pink'', rgba (Fin 1) (Fin (192 / 255)) (Fin (203 / 255)) (Fin 1)),
      (''brown'', rgba (Fin (165 / 255)) (Fin (42 / 255)) (Fin (42 / 255)) (Fin 1)),
      (''cyan'', rgba (Fin 0) (Fin 1) (Fin 1) (Fin 1)),
      (''aqua'', rgba (Fin 0) (Fin 1) (Fin 1) (Fin 1)),
      (''magenta'', rgba (Fin 1) (Fin 0) (Fin 1) (Fin 1)),
      (''fuchsia'', rgba (Fin 1) (Fin 0) (Fin 1) (Fin 1)),
      (''lime'', rgba (Fin 0) (Fin 1) (Fin 0) (Fin 1)),
      (''teal'', rgba (Fin 0) (Fin (128 / 255)) (Fin (128 / 255)) (Fin 1)),
      (''navy'', rgba (Fin 0) (Fin 0) (Fin (128 / 255)) (Fin 1)),
      (''maroon'', rgba (Fin (128 / 255)) (Fin 0) (Fin 0) (Fin 1)),
      (''olive'', rgba (Fin (128 / 255)) (Fin (128 / 255)) (Fin 0) (Fin 1)),
      (''coral'', rgba (Fin 1) (Fin (127 / 255)) (Fin (80 / 255)) (Fin 1)),
      (''salmon'', rgba (Fin (250 / 255)) (Fin (128 / 255)) (Fin (114 / 255)) (Fin 1)),
      (''tomato'', rgba (Fin 1) (Fin (99 / 255)) (Fin (71 / 255)) (Fin 1)),
      (''gold'', rgba (Fin 1) (Fin (215 / 255)) (Fin 0) (Fin 1)),
      (''khaki'', rgba (Fin (240 / 255)) (Fin (230 / 255)) (Fin (140 / 255)) (Fin 1)),
      (''violet'', rgba (Fin (238 / 255)) (Fin (130 / 255)) (Fin (238 / 255)) (Fin 1)),
      (''indigo'', rgba (Fin (75 / 255)) (Fin 0) (Fin (130 / 255)) (Fin 1)),
      (''plum'', rgba (Fin (221 / 255)) (Fin (160 / 255)) (Fin (221 / 255)) (Fin 1)),
      (''orchid'', rgba (Fin (218 / 255)) (Fin (112 / 255)) (Fin (214 / 255)) (Fin 1)),
      (''turquoise'', rgba (Fin (64 / 255)) (Fin (224 / 255)) (Fin (208 / 255)) (Fin 1)),
      (''skyblue'', rgba (Fin (135 / 255)) (Fin (206 / 255)) (Fin (235 / 255)) (Fin 1)),
      (''steelblue'', rgba (Fin (70 / 255)) (Fin (130 / 255)) (Fin (180 / 255)) (Fin 1)),
      (''royalblue'', rgba (Fin (65 / 255)) (Fin (105 / 255)) (Fin (225 / 255)) (Fin 1)),
      (''slateblue'', rgba (Fin (106 / 255)) (Fin (90 / 255)) (Fin (205 / 255)) (Fin 1)),
      (''darkblue'', rgba (Fin 0) (Fin 0) (Fin (139 / 255)) (Fin 1)),
      (''lightblue'', rgba (Fin (173 / 255)) (Fin (216 / 255)) (Fin (230 / 255)) (Fin 1)),
      (''dodgerblue'', rgba (Fin (30 / 255)) (Fin (144 / 255)) (Fin (255 / 255)) (Fin 1)),
      (''forestgreen'', rgba (Fin (34 / 255)) (Fin (139 / 255)) (Fin (34 / 255)) (Fin 1)),
      (''seagreen'', rgba (Fin (46 / 255)) (Fin (139 / 255)) (Fin (87 / 255)) (Fin 1)),
      (''darkgreen'', rgba (Fin 0) (Fin (100 / 255)) (Fin 0) (Fin 1)),
      (''lightgreen'', rgba (Fin (144 / 255)) (Fin (238 / 255)) (Fin (144 / 255)) (Fin 1)),
      (''limegreen'', rgba (Fin (50 / 255)) (Fin (205 / 255)) (Fin (50 / 255)) (Fin 1)),
      (''crimson'', rgba (Fin (220 / 255)) (Fin (20 / 255)) (Fin (60 / 255)) (Fin 1)),
      (''firebrick'', rgba (Fin (178 / 255)) (Fin (34 / 255)) (Fin (34 / 255)) (Fin 1)),
      (''darkred'', rgba (Fin (139 / 255)) (Fin 0) (Fin 0) (Fin 1)),
      (''hotpink'', rgba (Fin 1) (Fin (105 / 255)) (Fin (180 / 255)) (Fin 1)),
      (''deeppink'', rgba (Fin 1) (Fin (20 / 255)) (Fin (147 / 255)) (Fin 1)),
      (''chocolate'', rgba (Fin (210 / 255)) (Fin (105 / 255)) (Fin (30 / 255)) (Fin 1)),
      (''sienna'', rgba (Fin (160 / 255)) (Fin (82 / 255)) (Fin (45 / 255)) (Fin 1)),
      (''tan'', rgba (Fin (210 / 255)) (Fin (180 / 255)) (Fin (140 / 255)) (Fin 1)),
      (''wheat'', rgba (Fin (245 / 255)) (Fin (222 / 255)) (Fin (179 / 255)) (Fin 1)),
      (''beige'', rgba (Fin (245 / 255)) (Fin (245 / 255)) (Fin (220 / 255)) (Fin 1)),
      (''ivory'', rgba (Fin 1) (Fin 1) (Fin (240 / 255)) (Fin 1)),
      (''snow'', rgba (Fin 1) (Fin (250 / 255)) (Fin (250 / 255)) (Fin 1)),
      (''whitesmoke'', rgba (Fin (245 / 255)) (Fin (245 / 255)) (Fin (245 / 255)) (Fin 1)),
      (''aliceblue'', rgba (Fin (240 / 255)) (Fin (248 / 255)) (Fin 1) (Fin 1)),
      (''ghostwhite'', rgba (Fin (248 / 255)) (Fin (248 / 255)) (Fin 1) (Fin 1)),
      (''lavender'', rgba (Fin (230 / 255)) (Fin (230 / 255)) (Fin (250 / 255)) (Fin 1)),
      (''mintcream'', rgba (Fin (245 / 255)) (Fin 1) (Fin (250 / 255)) (Fin 1))]"

text \<open>
  What \<^verbatim>\<open>parseColor\<close> returns when it does not return \<^verbatim>\<open>null\<close>: a colour, or a member that
  the table, an object literal, inherits from \<^verbatim>\<open>Object.prototype\<close>. The key looked up has
  been put in lower case, and two inherited members have a name in lower case:
  \<^verbatim>\<open>constructor\<close> (the function \<^verbatim>\<open>Object\<close>) and \<^verbatim>\<open>__proto__\<close> (the prototype itself). Both are
  truthy, so \<^verbatim>\<open>|| null\<close> lets them through. No own key has one of the two names.
\<close>

datatype colorValue = Color RGBA | ObjectConstructor | ObjectPrototype

text \<open>\<^verbatim>\<open>namedColors[key]\<close>, \<open>None\<close> for \<^verbatim>\<open>undefined\<close>.\<close>

definition namedLookup :: "string \<Rightarrow> colorValue option" where
  "namedLookup key =
     (case map_of namedColors key of
        Some c \<Rightarrow> Some (Color c)
      | None \<Rightarrow>
          if key = ''constructor'' then Some ObjectConstructor
          else if key = ''__proto__'' then Some ObjectPrototype
          else None)"

subsection \<open>\<^verbatim>\<open>parseColor\<close>\<close>

text \<open>\<^verbatim>\<open>rgbMatch[4] !== undefined ? parseFloat(rgbMatch[4]) : 1\<close>\<close>

definition alphaOf :: "string option \<Rightarrow> jsnum" where
  "alphaOf g4 = (case g4 of None \<Rightarrow> Fin 1 | Some t \<Rightarrow> parseFloat t)"

text \<open>\<^verbatim>\<open>parseInt(pair, 16) / 255\<close>\<close>

definition hexChannel :: "string \<Rightarrow> jsnum" where
  "hexChannel pair = jdiv (parseInt pair 16) (Fin 255)"

definition hexColor :: "string \<Rightarrow> RGBA option" where
  "hexColor hex =
     (if length hex = 3 then
        Some (rgba (hexChannel [hex ! 0, hex ! 0]) (hexChannel [hex ! 1, hex ! 1])
                   (hexChannel [hex ! 2, hex ! 2]) (Fin 1))
      else if length hex = 6 then
        Some (rgba (hexChannel (take 2 hex)) (hexChannel (take 2 (drop 2 hex)))
                   (hexChannel (take 2 (drop 4 hex))) (Fin 1))
      else if length hex = 8 then
        Some (rgba (hexChannel (take 2 hex)) (hexChannel (take 2 (drop 2 hex)))
                   (hexChannel (take 2 (drop 4 hex))) (hexChannel (take 2 (drop 6 hex))))
      else None)"

text \<open>What follows the hex branch: the functional forms, then the table. The numbers given
  to \<^verbatim>\<open>hslToRgb\<close> are binary64 numbers: what \<^verbatim>\<open>parseFloat\<close> reads, rounded, and its rounded
  quotient by 100.\<close>

definition functionalOrNamed :: "string \<Rightarrow> colorValue option" where
  "functionalOrNamed colorStr =
     (case rgbMatch colorStr of
        Some (g1, g2, g3, g4) \<Rightarrow>
          Some (Color (rgba (jdiv (parseInt g1 10) (Fin 255)) (jdiv (parseInt g2 10) (Fin 255))
                            (jdiv (parseInt g3 10) (Fin 255)) (alphaOf g4)))
      | None \<Rightarrow>
          (case hslMatch colorStr of
             Some (g1, g2, g3, g4) \<Rightarrow>
               (let h = jfl (parseFloat g1);
                    s = fdiv (jfl (parseFloat g2)) (Fin 100);
                    l = fdiv (jfl (parseFloat g3)) (Fin 100);
                    a = alphaOf g4;
                    (r, g, b) = hslToRgb h s l
                in Some (Color (rgba r g b a)))
           | None \<Rightarrow> namedLookup (toLowerCase colorStr)))"

definition parseColor :: "string \<Rightarrow> colorValue option" where
  "parseColor colorStr =
     (if colorStr = [] then None
      else (case hexMatch colorStr of
              Some hex \<Rightarrow>
                (case hexColor hex of
                   Some c \<Rightarrow> Some (Color c)
                 | None \<Rightarrow> functionalOrNamed colorStr)
            | None \<Rightarrow> functionalOrNamed colorStr))"

subsection \<open>What the colour claims speak about\<close>

text \<open>A channel normalized to the interval from 0 to 1, and a quadruple of such channels.\<close>

definition inUnit :: "jsnum \<Rightarrow> bool" where
  "inUnit v = (case v of NaN \<Rightarrow> False | Fin x \<Rightarrow> 0 \<le> x \<and> x \<le> 1)"

definition normalized :: "RGBA \<Rightarrow> bool" where
  "normalized c = (inUnit (rgba_r c) \<and> inUnit (rgba_g c) \<and> inUnit (rgba_b c) \<and> inUnit (rgba_a c))"

text \<open>The functional forms write numbers; these are the conditions under which what is
  written stays in range: an integer up to 255 for a channel of \<^verbatim>\<open>rgb\<close>, a well-formed number
  up to 1 for the alpha.\<close>

definition byteOk :: "string \<Rightarrow> bool" where
  "byteOk g = (case parseInt g 10 of NaN \<Rightarrow> False | Fin n \<Rightarrow> n \<le> 255)"

definition alphaOk :: "string option \<Rightarrow> bool" where
  "alphaOk g4 = (case g4 of None \<Rightarrow> True | Some t \<Rightarrow> (case parseFloat t of NaN \<Rightarrow> False | Fin x \<Rightarrow> x \<le> 1))"

text \<open>
  The integers a hex colour writes, read off the digits by table and independently of
  \<^verbatim>\<open>parseInt\<close>: every digit doubled for three digits, pairs of digits for six and eight,
  and an alpha of 255 when no alpha pair is written. \<open>toByte\<close> is the conversion of a
  channel back to an integer, \<^verbatim>\<open>Math.round(x * 255)\<close>.
\<close>

definition hexTable :: "(char \<times> nat) list" where
  "hexTable = zip ''0123456789abcdef'' [0..<16] @ zip ''ABCDEF'' [10..<16]"

definition hexDigitValue :: "char \<Rightarrow> nat" where
  "hexDigitValue c = (case map_of hexTable c of None \<Rightarrow> 0 | Some v \<Rightarrow> v)"

definition hexBytes :: "string \<Rightarrow> nat list" where
  "hexBytes hex =
     (let v = (\<lambda>i. hexDigitValue (hex ! i)) in
      if length hex = 3 then [16 * v 0 + v 0, 16 * v 1 + v 1, 16 * v 2 + v 2, 255]
      else if length hex = 6 then [16 * v 0 + v 1, 16 * v 2 + v 3, 16 * v 4 + v 5, 255]
      else [16 * v 0 + v 1, 16 * v 2 + v 3, 16 * v 4 + v 5, 16 * v 6 + v 7])"

fun toByte :: "jsnum \<Rightarrow> int option" where
  "toByte NaN = None"
| "toByte (Fin x) = Some \<lfloor>x * 255 + 1 / 2\<rfloor>"

section \<open>The source tree: elements and their styles\<close>

text \<open>
  \<^verbatim>\<open>ParsedStyle\<close> and \<^verbatim>\<open>ParsedElement\<close> of the shared types, with the fields the modelled
  code reads. A field that may be absent is an option; of a colour, a gradient or a list
  of shadows only whether it is there is read, which is what the three booleans record.
  Elements reach the plugin as JSON, so their numbers are ordinary (finite) numbers.
\<close>

datatype display = Flex | InlineFlex | Block | Inline | InlineBlock | DisplayNone

datatype flexDirection = Row | Column | RowReverse | ColumnReverse

datatype justifyContent =
  JustifyFlexStart | JustifyFlexEnd | JustifyCenter | JustifySpaceBetween | JustifySpaceAround
  | JustifySpaceEvenly

datatype alignItems = AlignFlexStart | AlignFlexEnd | AlignCenter | AlignStretch | AlignBaseline

datatype position = Static | Relative | Absolute | Fixed

text \<open>\<^verbatim>\<open>number | 'auto' | 'fill'\<close> and \<^verbatim>\<open>number | 'auto'\<close>\<close>

datatype dimension = DimNumber real | DimAuto | DimFill

datatype marginValue = MarginNumber real | MarginAuto

text \<open>\<^verbatim>\<open>number | 'normal' | 'bold'\<close>\<close>

datatype fontWeight = WeightNumber real | WeightNormal | WeightBold

datatype fontStyleValue = FontNormal | FontItalic | FontOblique

datatype textAlign = TextLeft | TextCenter | TextRight | TextJustify

datatype flexWrap = NoWrap | Wrap | WrapReverse

record ParsedStyle =
  display :: "display option"
  flexDirection :: "flexDirection option"
  justifyContent :: "justifyContent option"
  alignItems :: "alignItems option"
  gap :: "real option"
  flexGrow :: "real option"
  flexWrap :: "flexWrap option"
  position :: "position option"
  top :: "real option"
  right :: "real option"
  bottom :: "real option"
  left :: "real option"
  zIndex :: "real option"
  width :: "dimension option"
  height :: "dimension option"
  padding :: "real option"
  paddingTop :: "real option"
  paddingRight :: "real option"
  paddingBottom :: "real option"
  paddingLeft :: "real option"
  margin :: "real option"
  marginTop :: "marginValue option"
  marginRight :: "marginValue option"
  marginBottom :: "marginValue option"
  marginLeft :: "marginValue option"
  backgroundColor :: bool
  backgroundGradient :: bool
  borderRadius :: "real option"
  borderWidth :: "real option"
  boxShadow :: bool
  fontWeight :: "fontWeight option"
  fontStyle :: "fontStyleValue option"
  fontFamily :: "string option"
  textAlign :: "textAlign option"
  scaleX :: "real option"
  scaleY :: "real option"

text \<open>The style with no field set.\<close>

definition noStyle :: ParsedStyle where
  "noStyle =
     \<lparr>display = None, flexDirection = None, justifyContent = None, alignItems = None, gap = None,
      flexGrow = None, flexWrap = None, position = None, top = None, right = None, bottom = None,
      left = None, zIndex = None, width = None, height = None, padding = None, paddingTop = None,
      paddingRight = None, paddingBottom = None, paddingLeft = None, margin = None,
      marginTop = None, marginRight = None, marginBottom = None, marginLeft = None,
      backgroundColor = False, backgroundGradient = False, borderRadius = None,
      borderWidth = None, boxShadow = False, fontWeight = None, fontStyle = None,
      fontFamily = None, textAlign = None, scaleX = None, scaleY = None\<rparr>"

datatype ParsedElement =
  ParsedElement (tagName: string) (styles: ParsedStyle) (textContent: "string option")
    (children: "ParsedElement list")

text \<open>\<^verbatim>\<open>a ?? b\<close> for a number that may be absent.\<close>

definition orElse :: "real option \<Rightarrow> real \<Rightarrow> real" where
  "orElse a b = (case a of None \<Rightarrow> b | Some v \<Rightarrow> v)"

text \<open>\<^verbatim>\<open>typeof m === 'number' ? m : 0\<close> for a margin.\<close>

definition marginNumber :: "marginValue option \<Rightarrow> real" where
  "marginNumber m = (case m of Some (MarginNumber v) \<Rightarrow> v | _ \<Rightarrow> 0)"

section \<open>The target tree: nodes of the host document\<close>

text \<open>
  \<^verbatim>\<open>src/plugin/html-parser.ts\<close> builds frames and text nodes of the host (Figma) document
  and writes their properties. A node is modelled by the properties the modelled code
  reads or writes and by its children; \<open>nodeId\<close> stands for the identity of the object, the
  key of the side tables (\<^verbatim>\<open>WeakMap\<close>, \<^verbatim>\<open>Map\<close>). Properties are plain cells: the host's own
  layout engine, which may move or resize nodes after a write, is not modelled, and
  \<^verbatim>\<open>resize\<close> stores its two arguments (the host's checks on them are left out).
\<close>

datatype layoutMode = NONE | HORIZONTAL | VERTICAL

datatype LayoutSizing = FIXED | FILL | HUG

datatype layoutPositioning = AUTO | ABSOLUTE

datatype axisSizingMode = AXIS_FIXED | AXIS_AUTO

datatype axisAlignItems = ALIGN_MIN | ALIGN_MAX | ALIGN_CENTER | SPACE_BETWEEN

record NodeProps =
  nodeId :: nat
  name :: string
  hasLayoutMode :: bool
  width :: real
  height :: real
  layoutMode :: layoutMode
  primaryAxisSizingMode :: axisSizingMode
  counterAxisSizingMode :: axisSizingMode
  primaryAxisAlignItems :: axisAlignItems
  counterAxisAlignItems :: axisAlignItems
  itemSpacing :: real
  paddingTop :: real
  paddingRight :: real
  paddingBottom :: real
  paddingLeft :: real
  layoutWrap :: bool
  layoutSizingHorizontal :: LayoutSizing
  layoutSizingVertical :: LayoutSizing
  layoutPositioning :: layoutPositioning

datatype SceneNode = SceneNode (props: NodeProps) (childNodes: "SceneNode list")

definition mapProps :: "(NodeProps \<Rightarrow> NodeProps) \<Rightarrow> SceneNode \<Rightarrow> SceneNode" where
  "mapProps f n = SceneNode (f (props n)) (childNodes n)"

text \<open>\<^verbatim>\<open>node.resize(w, h)\<close>\<close>

definition resize :: "real \<Rightarrow> real \<Rightarrow> NodeProps \<Rightarrow> NodeProps" where
  "resize w h p = p\<lparr>width := w, height := h\<rparr>"

text \<open>
  \<^verbatim>\<open>safeSetLayoutSizingHorizontal\<close> and \<^verbatim>\<open>safeSetLayoutSizingVertical\<close>: the assignment inside
  \<^verbatim>\<open>try\<close>, whose failure is ignored. As the source's comment has it, the assignment works
  only if the node is a child of an auto-layout parent; \<open>inAutoLayout\<close> says whether it is.
\<close>

definition safeSetLayoutSizingHorizontal :: "bool \<Rightarrow> LayoutSizing \<Rightarrow> NodeProps \<Rightarrow> NodeProps" where
  "safeSetLayoutSizingHorizontal inAutoLayout v p =
     (if inAutoLayout then p\<lparr>layoutSizingHorizontal := v\<rparr> else p)"

definition safeSetLayoutSizingVertical :: "bool \<Rightarrow> LayoutSizing \<Rightarrow> NodeProps \<Rightarrow> NodeProps" where
  "safeSetLayoutSizingVertical inAutoLayout v p =
     (if inAutoLayout then p\<lparr>layoutSizingVertical := v\<rparr> else p)"

text \<open>The names by which the synthetic boxes are recognised.\<close>

definition isSpacerOrWrapper :: "string \<Rightarrow> bool" where
  "isSpacerOrWrapper n = (n = ''spacer'' \<or> n = ''margin-spacer'' \<or> n = ''margin-wrapper'')"

definition isSideMargin :: "string \<Rightarrow> bool" where
  "isSideMargin n = (n = ''margin-left'' \<or> n = ''margin-right'')"

text \<open>\<^verbatim>\<open>flexGrow !== undefined && flexGrow > 0\<close> for the weight found in a table. (The local
  variable \<^verbatim>\<open>flexGrow\<close> of the source is called \<open>growth\<close> below, \<open>flexGrow\<close> being the field of
  the style.)\<close>

definition positiveWeight :: "real option \<Rightarrow> bool" where
  "positiveWeight w = (case w of None \<Rightarrow> False | Some g \<Rightarrow> 0 < g)"

section \<open>\<^verbatim>\<open>recalculateNestedFlex\<close>\<close>

text \<open>The first loop of the horizontal case: the sum of the weights, the size of the other
  children, the number of children counted.\<close>

fun nestedTotals :: "(nat \<rightharpoonup> real) \<Rightarrow> SceneNode list \<Rightarrow> real \<times> real \<times> nat \<Rightarrow> real \<times> real \<times> nat" where
  "nestedTotals nestedFlexGrowMap [] acc = acc"
| "nestedTotals nestedFlexGrowMap (child # rest) (totalFlexGrow, fixedSize, gapCount) =
     (if isSpacerOrWrapper (name (props child)) \<or> isSideMargin (name (props child))
      then nestedTotals nestedFlexGrowMap rest (totalFlexGrow, fixedSize, gapCount)
      else (case nestedFlexGrowMap (nodeId (props child)) of
              Some growth \<Rightarrow>
                if 0 < growth
                then nestedTotals nestedFlexGrowMap rest (totalFlexGrow + growth, fixedSize, Suc gapCount)
                else nestedTotals nestedFlexGrowMap rest
                       (totalFlexGrow, fixedSize + width (props child), Suc gapCount)
            | None \<Rightarrow> nestedTotals nestedFlexGrowMap rest
                       (totalFlexGrow, fixedSize + width (props child), Suc gapCount)))"

text \<open>The body of the second loop (vertical frames): a horizontal child whose content is
  spread with space between is resized to the content width of the frame.\<close>

definition fillSpaceBetweenChild :: "real \<Rightarrow> SceneNode \<Rightarrow> SceneNode" where
  "fillSpaceBetweenChild contentWidth child =
     (if \<not> hasLayoutMode (props child) then child
      else if isSpacerOrWrapper (name (props child)) then child
      else if layoutMode (props child) = HORIZONTAL \<and> primaryAxisAlignItems (props child) = SPACE_BETWEEN
      then mapProps (\<lambda>p. (safeSetLayoutSizingHorizontal True FIXED (resize contentWidth (height p) p))
                            \<lparr>primaryAxisSizingMode := AXIS_FIXED, primaryAxisAlignItems := SPACE_BETWEEN\<rparr>) child
      else child)"

fun nodeCount :: "SceneNode \<Rightarrow> nat" where
  "nodeCount (SceneNode p kids) = Suc (sum_list (map nodeCount kids))"

lemma nodeCount_mapProps: "nodeCount (mapProps f n) = nodeCount n"
  by (cases n) (simp add: mapProps_def)

lemma nodeCount_member: "c \<in> set kids \<Longrightarrow> nodeCount c \<le> sum_list (map nodeCount kids)"
  by (induction kids) auto

lemma nodeCount_fill: "nodeCount (fillSpaceBetweenChild w c) = nodeCount c"
  by (simp add: fillSpaceBetweenChild_def nodeCount_mapProps)

text \<open>
  The source runs three loops over the children of the frame: (1) in a horizontal frame,
  when the weights sum to a positive number and space is left, every counted child with a
  positive weight is resized to its share, set to \<open>FIXED\<close> and, being a frame, recalculated
  with its new width; (2) in a vertical frame, \<open>fillSpaceBetweenChild\<close>; (3) in every
  frame, each child frame that is not a spacer or wrapper and was not a weighted child of
  a horizontal frame is recalculated with its current width. The sums of loop (1) are
  taken before any child is changed, a child changed by loop (1) is passed over by loop
  (3), and loop (2) runs only where loop (1) does not; so the three loops are the same as
  one pass that does to each child what the three loops do to it, which is how the
  function is written here.
\<close>

function recalculateNestedFlex :: "(nat \<rightharpoonup> real) \<Rightarrow> SceneNode \<Rightarrow> real \<Rightarrow> SceneNode" where
  "recalculateNestedFlex nestedFlexGrowMap (SceneNode frame kids) newWidth =
     (if kids = [] then SceneNode frame kids
      else
        (let (totalFlexGrow, fixedSize, gapCount) = nestedTotals nestedFlexGrowMap kids (0, 0, 0);
             totalGaps = (if 1 < gapCount then real (gapCount - 1) * itemSpacing frame else 0);
             availableSpace = newWidth - paddingLeft frame - paddingRight frame - fixedSize - totalGaps;
             grows = (layoutMode frame = HORIZONTAL \<and> 0 < totalFlexGrow \<and> 0 < availableSpace);
             contentWidth = newWidth - paddingLeft frame - paddingRight frame
         in SceneNode frame
              (map (\<lambda>child.
                 (let growth = nestedFlexGrowMap (nodeId (props child));
                      counted = (\<not> isSpacerOrWrapper (name (props child)) \<and> \<not> isSideMargin (name (props child)))
                  in if grows \<and> counted \<and> positiveWeight growth then
                       (let calculatedSize = availableSpace * (the growth / totalFlexGrow);
                            resized = mapProps (\<lambda>p. safeSetLayoutSizingHorizontal True FIXED
                                                       (resize calculatedSize (height p) p)) child
                        in if hasLayoutMode (props child)
                           then recalculateNestedFlex nestedFlexGrowMap resized calculatedSize
                           else resized)
                     else
                       (let child2 = (if layoutMode frame = VERTICAL
                                      then fillSpaceBetweenChild contentWidth child else child)
                        in if \<not> hasLayoutMode (props child) then child2
                           else if isSpacerOrWrapper (name (props child)) then child2
                           else if positiveWeight growth \<and> layoutMode frame = HORIZONTAL then child2
                           else recalculateNestedFlex nestedFlexGrowMap child2 (width (props child2)))))
                 kids)))"
  by pat_completeness auto
termination
  by (relation "measure (\<lambda>(m, n, w). nodeCount n)")
     (auto simp: nodeCount_mapProps nodeCount_fill less_Suc_eq_le nodeCount_member)

declare recalculateNestedFlex.simps [simp del]

section \<open>The proportional distribution of flexible space\<close>

text \<open>
  The pass at the end of \<^verbatim>\<open>createFigmaNode\<close> (``Handle flex-grow proportional
  distribution''). \<open>flexGrowMap\<close> is the \<^verbatim>\<open>Map\<close> from child nodes to weights, as the list of its
  entries in insertion order (the order in which \<^verbatim>\<open>for ... of\<close> visits them); \<open>frame\<close> is the
  container with its children.
\<close>

text \<open>The loop that sums up: weights of the counted children that have a positive weight,
  sizes of the other counted children, number of counted children.\<close>

fun flexTotals :: "bool \<Rightarrow> (nat \<rightharpoonup> real) \<Rightarrow> SceneNode list \<Rightarrow> real \<times> real \<times> nat \<Rightarrow> real \<times> real \<times> nat" where
  "flexTotals isHorizontal flexGrowOf [] acc = acc"
| "flexTotals isHorizontal flexGrowOf (child # rest) (totalFlexGrow, fixedSize, gapCount) =
     (if layoutPositioning (props child) = ABSOLUTE
      then flexTotals isHorizontal flexGrowOf rest (totalFlexGrow, fixedSize, gapCount)
      else if isSpacerOrWrapper (name (props child)) \<or> isSideMargin (name (props child))
      then flexTotals isHorizontal flexGrowOf rest (totalFlexGrow, fixedSize, gapCount)
      else (case flexGrowOf (nodeId (props child)) of
              Some growth \<Rightarrow>
                if 0 < growth
                then flexTotals isHorizontal flexGrowOf rest (totalFlexGrow + growth, fixedSize, Suc gapCount)
                else flexTotals isHorizontal flexGrowOf rest
                       (totalFlexGrow,
                        fixedSize + (if isHorizontal then width (props child) else height (props child)),
                        Suc gapCount)
            | None \<Rightarrow> flexTotals isHorizontal flexGrowOf rest
                       (totalFlexGrow,
                        fixedSize + (if isHorizontal then width (props child) else height (props child)),
                        Suc gapCount)))"

text \<open>The body of the loop over the entries, for the child of the entry.\<close>

definition growChild :: "bool \<Rightarrow> (nat \<rightharpoonup> real) \<Rightarrow> real \<Rightarrow> SceneNode \<Rightarrow> SceneNode" where
  "growChild isHorizontal nestedFlexGrowMap calculatedSize childNode =
     (if isHorizontal then
        recalculateNestedFlex nestedFlexGrowMap
          (mapProps (\<lambda>p. safeSetLayoutSizingHorizontal True FIXED (resize calculatedSize (height p) p)) childNode)
          calculatedSize
      else
        mapProps (\<lambda>p. safeSetLayoutSizingVertical True FIXED (resize (width p) calculatedSize p)) childNode)"

text \<open>A write to the node with a given identity, among the children of the frame.\<close>

definition updateNode :: "nat \<Rightarrow> (SceneNode \<Rightarrow> SceneNode) \<Rightarrow> SceneNode list \<Rightarrow> SceneNode list" where
  "updateNode k f kids = map (\<lambda>c. if nodeId (props c) = k then f c else c) kids"

fun distributeEntries ::
  "bool \<Rightarrow> (nat \<rightharpoonup> real) \<Rightarrow> real \<Rightarrow> real \<Rightarrow> (nat \<times> real) list \<Rightarrow> SceneNode list \<Rightarrow> SceneNode list" where
  "distributeEntries isHorizontal nestedFlexGrowMap availableSpace totalFlexGrow [] kids = kids"
| "distributeEntries isHorizontal nestedFlexGrowMap availableSpace totalFlexGrow ((k, growth) # rest) kids =
     distributeEntries isHorizontal nestedFlexGrowMap availableSpace totalFlexGrow rest
       (updateNode k
          (growChild isHorizontal nestedFlexGrowMap (availableSpace * (growth / totalFlexGrow)))
          kids)"

text \<open>\<^verbatim>\<open>containerSize - paddingStart - paddingEnd - fixedSize - totalGaps\<close>, with the width
  stored in \<^verbatim>\<open>intendedFixedWidth\<close> taking the place of the frame's width when there is one.\<close>

definition flexAvailableSpace :: "(nat \<rightharpoonup> real) \<Rightarrow> NodeProps \<Rightarrow> real \<Rightarrow> nat \<Rightarrow> real" where
  "flexAvailableSpace intendedFixedWidth frame fixedSize gapCount =
     (let isHorizontal = (layoutMode frame = HORIZONTAL);
          containerSize =
            (if isHorizontal
             then (case intendedFixedWidth (nodeId frame) of Some storedWidth \<Rightarrow> storedWidth | None \<Rightarrow> width frame)
             else height frame);
          paddingStart = (if isHorizontal then paddingLeft frame else paddingTop frame);
          paddingEnd = (if isHorizontal then paddingRight frame else paddingBottom frame);
          totalGaps = real (gapCount - 1) * itemSpacing frame
      in containerSize - paddingStart - paddingEnd - fixedSize - totalGaps)"

definition flexGrowDistribution ::
  "(nat \<times> real) list \<Rightarrow> (nat \<rightharpoonup> real) \<Rightarrow> (nat \<rightharpoonup> real) \<Rightarrow> SceneNode \<Rightarrow> SceneNode" where
  "flexGrowDistribution flexGrowMap intendedFixedWidth nestedFlexGrowMap frame =
     (if flexGrowMap \<noteq> [] \<and> layoutMode (props frame) \<noteq> NONE then
        (let isHorizontal = (layoutMode (props frame) = HORIZONTAL);
             (totalFlexGrow, fixedSize, gapCount) =
               flexTotals isHorizontal (map_of flexGrowMap) (childNodes frame) (0, 0, 0)
         in if 0 < totalFlexGrow \<and> 1 < gapCount then
              (let availableSpace = flexAvailableSpace intendedFixedWidth (props frame) fixedSize gapCount
               in if 0 < availableSpace
                  then SceneNode (props frame)
                         (distributeEntries isHorizontal nestedFlexGrowMap availableSpace totalFlexGrow
                            flexGrowMap (childNodes frame))
                  else frame)
            else frame)
      else frame)"

text \<open>The words of the claims: a child is counted when it is not absolutely positioned and
  not a synthetic spacer or wrapper; the growth axis is the layout axis of the frame.\<close>

definition countedChild :: "SceneNode \<Rightarrow> bool" where
  "countedChild c =
     (layoutPositioning (props c) \<noteq> ABSOLUTE \<and> \<not> isSpacerOrWrapper (name (props c))
      \<and> \<not> isSideMargin (name (props c)))"

definition axisSize :: "bool \<Rightarrow> SceneNode \<Rightarrow> real" where
  "axisSize isHorizontal c = (if isHorizontal then width (props c) else height (props c))"

definition axisSizing :: "bool \<Rightarrow> SceneNode \<Rightarrow> LayoutSizing" where
  "axisSizing isHorizontal c =
     (if isHorizontal then layoutSizingHorizontal (props c) else layoutSizingVertical (props c))"


subsection \<open>A fresh frame and two example containers\<close>

text \<open>What \<^verbatim>\<open>figma.createFrame()\<close> returns, as far as the modelled properties go: a frame of
  100 by 100 without auto layout.\<close>

definition newFrame :: "nat \<Rightarrow> NodeProps" where
  "newFrame i =
     \<lparr>nodeId = i, name = ''Frame'', hasLayoutMode = True, width = 100, height = 100,
      layoutMode = NONE, primaryAxisSizingMode = AXIS_AUTO, counterAxisSizingMode = AXIS_FIXED,
      primaryAxisAlignItems = ALIGN_MIN, counterAxisAlignItems = ALIGN_MIN, itemSpacing = 0,
      paddingTop = 0, paddingRight = 0, paddingBottom = 0, paddingLeft = 0, layoutWrap = False,
      layoutSizingHorizontal = FIXED, layoutSizingVertical = FIXED, layoutPositioning = AUTO\<rparr>"

definition exampleRow :: SceneNode where
  "exampleRow =
     SceneNode ((newFrame 0)\<lparr>layoutMode := HORIZONTAL, width := 500, paddingLeft := 10,
                              paddingRight := 10, itemSpacing := 10\<rparr>)
       [SceneNode ((newFrame 1)\<lparr>name := ''img'', width := 50\<rparr>) [],
        SceneNode ((newFrame 2)\<lparr>name := ''div'', layoutSizingHorizontal := FILL\<rparr>) [],
        SceneNode ((newFrame 3)\<lparr>name := ''div'', layoutSizingHorizontal := FILL\<rparr>) [],
        SceneNode ((newFrame 4)\<lparr>name := ''div'', layoutSizingHorizontal := FILL\<rparr>) []]"

definition exampleSingle :: SceneNode where
  "exampleSingle =
     SceneNode ((newFrame 0)\<lparr>layoutMode := HORIZONTAL, width := 500\<rparr>)
       [SceneNode ((newFrame 1)\<lparr>name := ''margin-left'', width := 20\<rparr>) [],
        SceneNode ((newFrame 2)\<lparr>name := ''div'', layoutSizingHorizontal := FILL\<rparr>) [],
        SceneNode ((newFrame 3)\<lparr>name := ''div'', layoutPositioning := ABSOLUTE\<rparr>) []]"

subsection \<open>The placeholder of a relatively offset child\<close>

text \<open>
  After the loop over the regular children, \<^verbatim>\<open>createFigmaNode\<close> goes through the children
  with \<^verbatim>\<open>position: relative\<close> and an offset. For each it creates a frame named
  \<^verbatim>\<open>relative-placeholder\<close> of the size of the child, inserts it at the index of the child,
  copies the two sizing modes of the child to it, makes the child \<^verbatim>\<open>ABSOLUTE\<close> and appends
  the child to the parent again, which moves it behind its siblings. This happens before
  the distribution pass. \<open>fresh\<close> is the identity of the new frame; the position written to
  the child is not among the modelled properties.
\<close>

definition relativePlaceholder :: "nat \<Rightarrow> SceneNode \<Rightarrow> SceneNode" where
  "relativePlaceholder fresh node =
     SceneNode
       ((resize (width (props node)) (height (props node))
           ((newFrame fresh)\<lparr>name := ''relative-placeholder''\<rparr>))
          \<lparr>layoutSizingHorizontal := layoutSizingHorizontal (props node),
           layoutSizingVertical := layoutSizingVertical (props node)\<rparr>)
       []"

fun placeRelative :: "nat \<Rightarrow> nat \<Rightarrow> SceneNode list \<Rightarrow> SceneNode list" where
  "placeRelative fresh k [] = []"
| "placeRelative fresh k (c # rest) =
     (if nodeId (props c) = k
      then relativePlaceholder fresh c # rest @ [mapProps (\<lambda>p. p\<lparr>layoutPositioning := ABSOLUTE\<rparr>) c]
      else c # placeRelative fresh k rest)"

text \<open>
  A row 500 wide as the loop over the regular children leaves it for three children with
  \<^verbatim>\<open>flex-grow\<close> 1, 1 and 2, each 100 wide and filling; the ledger of the row; and the row
  after the placeholder step for its second child, which has \<^verbatim>\<open>position: relative\<close> and an
  offset.
\<close>

definition exampleFlexRow :: SceneNode where
  "exampleFlexRow =
     SceneNode ((newFrame 0)\<lparr>layoutMode := HORIZONTAL, width := 500\<rparr>)
       [SceneNode ((newFrame 1)\<lparr>name := ''div'', layoutSizingHorizontal := FILL\<rparr>) [],
        SceneNode ((newFrame 2)\<lparr>name := ''div'', layoutSizingHorizontal := FILL\<rparr>) [],
        SceneNode ((newFrame 3)\<lparr>name := ''div'', layoutSizingHorizontal := FILL\<rparr>) []]"

definition exampleLedger :: "(nat \<times> real) list" where
  "exampleLedger = [(1, 1), (2, 1), (3, 2)]"

definition exampleRelativeRow :: SceneNode where
  "exampleRelativeRow = SceneNode (props exampleFlexRow) (placeRelative 4 2 (childNodes exampleFlexRow))"

section \<open>\<^verbatim>\<open>applyFrameStyles\<close>: layout and size of a frame\<close>

text \<open>
  The side tables of the module: \<^verbatim>\<open>pendingLayoutSizing\<close>, \<^verbatim>\<open>intendedFixedWidth\<close>,
  \<^verbatim>\<open>explicitAlignItems\<close>, keyed by the node. The record held for a node in
  \<^verbatim>\<open>pendingLayoutSizing\<close> has the two optional entries \<^verbatim>\<open>horizontal\<close> and \<^verbatim>\<open>height\<close>.
\<close>

record PendingSizing =
  pendingHorizontal :: "LayoutSizing option"
  pendingHeight :: "LayoutSizing option"

record SideTables =
  pendingLayoutSizing :: "nat \<rightharpoonup> PendingSizing"
  intendedFixedWidth :: "nat \<rightharpoonup> real"
  explicitAlignItems :: "nat \<rightharpoonup> bool"

definition noTables :: SideTables where
  "noTables = \<lparr>pendingLayoutSizing = Map.empty, intendedFixedWidth = Map.empty,
               explicitAlignItems = Map.empty\<rparr>"

text \<open>\<^verbatim>\<open>const pending = pendingLayoutSizing.get(frame) || {}\<close>, one entry written, the record
  stored again.\<close>

definition getPending :: "SideTables \<Rightarrow> nat \<Rightarrow> PendingSizing" where
  "getPending t i =
     (case pendingLayoutSizing t i of
        None \<Rightarrow> \<lparr>pendingHorizontal = None, pendingHeight = None\<rparr>
      | Some r \<Rightarrow> r)"

definition setPendingHorizontal :: "nat \<Rightarrow> LayoutSizing \<Rightarrow> SideTables \<Rightarrow> SideTables" where
  "setPendingHorizontal i v t =
     t\<lparr>pendingLayoutSizing := (pendingLayoutSizing t)(i \<mapsto> (getPending t i)\<lparr>pendingHorizontal := Some v\<rparr>)\<rparr>"

definition setPendingHeight :: "nat \<Rightarrow> LayoutSizing \<Rightarrow> SideTables \<Rightarrow> SideTables" where
  "setPendingHeight i v t =
     t\<lparr>pendingLayoutSizing := (pendingLayoutSizing t)(i \<mapsto> (getPending t i)\<lparr>pendingHeight := Some v\<rparr>)\<rparr>"

definition isSpaceJustify :: "justifyContent option \<Rightarrow> bool" where
  "isSpaceJustify j =
     (j = Some JustifySpaceBetween \<or> j = Some JustifySpaceAround \<or> j = Some JustifySpaceEvenly)"

text \<open>
  ``Auto Layout'': under \<^verbatim>\<open>display: flex\<close> the direction, the two alignments, the gap and
  the wrap. The debugging name given to a frame that spreads its content starts with
  \<^verbatim>\<open>SB \<close> and goes on with numbers printed; only the prefix is kept here.
\<close>

definition applyAutoLayout :: "ParsedStyle \<Rightarrow> NodeProps \<times> SideTables \<Rightarrow> NodeProps \<times> SideTables" where
  "applyAutoLayout st = (\<lambda>(frame, t).
     if display st = Some Flex then
       (let f1 = frame\<lparr>layoutMode :=
                   (if flexDirection st = Some Column \<or> flexDirection st = Some ColumnReverse
                    then VERTICAL else HORIZONTAL)\<rparr>;
            f2 = (case justifyContent st of
                    Some JustifyFlexStart \<Rightarrow> f1\<lparr>primaryAxisAlignItems := ALIGN_MIN\<rparr>
                  | Some JustifyFlexEnd \<Rightarrow> f1\<lparr>primaryAxisAlignItems := ALIGN_MAX\<rparr>
                  | Some JustifyCenter \<Rightarrow> f1\<lparr>primaryAxisAlignItems := ALIGN_CENTER\<rparr>
                  | Some _ \<Rightarrow> f1\<lparr>primaryAxisAlignItems := SPACE_BETWEEN, name := ''SB ''\<rparr>
                  | None \<Rightarrow> f1);
            (f3, t3) = (case alignItems st of
                    Some AlignFlexStart \<Rightarrow>
                      (f2\<lparr>counterAxisAlignItems := ALIGN_MIN\<rparr>,
                       t\<lparr>explicitAlignItems := (explicitAlignItems t)(nodeId frame \<mapsto> True)\<rparr>)
                  | Some AlignFlexEnd \<Rightarrow>
                      (f2\<lparr>counterAxisAlignItems := ALIGN_MAX\<rparr>,
                       t\<lparr>explicitAlignItems := (explicitAlignItems t)(nodeId frame \<mapsto> True)\<rparr>)
                  | Some AlignCenter \<Rightarrow>
                      (f2\<lparr>counterAxisAlignItems := ALIGN_CENTER\<rparr>,
                       t\<lparr>explicitAlignItems := (explicitAlignItems t)(nodeId frame \<mapsto> True)\<rparr>)
                  | _ \<Rightarrow> (f2, t));
            f4 = (case gap st of None \<Rightarrow> f3 | Some g \<Rightarrow> f3\<lparr>itemSpacing := g\<rparr>);
            f5 = (if flexWrap st = Some Wrap \<or> flexWrap st = Some WrapReverse
                  then f4\<lparr>layoutWrap := True, primaryAxisSizingMode := AXIS_FIXED\<rparr> else f4)
        in (f5, t3))
     else (frame, t))"

text \<open>The padding added to a numeric width or height: twice the shorthand when the
  shorthand is set, else the two sides, an absent side counting 0.\<close>

definition paddingAdded :: "real option \<Rightarrow> real option \<Rightarrow> real option \<Rightarrow> real" where
  "paddingAdded shorthand side1 side2 =
     (case shorthand of
        Some p \<Rightarrow> p * 2
      | None \<Rightarrow> orElse side1 0 + orElse side2 0)"

text \<open>``Sizing'', the width.\<close>

definition applyWidth :: "ParsedStyle \<Rightarrow> real option \<Rightarrow> NodeProps \<times> SideTables \<Rightarrow> NodeProps \<times> SideTables" where
  "applyWidth st parentWidth = (\<lambda>(frame, t).
     case ParsedStyle.width st of
       Some (DimNumber w) \<Rightarrow>
         (let totalWidth = w + paddingAdded (ParsedStyle.padding st) (ParsedStyle.paddingLeft st)
                                 (ParsedStyle.paddingRight st);
              f1 = resize totalWidth (height frame) frame;
              f2 = (if layoutMode f1 = VERTICAL then f1\<lparr>counterAxisSizingMode := AXIS_FIXED\<rparr>
                    else if layoutMode f1 = HORIZONTAL then f1\<lparr>primaryAxisSizingMode := AXIS_FIXED\<rparr>
                    else f1)
          in (f2, setPendingHorizontal (nodeId frame) FIXED t))
     | Some DimFill \<Rightarrow> (frame, setPendingHorizontal (nodeId frame) FILL t)
     | Some DimAuto \<Rightarrow> (frame, setPendingHorizontal (nodeId frame) HUG t)
     | None \<Rightarrow>
         (case parentWidth of
            None \<Rightarrow> (frame, t)
          | Some pw \<Rightarrow>
              (let isAbsolutePositioned = (position st = Some Absolute \<or> position st = Some Fixed);
                   hasLeftAndRight = (left st \<noteq> None \<and> right st \<noteq> None);
                   isInlineDisplay = (display st = Some Inline \<or> display st = Some InlineFlex
                                      \<or> display st = Some InlineBlock)
               in if \<not> isAbsolutePositioned \<and> \<not> isInlineDisplay then
                    (let availableWidth = pw - marginNumber (marginLeft st) - marginNumber (marginRight st)
                     in if 0 < availableWidth then
                          (let f1 = resize availableWidth (height frame) frame;
                               t1 = setPendingHorizontal (nodeId frame) FIXED t;
                               spread = (layoutMode f1 = HORIZONTAL \<and> isSpaceJustify (justifyContent st));
                               f2 = (if layoutMode f1 = HORIZONTAL
                                     then f1\<lparr>primaryAxisSizingMode := AXIS_FIXED\<rparr> else f1);
                               t2 = (if spread
                                     then t1\<lparr>intendedFixedWidth :=
                                              (intendedFixedWidth t1)(nodeId frame \<mapsto> availableWidth)\<rparr>
                                     else t1)
                           in (f2, t2))
                        else (frame, t))
                  else if hasLeftAndRight then
                    (let availableWidth = pw - orElse (left st) 0 - orElse (right st) 0
                     in if 0 < availableWidth then (resize availableWidth (height frame) frame, t)
                        else (frame, t))
                  else (frame, t))))"

text \<open>``Sizing'', the height.\<close>

definition applyHeight :: "ParsedStyle \<Rightarrow> NodeProps \<times> SideTables \<Rightarrow> NodeProps \<times> SideTables" where
  "applyHeight st = (\<lambda>(frame, t).
     case ParsedStyle.height st of
       Some (DimNumber h) \<Rightarrow>
         (let totalHeight = h + paddingAdded (ParsedStyle.padding st) (ParsedStyle.paddingTop st)
                                  (ParsedStyle.paddingBottom st);
              f1 = resize (width frame) totalHeight frame;
              f2 = (if layoutMode f1 = HORIZONTAL then f1\<lparr>counterAxisSizingMode := AXIS_FIXED\<rparr>
                    else if layoutMode f1 = VERTICAL then f1\<lparr>primaryAxisSizingMode := AXIS_FIXED\<rparr>
                    else f1)
          in (f2, setPendingHeight (nodeId frame) FIXED t))
     | Some DimFill \<Rightarrow> (frame, setPendingHeight (nodeId frame) FILL t)
     | Some DimAuto \<Rightarrow> (frame, setPendingHeight (nodeId frame) HUG t)
     | None \<Rightarrow> (frame, t))"

text \<open>``Padding'': the shorthand on the four sides, then each side that is set.\<close>

definition applyPadding :: "ParsedStyle \<Rightarrow> NodeProps \<Rightarrow> NodeProps" where
  "applyPadding st frame =
     (let f0 = (case ParsedStyle.padding st of
                  None \<Rightarrow> frame
                | Some p \<Rightarrow> frame\<lparr>paddingTop := p, paddingRight := p, paddingBottom := p, paddingLeft := p\<rparr>);
          f1 = (case ParsedStyle.paddingTop st of None \<Rightarrow> f0 | Some p \<Rightarrow> f0\<lparr>paddingTop := p\<rparr>);
          f2 = (case ParsedStyle.paddingRight st of None \<Rightarrow> f1 | Some p \<Rightarrow> f1\<lparr>paddingRight := p\<rparr>);
          f3 = (case ParsedStyle.paddingBottom st of None \<Rightarrow> f2 | Some p \<Rightarrow> f2\<lparr>paddingBottom := p\<rparr>)
      in (case ParsedStyle.paddingLeft st of None \<Rightarrow> f3 | Some p \<Rightarrow> f3\<lparr>paddingLeft := p\<rparr>))"

text \<open>``Scale transform - resize frame to simulate scale''.\<close>

definition applyScale :: "ParsedStyle \<Rightarrow> NodeProps \<Rightarrow> NodeProps" where
  "applyScale st frame =
     (if scaleX st \<noteq> None \<or> scaleY st \<noteq> None
      then resize (width frame * orElse (scaleX st) 1) (height frame * orElse (scaleY st) 1) frame
      else frame)"

text \<open>``Text alignment for frames''.\<close>

definition applyTextAlign :: "ParsedStyle \<Rightarrow> NodeProps \<Rightarrow> NodeProps" where
  "applyTextAlign st frame =
     (case textAlign st of
        None \<Rightarrow> frame
      | Some ta \<Rightarrow>
          (let f1 = (if layoutMode frame = NONE
                     then frame\<lparr>layoutMode := VERTICAL, primaryAxisSizingMode := AXIS_AUTO,
                                counterAxisSizingMode := AXIS_FIXED\<rparr>
                     else frame);
               al = (case ta of
                       TextCenter \<Rightarrow> Some ALIGN_CENTER
                     | TextRight \<Rightarrow> Some ALIGN_MAX
                     | TextLeft \<Rightarrow> Some ALIGN_MIN
                     | TextJustify \<Rightarrow> None)
           in case al of
                None \<Rightarrow> f1
              | Some v \<Rightarrow>
                  if layoutMode f1 = VERTICAL then f1\<lparr>counterAxisAlignItems := v\<rparr>
                  else if layoutMode f1 = HORIZONTAL then f1\<lparr>primaryAxisAlignItems := v\<rparr>
                  else f1))"

text \<open>
  \<^verbatim>\<open>applyFrameStyles(frame, styles, parentWidth)\<close>, its writes to the modelled properties and
  tables in the order of the source. What lies between the padding and the scale (fills,
  corner radius, strokes, opacity, effects, visibility, rotation), the minimum and
  maximum sizes and the clipping write other properties and are left out.
\<close>

definition applyFrameStyles ::
  "NodeProps \<Rightarrow> ParsedStyle \<Rightarrow> real option \<Rightarrow> SideTables \<Rightarrow> NodeProps \<times> SideTables" where
  "applyFrameStyles frame st parentWidth t =
     (let (f1, t1) = applyHeight st (applyWidth st parentWidth (applyAutoLayout st (frame, t)))
      in (applyTextAlign st (applyScale st (applyPadding st f1)), t1))"

section \<open>Attaching a frame: the pending sizing is applied\<close>

text \<open>
  In \<^verbatim>\<open>createFigmaNode\<close>: \<^verbatim>\<open>parent.appendChild(frame)\<close> and, when the parent has auto layout,
  the two entries of the record pending for the frame, each applied if it is set. The
  result is the parent with its new last child, and the tables.
\<close>

definition applyPendingSizing :: "SideTables \<Rightarrow> NodeProps \<Rightarrow> NodeProps" where
  "applyPendingSizing t frame =
     (case pendingLayoutSizing t (nodeId frame) of
        None \<Rightarrow> frame
      | Some pending \<Rightarrow>
          (let f1 = (case pendingHorizontal pending of
                       None \<Rightarrow> frame
                     | Some v \<Rightarrow> safeSetLayoutSizingHorizontal True v frame)
           in case pendingHeight pending of
                None \<Rightarrow> f1
              | Some v \<Rightarrow> safeSetLayoutSizingVertical True v f1))"

definition attachFrame :: "SceneNode \<Rightarrow> SceneNode \<Rightarrow> SideTables \<Rightarrow> SceneNode \<times> SideTables" where
  "attachFrame parent frame t =
     (let attached =
            (if hasLayoutMode (props parent) \<and> layoutMode (props parent) \<noteq> NONE
             then mapProps (applyPendingSizing t) frame
             else frame)
      in (SceneNode (props parent) (childNodes parent @ [attached]), t))"

subsection \<open>Examples\<close>

text \<open>An element of width 200 and height 100 with a padding of 20; a frame of width 200
  carried through \<^verbatim>\<open>applyFrameStyles\<close>, with the table it leaves, and a vertical parent.\<close>

definition exampleBoxStyle :: ParsedStyle where
  "exampleBoxStyle = noStyle\<lparr>ParsedStyle.width := Some (DimNumber 200),
                            ParsedStyle.height := Some (DimNumber 100),
                            ParsedStyle.padding := Some 20\<rparr>"

definition examplePendingTables :: SideTables where
  "examplePendingTables =
     snd (applyFrameStyles (newFrame 1) (noStyle\<lparr>ParsedStyle.width := Some (DimNumber 200)\<rparr>) None noTables)"

definition exampleParent :: SceneNode where
  "exampleParent = SceneNode ((newFrame 0)\<lparr>layoutMode := VERTICAL\<rparr>) []"

definition exampleChild :: SceneNode where
  "exampleChild =
     SceneNode (fst (applyFrameStyles (newFrame 1) (noStyle\<lparr>ParsedStyle.width := Some (DimNumber 200)\<rparr>)
                       None noTables)\<lparr>layoutSizingHorizontal := HUG\<rparr>) []"

section \<open>\<^verbatim>\<open>createFigmaNode\<close> and \<^verbatim>\<open>handleCreateComponent\<close>: boxes created, fonts loaded, failures\<close>

text \<open>
  This part follows the control flow of \<^verbatim>\<open>createFigmaNode\<close> and of its caller
  \<^verbatim>\<open>handleCreateComponent\<close> (\<^verbatim>\<open>src/plugin/code.ts\<close>) as far as it decides which nodes are created,
  in which order they become children of their parent, which fonts are asked of the host
  and what is thrown. Sizes and the other properties of the nodes are not part of it
  (the size of a text node is the host's); they are the subject of the sections above.

  The host is represented by the fonts it can load and by a state that counts the nodes
  created so far and logs the fonts asked for. A failure is a value: the \<open>Inl\<close> of the result.
\<close>

type_synonym FontName = "string \<times> string"

datatype error = NoElements | FontLoadFailed FontName

record Host =
  created :: nat
  loads :: "FontName list"

text \<open>\<^verbatim>\<open>figma.createFrame()\<close> and \<^verbatim>\<open>figma.createText()\<close>, for the state of the host.\<close>

definition createNode :: "Host \<Rightarrow> Host" where
  "createNode h = h\<lparr>created := Suc (created h)\<rparr>"

text \<open>\<^verbatim>\<open>await figma.loadFontAsync(font)\<close>: rejected when the host cannot load the font.\<close>

definition loadFontAsync :: "(FontName \<Rightarrow> bool) \<Rightarrow> FontName \<Rightarrow> Host \<Rightarrow> (error + unit) \<times> Host" where
  "loadFontAsync fonts font h =
     (if fonts font then Inr () else Inl (FontLoadFailed font), h\<lparr>loads := loads h @ [font]\<rparr>)"

text \<open>
  The nested \<^verbatim>\<open>try\<close>/\<^verbatim>\<open>catch\<close> around the loading of the font of a text node (it stands twice
  in \<^verbatim>\<open>createFigmaNode\<close>, once for a text leaf and once for the text of a frame): the font
  asked for, in the first \<^verbatim>\<open>catch\<close> Inter in the same style, in the second \<^verbatim>\<open>catch\<close> Inter
  Regular, whose rejection nothing catches. The result is the font given to the node.
\<close>

definition loadFontWithFallback ::
  "(FontName \<Rightarrow> bool) \<Rightarrow> string \<Rightarrow> string \<Rightarrow> Host \<Rightarrow> (error + FontName) \<times> Host" where
  "loadFontWithFallback fonts family style h =
     (case loadFontAsync fonts (family, style) h of
        (Inr _, h1) \<Rightarrow> (Inr (family, style), h1)
      | (Inl _, h1) \<Rightarrow>
          (case loadFontAsync fonts (''Inter'', style) h1 of
             (Inr _, h2) \<Rightarrow> (Inr (''Inter'', style), h2)
           | (Inl _, h2) \<Rightarrow>
               (case loadFontAsync fonts (''Inter'', ''Regular'') h2 of
                  (Inr _, h3) \<Rightarrow> (Inr (''Inter'', ''Regular''), h3)
                | (Inl e, h3) \<Rightarrow> (Inl e, h3))))"

subsection \<open>The font asked for\<close>

text \<open>\<^verbatim>\<open>styles.fontFamily || 'Inter'\<close>\<close>

definition fontFamilyOf :: "ParsedStyle \<Rightarrow> string" where
  "fontFamilyOf st = (case fontFamily st of None \<Rightarrow> ''Inter'' | Some f \<Rightarrow> if f = [] then ''Inter'' else f)"

definition isItalic :: "ParsedStyle \<Rightarrow> bool" where
  "isItalic st = (fontStyle st = Some FontItalic \<or> fontStyle st = Some FontOblique)"

text \<open>
  The style derived from weight and slant. \<^verbatim>\<open>if (styles.fontWeight)\<close> passes over an absent
  weight and the number 0. The text leaf knows the style Light, the text of a frame does
  not: \<open>withLight\<close> tells the two sites apart.
\<close>

definition derivedFontStyle :: "bool \<Rightarrow> ParsedStyle \<Rightarrow> string" where
  "derivedFontStyle withLight st =
     (let italic = isItalic st;
          weighted = (case fontWeight st of None \<Rightarrow> False | Some (WeightNumber n) \<Rightarrow> n \<noteq> 0 | Some _ \<Rightarrow> True);
          weight = (case fontWeight st of
                      Some (WeightNumber n) \<Rightarrow> n
                    | Some WeightBold \<Rightarrow> 700
                    | _ \<Rightarrow> 400)
      in if weighted then
           (if 700 \<le> weight then (if italic then ''Bold Italic'' else ''Bold'')
            else if 600 \<le> weight then (if italic then ''Semi Bold Italic'' else ''Semi Bold'')
            else if 500 \<le> weight then (if italic then ''Medium Italic'' else ''Medium'')
            else if withLight \<and> weight \<le> 300 then (if italic then ''Light Italic'' else ''Light'')
            else (if italic then ''Italic'' else ''Regular''))
         else if italic then ''Italic'' else ''Regular'')"

text \<open>For a text leaf, a tag that starts with \<^verbatim>\<open>h\<close> makes the style bold.\<close>

definition leafFontStyle :: "ParsedElement \<Rightarrow> string" where
  "leafFontStyle element =
     (if take 1 (tagName element) = ''h''
      then (if isItalic (styles element) then ''Bold Italic'' else ''Bold'')
      else derivedFontStyle True (styles element))"

subsection \<open>Text leaf or frame\<close>

definition textTags :: "string list" where
  "textTags = [''span'', ''p'', ''h1'', ''h2'', ''h3'', ''h4'', ''h5'', ''h6'', ''label'', ''a'']"

text \<open>\<^verbatim>\<open>textContent\<close> in a condition: there and not empty.\<close>

definition hasText :: "ParsedElement \<Rightarrow> bool" where
  "hasText element = (case textContent element of None \<Rightarrow> False | Some s \<Rightarrow> s \<noteq> [])"

definition hasFlexProperties :: "ParsedStyle \<Rightarrow> bool" where
  "hasFlexProperties st = positiveWeight (flexGrow st)"

definition hasFrameStyles :: "ParsedStyle \<Rightarrow> bool" where
  "hasFrameStyles st =
     (ParsedStyle.padding st \<noteq> None \<or> ParsedStyle.paddingTop st \<noteq> None
      \<or> ParsedStyle.paddingRight st \<noteq> None \<or> ParsedStyle.paddingBottom st \<noteq> None
      \<or> ParsedStyle.paddingLeft st \<noteq> None \<or> backgroundColor st \<or> backgroundGradient st
      \<or> borderRadius st \<noteq> None \<or> borderWidth st \<noteq> None \<or> boxShadow st)"

definition isTextLeaf :: "ParsedElement \<Rightarrow> bool" where
  "isTextLeaf element =
     (tagName element \<in> set textTags \<and> hasText element \<and> children element = []
      \<and> \<not> hasFlexProperties (styles element) \<and> \<not> hasFrameStyles (styles element))"

text \<open>
  The layout mode of the frame of an element when its children are created: set from the
  display and the presence of content, then by \<^verbatim>\<open>applyFrameStyles\<close> (display flex, text
  alignment), then for a button.
\<close>

definition frameLayoutMode :: "ParsedElement \<Rightarrow> layoutMode" where
  "frameLayoutMode element =
     (let st = styles element;
          hasChildren = (children element \<noteq> [] \<or> hasText element);
          isFlexDisplay = (display st = Some Flex \<or> display st = Some InlineFlex);
          isColumn = (flexDirection st = Some Column \<or> flexDirection st = Some ColumnReverse);
          m0 = (if isFlexDisplay \<or> hasChildren
                then (if isFlexDisplay then (if isColumn then VERTICAL else HORIZONTAL) else VERTICAL)
                else NONE);
          m1 = (if display st = Some Flex then (if isColumn then VERTICAL else HORIZONTAL) else m0);
          m2 = (if textAlign st \<noteq> None \<and> m1 = NONE then VERTICAL else m1)
      in if tagName element = ''button'' \<and> m2 = NONE then HORIZONTAL else m2)"

subsection \<open>The order of the children\<close>

text \<open>
  The children of an element are split into those positioned absolutely (or fixed), kept
  with their index among the children, and the others. The former are sorted with the
  comparator of the source: by \<^verbatim>\<open>zIndex ?? 0\<close>, then by index. The comparator is a strict total
  order on children of different index, so every sorting algorithm returns the same list;
  insertion into a sorted list stands for \<^verbatim>\<open>Array.prototype.sort\<close>. The regular children
  carry their index here as well, for the statement of where their boxes end up (the source
  has no use for it).
\<close>

definition isAbsoluteElement :: "ParsedElement \<Rightarrow> bool" where
  "isAbsoluteElement child = (position (styles child) = Some Absolute \<or> position (styles child) = Some Fixed)"

definition indexed :: "ParsedElement list \<Rightarrow> (ParsedElement \<times> nat) list" where
  "indexed kids = zip kids [0..<length kids]"

definition zIndexOf :: "ParsedElement \<times> nat \<Rightarrow> real" where
  "zIndexOf a = orElse (zIndex (styles (fst a))) 0"

text \<open>The value the comparator returns.\<close>

definition absoluteCompare :: "ParsedElement \<times> nat \<Rightarrow> ParsedElement \<times> nat \<Rightarrow> real" where
  "absoluteCompare a b =
     (if zIndexOf a \<noteq> zIndexOf b then zIndexOf a - zIndexOf b else real (snd a) - real (snd b))"

fun insertAbsolute :: "ParsedElement \<times> nat \<Rightarrow> (ParsedElement \<times> nat) list \<Rightarrow> (ParsedElement \<times> nat) list" where
  "insertAbsolute a [] = [a]"
| "insertAbsolute a (b # bs) =
     (if absoluteCompare a b \<le> 0 then a # b # bs else b # insertAbsolute a bs)"

definition sortAbsolute :: "(ParsedElement \<times> nat) list \<Rightarrow> (ParsedElement \<times> nat) list" where
  "sortAbsolute xs = foldr insertAbsolute xs []"

definition absoluteChildren :: "ParsedElement list \<Rightarrow> (ParsedElement \<times> nat) list" where
  "absoluteChildren kids = sortAbsolute (filter (\<lambda>a. isAbsoluteElement (fst a)) (indexed kids))"

definition regularChildren :: "ParsedElement list \<Rightarrow> (ParsedElement \<times> nat) list" where
  "regularChildren kids = filter (\<lambda>a. \<not> isAbsoluteElement (fst a)) (indexed kids)"

definition absoluteBeforeContent :: "ParsedElement list \<Rightarrow> (ParsedElement \<times> nat) list" where
  "absoluteBeforeContent kids = filter (\<lambda>a. zIndexOf a < 1) (absoluteChildren kids)"

definition absoluteAfterContent :: "ParsedElement list \<Rightarrow> (ParsedElement \<times> nat) list" where
  "absoluteAfterContent kids = filter (\<lambda>a. \<not> zIndexOf a < 1) (absoluteChildren kids)"

subsection \<open>Boxes\<close>

text \<open>
  A created node: its name, whether it is a text node and with which font, its
  positioning, its children. \<open>origin\<close> is the index, among the children of the parent
  element, of the child element the node was created for; a synthetic node and the text
  of a frame have none.
\<close>

datatype Box =
  Box (boxName: string) (isTextBox: bool) (boxFont: "FontName option") (origin: "nat option")
    (positioning: layoutPositioning) (boxChildren: "Box list")

definition frameBox :: "string \<Rightarrow> Box list \<Rightarrow> Box" where
  "frameBox n kids = Box n False None None AUTO kids"

definition textBox :: "string \<Rightarrow> FontName \<Rightarrow> Box" where
  "textBox n f = Box n True (Some f) None AUTO []"

definition setOrigin :: "nat \<Rightarrow> Box \<Rightarrow> Box" where
  "setOrigin i b = Box (boxName b) (isTextBox b) (boxFont b) (Some i) (positioning b) (boxChildren b)"

definition setAbsolute :: "Box \<Rightarrow> Box" where
  "setAbsolute b = Box (boxName b) (isTextBox b) (boxFont b) (origin b) ABSOLUTE (boxChildren b)"

subsection \<open>Margins of a regular child\<close>

text \<open>``Expand margin shorthand into individual margin properties if not already set''.\<close>

definition expandMargin :: "ParsedStyle \<Rightarrow> ParsedStyle" where
  "expandMargin st =
     (case margin st of
        None \<Rightarrow> st
      | Some m \<Rightarrow>
          st\<lparr>marginTop := (if marginTop st = None then Some (MarginNumber m) else marginTop st),
             marginRight := (if marginRight st = None then Some (MarginNumber m) else marginRight st),
             marginBottom := (if marginBottom st = None then Some (MarginNumber m) else marginBottom st),
             marginLeft := (if marginLeft st = None then Some (MarginNumber m) else marginLeft st)\<rparr>)"

definition withStyles :: "ParsedElement \<Rightarrow> ParsedStyle \<Rightarrow> ParsedElement" where
  "withStyles element st = ParsedElement (tagName element) st (textContent element) (children element)"

definition deleteHorizontalMargins :: "ParsedStyle \<Rightarrow> ParsedStyle" where
  "deleteHorizontalMargins st = st\<lparr>marginLeft := None, marginRight := None\<rparr>"

definition hasHorizontalMargin :: "ParsedStyle \<Rightarrow> bool" where
  "hasHorizontalMargin st = (0 < marginNumber (marginLeft st) \<or> 0 < marginNumber (marginRight st))"

definition positiveMargin :: "marginValue option \<Rightarrow> bool" where
  "positiveMargin m = (case m of Some (MarginNumber v) \<Rightarrow> 0 < v | _ \<Rightarrow> False)"

text \<open>A spacer frame created and appended to the children of the frame.\<close>

definition appendSpacer :: "bool \<Rightarrow> string \<Rightarrow> Box list \<times> Host \<Rightarrow> Box list \<times> Host" where
  "appendSpacer cond n = (\<lambda>(kids, h). if cond then (kids @ [frameBox n []], createNode h) else (kids, h))"

text \<open>What is appended before the child: the growing spacer of an automatic top margin and
  the spacer of a positive top margin in a vertical frame, the spacer of a positive left
  margin in a horizontal frame.\<close>

definition leadingSpacers :: "layoutMode \<Rightarrow> ParsedStyle \<Rightarrow> Box list \<times> Host \<Rightarrow> Box list \<times> Host" where
  "leadingSpacers mode st kh =
     appendSpacer (mode = HORIZONTAL \<and> 0 < marginNumber (marginLeft st)) ''margin-left''
       (appendSpacer (positiveMargin (marginTop st) \<and> mode = VERTICAL) ''margin-spacer''
          (appendSpacer (marginTop st = Some MarginAuto \<and> mode = VERTICAL) ''spacer'' kh))"

text \<open>What is appended after the child: the spacer of a positive right margin in a
  horizontal frame, the spacer of a positive bottom margin in a vertical frame.\<close>

definition trailingSpacers :: "layoutMode \<Rightarrow> ParsedStyle \<Rightarrow> Box list \<times> Host \<Rightarrow> Box list \<times> Host" where
  "trailingSpacers mode st kh =
     appendSpacer (positiveMargin (marginBottom st) \<and> mode = VERTICAL) ''margin-spacer''
       (appendSpacer (mode = HORIZONTAL \<and> 0 < marginNumber (marginRight st)) ''margin-right'' kh)"

text \<open>In a vertical frame a child with a horizontal margin is created inside a wrapper,
  between the spacers of its margins.\<close>

definition isWrapped :: "layoutMode \<Rightarrow> ParsedStyle \<Rightarrow> bool" where
  "isWrapped mode st = (mode = VERTICAL \<and> hasHorizontalMargin st)"

text \<open>The nodes created for the wrapper before the child: the wrapper and the left spacer.\<close>

definition openWrapper :: "ParsedStyle \<Rightarrow> Host \<Rightarrow> Host" where
  "openWrapper st h =
     (let h1 = createNode h in if 0 < marginNumber (marginLeft st) then createNode h1 else h1)"

definition wrapperBox :: "ParsedStyle \<Rightarrow> Box \<Rightarrow> Box" where
  "wrapperBox st childNode =
     frameBox ''margin-wrapper''
       ((if 0 < marginNumber (marginLeft st) then [frameBox ''margin-left'' []] else [])
        @ [childNode]
        @ (if 0 < marginNumber (marginRight st) then [frameBox ''margin-right'' []] else []))"

text \<open>A child that stays in the flow but is offset: \<^verbatim>\<open>position: relative\<close> with one of the
  four offsets.\<close>

definition isRelativeOffset :: "ParsedStyle \<Rightarrow> bool" where
  "isRelativeOffset st =
     (position st = Some Relative
      \<and> (top st \<noteq> None \<or> left st \<noteq> None \<or> bottom st \<noteq> None \<or> right st \<noteq> None))"

text \<open>
  The child node takes its place among the children of the frame: inside its wrapper, or
  directly, and then remembered by its place when it is offset relatively (the source
  remembers the node; its place does not change until the offsets are applied, since
  nodes are only appended). In a frame without layout mode a child with a horizontal
  margin is not remembered.
\<close>

definition placeChild ::
  "layoutMode \<Rightarrow> ParsedStyle \<Rightarrow> Box \<Rightarrow> Box list \<times> nat list \<Rightarrow> Host \<Rightarrow> (Box list \<times> nat list) \<times> Host" where
  "placeChild mode st childNode = (\<lambda>(kids, rel) h.
     if isWrapped mode st then
       ((kids @ [wrapperBox st childNode], rel),
        (if 0 < marginNumber (marginRight st) then createNode h else h))
     else if mode = NONE \<and> hasHorizontalMargin st then ((kids @ [childNode], rel), h)
     else ((kids @ [childNode], (if isRelativeOffset st then rel @ [length kids] else rel)), h))"

text \<open>
  ``Apply position: relative offsets'': for each remembered node a placeholder is created
  and inserted at the place of the node, and the node, now positioned absolutely, is
  moved to the end of the children.
\<close>

fun applyRelativeOffsets :: "nat list \<Rightarrow> Box list \<Rightarrow> Host \<Rightarrow> Box list \<times> Host" where
  "applyRelativeOffsets [] kids h = (kids, h)"
| "applyRelativeOffsets (i # rel) kids h =
     applyRelativeOffsets rel
       (kids[i := frameBox ''relative-placeholder'' []] @ [setAbsolute (kids ! i)]) (createNode h)"

subsection \<open>The recursion\<close>

fun esize :: "ParsedElement \<Rightarrow> nat" where
  "esize (ParsedElement t s x kids) = Suc (sum_list (map esize kids))"

definition esizes :: "(ParsedElement \<times> nat) list \<Rightarrow> nat" where
  "esizes xs = sum_list (map (\<lambda>a. esize (fst a)) xs)"

lemma esize_withStyles: "esize (withStyles e st) = esize e"
  by (cases e) (simp add: withStyles_def)

lemma esize_pos: "0 < esize e"
  by (cases e) simp

lemma esizes_Cons: "esizes ((e, i) # xs) = esize e + esizes xs"
  by (simp add: esizes_def)

lemma esizes_indexed: "esizes (indexed kids) = sum_list (map esize kids)"
proof -
  have "map (\<lambda>a. esize (fst a)) (indexed kids) = map esize (map fst (indexed kids))" by simp
  also have "map fst (indexed kids) = kids" by (simp add: indexed_def)
  finally show ?thesis by (simp add: esizes_def)
qed

lemma esizes_filter: "esizes (filter P xs) \<le> esizes xs"
  unfolding esizes_def by (induction xs) auto

lemma esizes_insertAbsolute: "esizes (insertAbsolute a xs) = esize (fst a) + esizes xs"
  by (induction xs) (auto simp: esizes_def)

lemma esizes_sortAbsolute: "esizes (sortAbsolute xs) = esizes xs"
  unfolding sortAbsolute_def
proof (induction xs)
  case Nil
  then show ?case by simp
next
  case (Cons a xs)
  have "esizes (a # xs) = esize (fst a) + esizes xs" by (simp add: esizes_def)
  then show ?case using Cons by (simp add: esizes_insertAbsolute)
qed

lemma esizes_children:
  "esizes (absoluteBeforeContent (children e)) < esize e"
  "esizes (absoluteAfterContent (children e)) < esize e"
  "esizes (regularChildren (children e)) < esize e"
proof -
  have e: "esize e = Suc (esizes (indexed (children e)))"
    by (cases e) (simp add: esizes_indexed)
  have a: "esizes (absoluteChildren (children e)) \<le> esizes (indexed (children e))"
    by (simp add: absoluteChildren_def esizes_sortAbsolute esizes_filter)
  show "esizes (absoluteBeforeContent (children e)) < esize e"
    using e a esizes_filter[of "\<lambda>a. zIndexOf a < 1" "absoluteChildren (children e)"]
    by (simp add: absoluteBeforeContent_def)
  show "esizes (absoluteAfterContent (children e)) < esize e"
    using e a esizes_filter[of "\<lambda>a. \<not> zIndexOf a < 1" "absoluteChildren (children e)"]
    by (simp add: absoluteAfterContent_def)
  show "esizes (regularChildren (children e)) < esize e"
    using e esizes_filter[of "\<lambda>a. \<not> isAbsoluteElement (fst a)" "indexed (children e)"]
    by (simp add: regularChildren_def)
qed

lemma esizes_children_measure:
  "Suc (2 * esizes (absoluteBeforeContent (children e))) < 2 * esize e"
  "Suc (2 * esizes (absoluteAfterContent (children e))) < 2 * esize e"
  "Suc (2 * esizes (regularChildren (children e))) < 2 * esize e"
  using esizes_children[of e] by linarith+

text \<open>
  The start of the frame branch: the frame is created and, when the element has text, a
  text node named \<^verbatim>\<open>text\<close> is created, its font loaded, and the node appended as the first
  child of the frame. The result is the children of the frame so far.
\<close>

definition createFrameWithText ::
  "(FontName \<Rightarrow> bool) \<Rightarrow> ParsedElement \<Rightarrow> Host \<Rightarrow> (error + Box list) \<times> Host" where
  "createFrameWithText fonts element h =
     (if hasText element
      then (case loadFontWithFallback fonts (fontFamilyOf (styles element))
                   (derivedFontStyle False (styles element)) (createNode (createNode h)) of
              (Inl e, h1) \<Rightarrow> (Inl e, h1)
            | (Inr f, h1) \<Rightarrow> (Inr [textBox ''text'' f], h1))
      else (Inr [], createNode h))"

text \<open>
  \<^verbatim>\<open>createFigmaNode\<close> for an element, with the two loops that create its children:
  \<^verbatim>\<open>createAbsoluteChild\<close> over a list of absolute children, and the loop over the regular
  children, whose three branches call \<^verbatim>\<open>createFigmaNode\<close> in the same way but for the
  element handed over (without its horizontal margins inside a wrapper) and for what
  \<open>placeChild\<close> does with the node. A failure of a call ends the caller with the same failure:
  no call stands inside a \<^verbatim>\<open>try\<close>.
\<close>

function createFigmaNode :: "(FontName \<Rightarrow> bool) \<Rightarrow> ParsedElement \<Rightarrow> Host \<Rightarrow> (error + Box) \<times> Host"
  and createAbsoluteChildren ::
    "(FontName \<Rightarrow> bool) \<Rightarrow> (ParsedElement \<times> nat) list \<Rightarrow> Box list \<Rightarrow> Host \<Rightarrow> (error + Box list) \<times> Host"
  and createRegularChildren ::
    "(FontName \<Rightarrow> bool) \<Rightarrow> layoutMode \<Rightarrow> (ParsedElement \<times> nat) list \<Rightarrow> Box list \<times> nat list \<Rightarrow> Host
       \<Rightarrow> (error + Box list \<times> nat list) \<times> Host" where
  "createFigmaNode fonts element h =
     (if isTextLeaf element then
        (case loadFontWithFallback fonts (fontFamilyOf (styles element)) (leafFontStyle element)
                (createNode h) of
           (Inl e, h1) \<Rightarrow> (Inl e, h1)
         | (Inr f, h1) \<Rightarrow> (Inr (textBox (tagName element) f), h1))
      else
        (case createFrameWithText fonts element h of
           (Inl e, h1) \<Rightarrow> (Inl e, h1)
         | (Inr kids0, h1) \<Rightarrow>
             (case createAbsoluteChildren fonts (absoluteBeforeContent (children element)) kids0 h1 of
                (Inl e, h2) \<Rightarrow> (Inl e, h2)
              | (Inr kids1, h2) \<Rightarrow>
                  (case createRegularChildren fonts (frameLayoutMode element)
                          (regularChildren (children element)) (kids1, []) h2 of
                     (Inl e, h3) \<Rightarrow> (Inl e, h3)
                   | (Inr (kids2, rel), h3) \<Rightarrow>
                       (case applyRelativeOffsets rel kids2 h3 of
                          (kids3, h4) \<Rightarrow>
                            (case createAbsoluteChildren fonts (absoluteAfterContent (children element))
                                    kids3 h4 of
                               (Inl e, h5) \<Rightarrow> (Inl e, h5)
                             | (Inr kids4, h5) \<Rightarrow> (Inr (frameBox (tagName element) kids4), h5)))))))"
| "createAbsoluteChildren fonts [] kids h = (Inr kids, h)"
| "createAbsoluteChildren fonts ((child, i) # rest) kids h =
     (case createFigmaNode fonts child h of
        (Inl e, h1) \<Rightarrow> (Inl e, h1)
      | (Inr childNode, h1) \<Rightarrow>
          createAbsoluteChildren fonts rest (kids @ [setAbsolute (setOrigin i childNode)]) h1)"
| "createRegularChildren fonts mode [] acc h = (Inr acc, h)"
| "createRegularChildren fonts mode ((child, i) # rest) acc h =
     (let st = expandMargin (styles child);
          (kids1, h1) = leadingSpacers mode st (fst acc, h);
          h2 = (if isWrapped mode st then openWrapper st h1 else h1);
          target = withStyles child (if isWrapped mode st then deleteHorizontalMargins st else st)
      in case createFigmaNode fonts target h2 of
           (Inl e, h3) \<Rightarrow> (Inl e, h3)
         | (Inr childNode, h3) \<Rightarrow>
             (case placeChild mode st (setOrigin i childNode) (kids1, snd acc) h3 of
                ((kids2, rel2), h4) \<Rightarrow>
                  (case trailingSpacers mode st (kids2, h4) of
                     (kids3, h5) \<Rightarrow> createRegularChildren fonts mode rest (kids3, rel2) h5)))"
  by pat_completeness auto
termination
  by (relation "measure (\<lambda>x. case x of
          Inl (fonts, e, h) \<Rightarrow> 2 * esize e
        | Inr (Inl (fonts, xs, kids, h)) \<Rightarrow> 2 * esizes xs + 1
        | Inr (Inr (fonts, mode, xs, acc, h)) \<Rightarrow> 2 * esizes xs + 1)")
     (auto simp: esizes_Cons esize_withStyles esize_pos esizes_children_measure)

declare createFigmaNode.simps [simp del]

subsection \<open>\<^verbatim>\<open>handleCreateComponent\<close>\<close>

record Payload =
  elements :: "ParsedElement list option"
  componentName :: "string option"
  parentId :: "string option"

text \<open>The loop \<^verbatim>\<open>for (const element of elements) await createFigmaNode(element, rootFrame)\<close>.\<close>

fun createElements ::
  "(FontName \<Rightarrow> bool) \<Rightarrow> ParsedElement list \<Rightarrow> Box list \<Rightarrow> Host \<Rightarrow> (error + Box list) \<times> Host" where
  "createElements fonts [] kids h = (Inr kids, h)"
| "createElements fonts (element # rest) kids h =
     (case createFigmaNode fonts element h of
        (Inl e, h1) \<Rightarrow> (Inl e, h1)
      | (Inr node, h1) \<Rightarrow> createElements fonts rest (kids @ [node]) h1)"

text \<open>
  \<^verbatim>\<open>handleCreateComponent(payload)\<close>: the check of the elements, the root frame, the elements
  created in it. The result is the root frame with what was created in it (its identifier
  and size, which the source returns, are the host's). Choosing the parent, placing and
  selecting the root frame create nothing and load nothing.
\<close>

definition handleCreateComponent ::
  "(FontName \<Rightarrow> bool) \<Rightarrow> Payload \<Rightarrow> Host \<Rightarrow> (error + Box) \<times> Host" where
  "handleCreateComponent fonts payload h =
     (case elements payload of
        None \<Rightarrow> (Inl NoElements, h)
      | Some els \<Rightarrow>
          if length els = 0 then (Inl NoElements, h)
          else (case createElements fonts els [] (createNode h) of
                  (Inl e, h1) \<Rightarrow> (Inl e, h1)
                | (Inr kids, h1) \<Rightarrow>
                    (Inr (frameBox (case componentName payload of None \<Rightarrow> ''AI Component'' | Some n \<Rightarrow> n)
                            kids), h1)))"

subsection \<open>Reading the order of the children, and example inputs\<close>

text \<open>
  The words of the claim on the stacking order. A node created for a child element carries
  the index of that element (\<open>origin\<close>); a margin wrapper carries the index of the child
  created inside it; a spacer, a placeholder and the text of a frame carry nothing.
  \<open>carriedAll\<close> reads a list of child nodes as the list of the indices of the child elements,
  in the order of the nodes.
\<close>

definition carried :: "Box \<Rightarrow> nat list" where
  "carried b = (case origin b of Some i \<Rightarrow> [i] | None \<Rightarrow> List.map_filter origin (boxChildren b))"

definition carriedAll :: "Box list \<Rightarrow> nat list" where
  "carriedAll bs = concat (map carried bs)"

text \<open>The order of the comparator: smaller stack order first, the document order among
  equal stack orders.\<close>

definition stackedBefore :: "ParsedElement \<times> nat \<Rightarrow> ParsedElement \<times> nat \<Rightarrow> bool" where
  "stackedBefore a b = (zIndexOf a < zIndexOf b \<or> (zIndexOf a = zIndexOf b \<and> snd a < snd b))"

text \<open>
  Example inputs: an element with an absolute child of stack order 2, a regular child and an
  absolute child of stack order 0, in this document order; a host that has created nothing;
  hosts that load every font, no font, and Inter Regular only; a bold paragraph in Roboto;
  a payload with given elements.
\<close>

definition exampleStack :: ParsedElement where
  "exampleStack =
     ParsedElement ''div'' noStyle None
       [ParsedElement ''div'' (noStyle\<lparr>position := Some Absolute, zIndex := Some 2\<rparr>) None [],
        ParsedElement ''div'' noStyle None [],
        ParsedElement ''div'' (noStyle\<lparr>position := Some Absolute, zIndex := Some 0\<rparr>) None []]"

definition host0 :: Host where
  "host0 = \<lparr>created = 0, loads = []\<rparr>"

definition allFonts :: "FontName \<Rightarrow> bool" where
  "allFonts f = True"



definition examplePayload :: "ParsedElement list option \<Rightarrow> Payload" where
  "examplePayload els = \<lparr>elements = els, componentName = None, parentId = None\<rparr>"


section \<open>Properties of the length parser\<close>

text \<open>
  C9. In \<^verbatim>\<open>parseCalc\<close>, when the inside of \<^verbatim>\<open>calc(...)\<close> is a two-operand expression whose operator
  is the division sign and whose right operand, converted to pixels, is zero, the result is
  \<^verbatim>\<open>null\<close> (\<open>None\<close>): no number is produced and nothing is raised.
\<close>

theorem parseCalc_division_by_zero:
  assumes "calcMatch value = Some g"
    and "binaryMatch (trim g) = Some (n1, unit1, CHR ''/'', n2, unit2)"
    and "toPx (parseFloat n2) unit2 baseFontSize = Fin 0"
  shows "parseCalc value baseFontSize = None"
  using assms by (simp add: Let_def)

lemmas parser_eval_defs =
  calcMatch_def calcGroup_def binaryMatch_def lengthMatch_def numToken_def unitToken_def
  isNumChar_def isDigit_def code_def isWhitespace_def isLineTerminator_def
  toLowerCase_def toLowerChar_def trim_def parseFloat_def parseInt_def digitVal_def toPx_def Let_def

theorem parseCalc_division_by_zero_witness:
  "calcMatch ''calc(10px / 0em)'' = Some ''10px / 0em''
   \<and> binaryMatch (trim ''10px / 0em'') = Some (''10'', Some ''px'', CHR ''/'', ''0'', Some ''em'')
   \<and> toPx (parseFloat ''0'') (Some ''em'') 16 = Fin 0
   \<and> parseCalc ''calc(10px / 0em)'' 16 = None"
proof -
  have h1: "calcMatch ''calc(10px / 0em)'' = Some ''10px / 0em''"
    by (simp add: parser_eval_defs)
  have h2: "binaryMatch (trim ''10px / 0em'') = Some (''10'', Some ''px'', CHR ''/'', ''0'', Some ''em'')"
    by (simp add: parser_eval_defs)
  have h3: "toPx (parseFloat ''0'') (Some ''em'') 16 = Fin 0"
    by (simp add: parser_eval_defs jmul_def)
  show ?thesis
    using h1 h2 h3 parseCalc_division_by_zero[OF h1 h2 h3] by simp
qed

section \<open>Properties of the colour parser\<close>

lemma hexTable_eval: "hexTable = [(CHR ''0'',0),(CHR ''1'',1),(CHR ''2'',2),(CHR ''3'',3),(CHR ''4'',4),
  (CHR ''5'',5),(CHR ''6'',6),(CHR ''7'',7),(CHR ''8'',8),(CHR ''9'',9),(CHR ''a'',10),(CHR ''b'',11),
  (CHR ''c'',12),(CHR ''d'',13),(CHR ''e'',14),(CHR ''f'',15),(CHR ''A'',10),(CHR ''B'',11),
  (CHR ''C'',12),(CHR ''D'',13),(CHR ''E'',14),(CHR ''F'',15)]"
  by (simp add: hexTable_def upt_rec)

lemma digitVal_hex:
  assumes "isHexDigit c"
  shows "digitVal 16 c = Some (hexDigitValue c) \<and> hexDigitValue c < 16"
  using assms unfolding isHexDigit_def
  by (auto simp: digitVal_def code_def hexDigitValue_def hexTable_eval)

lemma hexChannel_pair:
  assumes "isHexDigit c1" "isHexDigit c2"
  shows "hexChannel [c1, c2] = Fin (real (16 * hexDigitValue c1 + hexDigitValue c2) / 255)"
  using digitVal_hex[OF assms(1)] digitVal_hex[OF assms(2)]
  by (simp add: hexChannel_def parseInt_def)

lemma byte_unit:
  assumes "n \<le> (255::nat)"
  shows "inUnit (Fin (real n / 255)) \<and> toByte (Fin (real n / 255)) = Some (int n)"
proof -
  have "\<lfloor>real n + 1 / 2\<rfloor> = int n" by linarith
  then show ?thesis using assms by (simp add: inUnit_def)
qed

lemma hex_pair_le:
  assumes "isHexDigit c1" "isHexDigit c2"
  shows "16 * hexDigitValue c1 + hexDigitValue c2 \<le> 255"
  using digitVal_hex[OF assms(1)] digitVal_hex[OF assms(2)] by linarith

lemma hex_pair_channel:
  assumes "isHexDigit c1" "isHexDigit c2"
  shows "inUnit (hexChannel [c1, c2])
       \<and> toByte (hexChannel [c1, c2]) = Some (int (16 * hexDigitValue c1 + hexDigitValue c2))"
  using byte_unit[OF hex_pair_le[OF assms]] hexChannel_pair[OF assms] by simp

lemma take2_drop: "Suc i < length xs \<Longrightarrow> take 2 (drop i xs) = [xs ! i, xs ! Suc i]"
  by (simp add: numeral_2_eq_2 take_Suc_conv_app_nth Cons_nth_drop_Suc[symmetric] take_Suc hd_drop_conv_nth)

lemma hexMatch_digits:
  assumes "hexMatch s = Some hex"
  shows "s = CHR ''#'' # hex \<and> (\<forall>i < length hex. isHexDigit (hex ! i))"
  using assms by (auto simp: hexMatch_def list_all_length split: list.splits if_splits)

lemma hexColor_roundtrip:
  assumes dig: "\<forall>i < length hex. isHexDigit (hex ! i)"
    and len: "length hex = 3 \<or> length hex = 6 \<or> length hex = 8"
  shows "\<exists>c. hexColor hex = Some c \<and> normalized c
           \<and> map toByte [rgba_r c, rgba_g c, rgba_b c, rgba_a c] = map (\<lambda>n. Some (int n)) (hexBytes hex)"
proof -
  have one: "inUnit (Fin 1) \<and> toByte (Fin 1) = Some 255"
    using byte_unit[of 255] by simp
  from len consider "length hex = 3" | "length hex = 6" | "length hex = 8" by blast
  then show ?thesis
  proof cases
    case 1
    then have d: "isHexDigit (hex ! 0)" "isHexDigit (hex ! 1)" "isHexDigit (hex ! 2)"
      using dig by simp_all
    show ?thesis
      using 1 one hex_pair_channel[OF d(1) d(1)] hex_pair_channel[OF d(2) d(2)] hex_pair_channel[OF d(3) d(3)]
      by (simp add: hexColor_def hexBytes_def rgba_def normalized_def)
  next
    case 2
    then have d: "isHexDigit (hex ! 0)" "isHexDigit (hex ! 1)" "isHexDigit (hex ! 2)"
        "isHexDigit (hex ! 3)" "isHexDigit (hex ! 4)" "isHexDigit (hex ! 5)"
      using dig by simp_all
    have t: "take 2 hex = [hex ! 0, hex ! 1]" "take 2 (drop 2 hex) = [hex ! 2, hex ! 3]"
        "take 2 (drop 4 hex) = [hex ! 4, hex ! 5]"
      using 2 take2_drop[of 0 hex] take2_drop[of 2 hex] take2_drop[of 4 hex]
      by (simp_all add: eval_nat_numeral)
    show ?thesis
      using 2 one hex_pair_channel[OF d(1) d(2)] hex_pair_channel[OF d(3) d(4)] hex_pair_channel[OF d(5) d(6)]
      by (simp add: hexColor_def hexBytes_def rgba_def normalized_def t)
  next
    case 3
    then have d: "isHexDigit (hex ! 0)" "isHexDigit (hex ! 1)" "isHexDigit (hex ! 2)"
        "isHexDigit (hex ! 3)" "isHexDigit (hex ! 4)" "isHexDigit (hex ! 5)"
        "isHexDigit (hex ! 6)" "isHexDigit (hex ! 7)"
      using dig by simp_all
    have t: "take 2 hex = [hex ! 0, hex ! 1]" "take 2 (drop 2 hex) = [hex ! 2, hex ! 3]"
        "take 2 (drop 4 hex) = [hex ! 4, hex ! 5]" "take 2 (drop 6 hex) = [hex ! 6, hex ! 7]"
      using 3 take2_drop[of 0 hex] take2_drop[of 2 hex] take2_drop[of 4 hex] take2_drop[of 6 hex]
      by (simp_all add: eval_nat_numeral)
    show ?thesis
      using 3 hex_pair_channel[OF d(1) d(2)] hex_pair_channel[OF d(3) d(4)]
        hex_pair_channel[OF d(5) d(6)] hex_pair_channel[OF d(7) d(8)]
      by (simp add: hexColor_def hexBytes_def rgba_def normalized_def t)
  qed
qed

lemma parseInt_nonneg: "parseInt g radix = Fin n \<Longrightarrow> 0 \<le> n"
  by (auto simp: parseInt_def split: list.splits option.splits)

lemma byteOk_unit: "byteOk g \<Longrightarrow> inUnit (jdiv (parseInt g 10) (Fin 255))"
  using parseInt_nonneg[of g 10]
  by (auto simp: byteOk_def inUnit_def split: jsnum.splits)

lemma parseFloat_nonneg:
  assumes "s = [] \<or> hd s \<noteq> CHR ''-''" and "parseFloat s = Fin x"
  shows "0 \<le> x"
  using assms by (auto simp: parseFloat_def Let_def split: if_splits)

lemma run1_hd: "run1 P s = Some (t, u) \<Longrightarrow> t \<noteq> [] \<and> P (hd t)"
  by (cases s) (auto simp: run1_def split: if_splits)

lemma isNumChar_not_minus: "isNumChar c \<Longrightarrow> c \<noteq> CHR ''-''"
  by (auto simp: isNumChar_def isDigit_def code_def)

lemma alphaTail_hd: "alphaTail s = Some (Some t) \<Longrightarrow> hd t \<noteq> CHR ''-''"
  by (auto simp: alphaTail_def split: option.splits dest!: run1_hd isNumChar_not_minus)

lemma rgbAt_tail: "rgbAt s = Some (g1, g2, g3, g4) \<Longrightarrow> \<exists>u. alphaTail u = Some g4"
  unfolding rgbAt_def
  by (clarsimp simp: Option.bind_eq_Some_conv) (rule exI, assumption)

lemma hslAt_tail: "hslAt s = Some (g1, g2, g3, g4) \<Longrightarrow> \<exists>u. alphaTail u = Some g4"
  unfolding hslAt_def
  by (clarsimp simp: Option.bind_eq_Some_conv) (rule exI, assumption)

lemma rgbAt_alpha: "rgbAt s = Some (g1, g2, g3, Some t) \<Longrightarrow> hd t \<noteq> CHR ''-''"
  using rgbAt_tail alphaTail_hd by blast

lemma hslAt_alpha: "hslAt s = Some (g1, g2, g3, Some t) \<Longrightarrow> hd t \<noteq> CHR ''-''"
  using hslAt_tail alphaTail_hd by blast

lemma searchFrom_Some: "searchFrom m s = Some x \<Longrightarrow> \<exists>t. m t = Some x"
  by (induction s) (auto split: option.splits)

lemma alphaOf_unit:
  assumes "alphaOk g4" and "\<And>t. g4 = Some t \<Longrightarrow> hd t \<noteq> CHR ''-''"
  shows "inUnit (alphaOf g4)"
proof (cases g4)
  case None
  then show ?thesis by (simp add: alphaOf_def inUnit_def)
next
  case (Some t)
  with assms(1) obtain x where x: "parseFloat t = Fin x" "x \<le> 1"
    by (auto simp: alphaOk_def split: jsnum.splits)
  have "0 \<le> x" using parseFloat_nonneg[of t x] assms(2)[OF Some] x(1) by simp
  then show ?thesis using Some x by (simp add: alphaOf_def inUnit_def)
qed

lemma namedColors_normalized: "list_all normalized (map snd namedColors)"
  by (simp add: namedColors_def normalized_def rgba_def inUnit_def)

lemma named_normalized:
  assumes "map_of namedColors k = Some c"
  shows "normalized c"
proof -
  have "(k, c) \<in> set namedColors" using assms by (rule map_of_SomeD)
  then have "c \<in> set (map snd namedColors)" by force
  then show ?thesis using namedColors_normalized by (auto simp: list_all_iff)
qed

lemma namedLookup_normalized:
  assumes "namedLookup k = Some (Color c)"
  shows "normalized c"
proof -
  have "map_of namedColors k = Some c"
    using assms by (auto simp: namedLookup_def split: option.splits if_splits)
  then show ?thesis by (rule named_normalized)
qed

lemma functionalOrNamed_normalized:
  assumes res: "functionalOrNamed s = Some (Color c)"
    and rgb: "\<And>g1 g2 g3 g4. rgbMatch s = Some (g1, g2, g3, g4) \<Longrightarrow>
                byteOk g1 \<and> byteOk g2 \<and> byteOk g3 \<and> alphaOk g4"
    and hsl: "\<And>g1 g2 g3 g4. hslMatch s = Some (g1, g2, g3, g4) \<Longrightarrow> alphaOk g4"
  shows "inUnit (rgba_a c) \<and> (rgbMatch s \<noteq> None \<or> hslMatch s = None \<longrightarrow> normalized c)"
proof (cases "rgbMatch s")
  case (Some q)
  obtain g1 g2 g3 g4 where q: "q = (g1, g2, g3, g4)" by (cases q) auto
  from rgb[OF Some[unfolded q]] have ok: "byteOk g1" "byteOk g2" "byteOk g3" "alphaOk g4" by auto
  from Some q obtain t where "rgbAt t = Some (g1, g2, g3, g4)"
    using searchFrom_Some[of rgbAt s "(g1, g2, g3, g4)"] by (auto simp: rgbMatch_def)
  then have "\<And>u. g4 = Some u \<Longrightarrow> hd u \<noteq> CHR ''-''" by (auto dest: rgbAt_alpha)
  then have a: "inUnit (alphaOf g4)" by (rule alphaOf_unit[OF ok(4)])
  have "c = rgba (jdiv (parseInt g1 10) (Fin 255)) (jdiv (parseInt g2 10) (Fin 255))
                 (jdiv (parseInt g3 10) (Fin 255)) (alphaOf g4)"
    using res Some q by (simp add: functionalOrNamed_def)
  then show ?thesis using a ok byteOk_unit by (simp add: normalized_def rgba_def)
next
  case None
  note noRgb = None
  show ?thesis
  proof (cases "hslMatch s")
    case (Some q)
    obtain g1 g2 g3 g4 where q: "q = (g1, g2, g3, g4)" by (cases q) auto
    from hsl[OF Some[unfolded q]] have ok: "alphaOk g4" .
    from Some q obtain t where "hslAt t = Some (g1, g2, g3, g4)"
      using searchFrom_Some[of hslAt s "(g1, g2, g3, g4)"] by (auto simp: hslMatch_def)
    then have "\<And>u. g4 = Some u \<Longrightarrow> hd u \<noteq> CHR ''-''" by (auto dest: hslAt_alpha)
    then have a: "inUnit (alphaOf g4)" by (rule alphaOf_unit[OF ok])
    obtain r g b where t: "hslToRgb (jfl (parseFloat g1)) (fdiv (jfl (parseFloat g2)) (Fin 100))
        (fdiv (jfl (parseFloat g3)) (Fin 100)) = (r, g, b)"
      by (metis prod_cases3)
    have "c = rgba r g b (alphaOf g4)"
      using res noRgb Some q t by (simp add: functionalOrNamed_def)
    then show ?thesis using a noRgb Some by (simp add: rgba_def)
  next
    case None
    then have "namedLookup (toLowerCase s) = Some (Color c)"
      using res noRgb by (simp add: functionalOrNamed_def)
    then have "normalized c" by (rule namedLookup_normalized)
    then show ?thesis by (simp add: normalized_def)
  qed
qed

lemma hexColor_normalized:
  assumes "hexColor hex = Some c" and "\<forall>i < length hex. isHexDigit (hex ! i)"
  shows "normalized c"
proof -
  have "length hex = 3 \<or> length hex = 6 \<or> length hex = 8"
    using assms(1) by (auto simp: hexColor_def split: if_splits)
  from hexColor_roundtrip[OF assms(2) this] show ?thesis using assms(1) by auto
qed

lemmas color_eval_defs =
  parseColor_def hexMatch_def functionalOrNamed_def rgbMatch_def hslMatch_def rgbAt_def hslAt_def
  litCI_def lit_def optA_def skipWs_def run1_def alphaTail_def alphaOf_def rgba_def namedLookup_def

text \<open>
  C7. For every string the hex pattern accepts with three, six or eight digits, \<^verbatim>\<open>parseColor\<close>
  returns a colour whose four channels lie between 0 and 1, and converting each channel
  back to an integer (\<open>toByte\<close>) gives exactly the integer the hex digits write
  (\<open>hexBytes\<close>).
\<close>

theorem parseColor_hex_roundtrip:
  assumes "hexMatch s = Some hex"
    and "length hex = 3 \<or> length hex = 6 \<or> length hex = 8"
  shows "\<exists>c. parseColor s = Some (Color c) \<and> normalized c
           \<and> map toByte [rgba_r c, rgba_g c, rgba_b c, rgba_a c] = map (\<lambda>n. Some (int n)) (hexBytes hex)"
proof -
  from hexMatch_digits[OF assms(1)] have s: "s \<noteq> []" and dig: "\<forall>i < length hex. isHexDigit (hex ! i)"
    by auto
  from hexColor_roundtrip[OF dig assms(2)] obtain c where c: "hexColor hex = Some c" "normalized c"
    "map toByte [rgba_r c, rgba_g c, rgba_b c, rgba_a c] = map (\<lambda>n. Some (int n)) (hexBytes hex)"
    by blast
  have "parseColor s = Some (Color c)" using s assms(1) c(1) by (simp add: parseColor_def)
  then show ?thesis using c by blast
qed

theorem parseColor_hex_roundtrip_witness:
  "hexMatch ''#1a2B3c4D'' = Some ''1a2B3c4D''
   \<and> (\<exists>c. parseColor ''#1a2B3c4D'' = Some (Color c) \<and> normalized c
          \<and> map toByte [rgba_r c, rgba_g c, rgba_b c, rgba_a c] = [Some 26, Some 43, Some 60, Some 77])"
proof -
  have h: "hexMatch ''#1a2B3c4D'' = Some ''1a2B3c4D''"
    by (simp add: hexMatch_def isHexDigit_def)
  have l: "length ''1a2B3c4D'' = 3 \<or> length ''1a2B3c4D'' = 6 \<or> length ''1a2B3c4D'' = 8"
    by simp
  have b: "hexBytes ''1a2B3c4D'' = [26, 43, 60, 77]"
    by (simp add: hexBytes_def hexDigitValue_def hexTable_eval)
  show ?thesis
    using h parseColor_hex_roundtrip[OF h l] unfolding b by simp
qed

lemma exponentDown_numeral:
  "exponentDown (numeral k) x = (if 1 \<le> x then 0 else exponentDown (pred_numeral k) (2 * x) - 1)"
  by (simp add: numeral_eq_Suc)

lemma exponentUp_numeral:
  "exponentUp (numeral k) x = (if x < 2 then 0 else exponentUp (pred_numeral k) (x / 2) + 1)"
  by (simp add: numeral_eq_Suc)

lemmas fl_eval_defs = fl_def exponent_def exponentDown_numeral exponentUp_numeral roundHalfEven_def
  Let_def power_int_minus

lemmas hsl_eval_defs = hslToRgb_def fadd_def fsub_def fmul_def fdiv_def jadd_def jsub_def jmul_def
  jmax_def jmin_def rmod_def trunc_def

text \<open>
  C6, as amended. When \<^verbatim>\<open>parseColor\<close> returns a colour, its alpha lies between 0 and 1, and
  so does every other channel unless the string is read as \<^verbatim>\<open>hsl\<close>/\<^verbatim>\<open>hsla\<close>, provided that,
  when the string is read as \<^verbatim>\<open>rgb\<close>/\<^verbatim>\<open>rgba\<close>, each of its three integers is at most 255, and
  in both functional forms the alpha, when written, is a well-formed number at most 1.
  Hex strings and the keys of the table of named colours need no condition. Nothing is
  said of the three colour channels of \<^verbatim>\<open>hsl\<close>/\<^verbatim>\<open>hsla\<close>, which are sums that nothing clamps,
  nor of the two inherited names, for which no colour is returned.
\<close>

theorem parseColor_normalized:
  assumes "parseColor s = Some (Color c)"
    and "\<And>g1 g2 g3 g4. rgbMatch s = Some (g1, g2, g3, g4) \<Longrightarrow>
           byteOk g1 \<and> byteOk g2 \<and> byteOk g3 \<and> alphaOk g4"
    and "\<And>g1 g2 g3 g4. hslMatch s = Some (g1, g2, g3, g4) \<Longrightarrow> alphaOk g4"
  shows "inUnit (rgba_a c) \<and> (rgbMatch s \<noteq> None \<or> hslMatch s = None \<longrightarrow> normalized c)"
proof (cases "hexMatch s")
  case None
  then have "functionalOrNamed s = Some (Color c)"
    using assms(1) by (simp add: parseColor_def split: if_splits)
  then show ?thesis using assms(2,3) by (rule functionalOrNamed_normalized)
next
  case (Some hex)
  show ?thesis
  proof (cases "hexColor hex")
    case None
    then have "functionalOrNamed s = Some (Color c)"
      using assms(1) Some by (simp add: parseColor_def split: if_splits)
    then show ?thesis using assms(2,3) by (rule functionalOrNamed_normalized)
  next
    case (Some c')
    then have "c' = c" using assms(1) \<open>hexMatch s = Some hex\<close>
      by (simp add: parseColor_def split: if_splits)
    then have "normalized c"
      using hexColor_normalized[OF Some] hexMatch_digits[OF \<open>hexMatch s = Some hex\<close>] by simp
    then show ?thesis by (simp add: normalized_def)
  qed
qed

theorem parseColor_normalized_witness:
  "parseColor ''rgba(255, 128, 0, 0.5)''
     = Some (Color (rgba (Fin 1) (Fin (128 / 255)) (Fin 0) (Fin (1 / 2))))
   \<and> rgbMatch ''rgba(255, 128, 0, 0.5)'' = Some (''255'', ''128'', ''0'', Some ''0.5'')
   \<and> normalized (rgba (Fin 1) (Fin (128 / 255)) (Fin 0) (Fin (1 / 2)))
   \<and> parseColor ''hsla(0, 100%, 1%, 0.5)''
     = Some (Color (rgba (Fin (2882303761517119 / 2 ^ 57)) (Fin (- 5 / 2 ^ 59)) (Fin (- 5 / 2 ^ 59))
                         (Fin (1 / 2))))
   \<and> hslMatch ''hsla(0, 100%, 1%, 0.5)'' = Some (''0'', ''100'', ''1'', Some ''0.5'')
   \<and> inUnit (rgba_a (rgba (Fin (2882303761517119 / 2 ^ 57)) (Fin (- 5 / 2 ^ 59)) (Fin (- 5 / 2 ^ 59))
                           (Fin (1 / 2))))"
proof -
  have p: "parseColor ''rgba(255, 128, 0, 0.5)''
      = Some (Color (rgba (Fin 1) (Fin (128 / 255)) (Fin 0) (Fin (1 / 2))))"
    by (simp add: color_eval_defs parser_eval_defs)
  have m: "rgbMatch ''rgba(255, 128, 0, 0.5)'' = Some (''255'', ''128'', ''0'', Some ''0.5'')"
    by (simp add: color_eval_defs parser_eval_defs)
  have h: "hslMatch ''rgba(255, 128, 0, 0.5)'' = None"
    by (simp add: color_eval_defs parser_eval_defs)
  have ok: "byteOk ''255'' \<and> byteOk ''128'' \<and> byteOk ''0'' \<and> alphaOk (Some ''0.5'')"
    by (simp add: byteOk_def alphaOk_def parser_eval_defs)
  have "inUnit (rgba_a (rgba (Fin 1) (Fin (128 / 255)) (Fin 0) (Fin (1 / 2))))
      \<and> (rgbMatch ''rgba(255, 128, 0, 0.5)'' \<noteq> None \<or> hslMatch ''rgba(255, 128, 0, 0.5)'' = None
           \<longrightarrow> normalized (rgba (Fin 1) (Fin (128 / 255)) (Fin 0) (Fin (1 / 2))))"
    by (rule parseColor_normalized[OF p]) (use m h ok in auto)
  then have n: "normalized (rgba (Fin 1) (Fin (128 / 255)) (Fin 0) (Fin (1 / 2)))"
    using m by simp
  have p2: "parseColor ''hsla(0, 100%, 1%, 0.5)''
     = Some (Color (rgba (Fin (2882303761517119 / 2 ^ 57)) (Fin (- 5 / 2 ^ 59)) (Fin (- 5 / 2 ^ 59))
                         (Fin (1 / 2))))"
    by (simp add: color_eval_defs parser_eval_defs hsl_eval_defs fl_eval_defs)
  have m2: "rgbMatch ''hsla(0, 100%, 1%, 0.5)'' = None"
    by (simp add: color_eval_defs parser_eval_defs)
  have h2: "hslMatch ''hsla(0, 100%, 1%, 0.5)'' = Some (''0'', ''100'', ''1'', Some ''0.5'')"
    by (simp add: color_eval_defs parser_eval_defs)
  have ok2: "alphaOk (Some ''0.5'')"
    by (simp add: alphaOk_def parser_eval_defs)
  have "inUnit (rgba_a (rgba (Fin (2882303761517119 / 2 ^ 57)) (Fin (- 5 / 2 ^ 59)) (Fin (- 5 / 2 ^ 59))
                             (Fin (1 / 2))))
      \<and> (rgbMatch ''hsla(0, 100%, 1%, 0.5)'' \<noteq> None \<or> hslMatch ''hsla(0, 100%, 1%, 0.5)'' = None
           \<longrightarrow> normalized (rgba (Fin (2882303761517119 / 2 ^ 57)) (Fin (- 5 / 2 ^ 59))
                                 (Fin (- 5 / 2 ^ 59)) (Fin (1 / 2))))"
    by (rule parseColor_normalized[OF p2]) (use m2 h2 ok2 in auto)
  then have a: "inUnit (rgba_a (rgba (Fin (2882303761517119 / 2 ^ 57)) (Fin (- 5 / 2 ^ 59))
                                     (Fin (- 5 / 2 ^ 59)) (Fin (1 / 2))))"
    by (rule conjunct1)
  show ?thesis using p m n p2 h2 a by simp
qed

text \<open>
  C6 as stated fails: \<^verbatim>\<open>rgb(300, 0, 0)\<close> is accepted and its red channel is 300/255, the
  written integer divided by 255 without clamping.
\<close>

theorem parseColor_rgb_counterexample:
  "parseColor ''rgb(300, 0, 0)'' = Some (Color (rgba (Fin (20 / 17)) (Fin 0) (Fin 0) (Fin 1)))
   \<and> \<not> normalized (rgba (Fin (20 / 17)) (Fin 0) (Fin 0) (Fin 1))"
  by (simp add: color_eval_defs parser_eval_defs normalized_def inUnit_def)

text \<open>The rounding on familiar numbers: a tenth, the sum of a tenth and two tenths, a third
  and its negative, an integer, and two ties at 2 to the power 53.\<close>

lemma fl_examples:
  "fl (1 / 10) = 3602879701896397 / 2 ^ 55"
  "fl (fl (1 / 10) + fl (2 / 10)) = 1351079888211149 / 2 ^ 52"
  "fl (1 / 3) = 6004799503160661 / 2 ^ 54"
  "fl (- (1 / 3)) = - (6004799503160661 / 2 ^ 54)"
  "fl 255 = 255"
  "fl (2 ^ 53 + 1) = 2 ^ 53"
  "fl (2 ^ 53 + 3) = 2 ^ 53 + 4"
  by (simp_all add: fl_eval_defs)

text \<open>
  The three colour channels of \<^verbatim>\<open>hsl\<close>/\<^verbatim>\<open>hsla\<close> are the sums \<open>r + m\<close>, \<open>g + m\<close>, \<open>b + m\<close> of
  \<^verbatim>\<open>hslToRgb\<close>, where \<open>m = l - c / 2\<close>; in exact arithmetic \<open>m\<close> is not negative, in binary64
  it can be. For \<^verbatim>\<open>hsl(0, 100%, 1%)\<close> the lightness is the binary64 number next to 0.01,
  \<open>c\<close> comes out as twice that number plus five times 2 to the power -58 (the rounding of
  \<open>2 * l - 1\<close>), and green and blue are \<open>m\<close>, five times 2 to the power -59 below zero.
\<close>

lemma hslToRgb_rounding:
  "hslToRgb (Fin 0) (Fin 1) (Fin (5764607523034235 / 2 ^ 59))
     = (Fin (2882303761517119 / 2 ^ 57), Fin (- 5 / 2 ^ 59), Fin (- 5 / 2 ^ 59))"
  by (simp add: hsl_eval_defs fl_eval_defs)

lemma parseColor_hsl_rounding:
  "parseColor ''hsl(0, 100%, 1%)''
     = Some (Color (rgba (Fin (2882303761517119 / 2 ^ 57)) (Fin (- 5 / 2 ^ 59)) (Fin (- 5 / 2 ^ 59))
                         (Fin 1)))"
  by (simp add: color_eval_defs parser_eval_defs hsl_eval_defs fl_eval_defs)

text \<open>
  The two inherited names: what is returned is not \<^verbatim>\<open>null\<close> and not a colour.
\<close>

lemma parseColor_inherited_names:
  "parseColor ''constructor'' = Some ObjectConstructor"
  "parseColor ''__proto__'' = Some ObjectPrototype"
  by (simp_all add: color_eval_defs parser_eval_defs namedColors_def)

section \<open>Properties of the distribution pass\<close>

lemmas node_eval_defs =
  newFrame_def flexGrowDistribution_def flexAvailableSpace_def growChild_def updateNode_def
  mapProps_def resize_def safeSetLayoutSizingHorizontal_def safeSetLayoutSizingVertical_def
  isSpacerOrWrapper_def isSideMargin_def positiveWeight_def recalculateNestedFlex.simps
  countedChild_def axisSize_def axisSizing_def

lemma props_recalculateNestedFlex: "props (recalculateNestedFlex m n w) = props n"
  by (cases n) (simp add: recalculateNestedFlex.simps Let_def split: prod.splits)

lemma flexTotals_gapCount:
  "snd (snd (flexTotals h m kids (t, f, g))) = g + length (filter countedChild kids)"
  by (induction kids arbitrary: t f g) (auto simp: countedChild_def split: option.splits)

lemma growChild_axis:
  "axisSize h (growChild h m s c) = s \<and> axisSizing h (growChild h m s c) = FIXED
   \<and> nodeId (props (growChild h m s c)) = nodeId (props c)"
  by (simp add: growChild_def axisSize_def axisSizing_def props_recalculateNestedFlex mapProps_def
      safeSetLayoutSizingHorizontal_def safeSetLayoutSizingVertical_def resize_def)

lemma updateNode_ids: "(\<And>c. nodeId (props (f c)) = nodeId (props c)) \<Longrightarrow>
   map (\<lambda>c. nodeId (props c)) (updateNode k f kids) = map (\<lambda>c. nodeId (props c)) kids"
  by (induction kids) (auto simp: updateNode_def)

lemma distributeEntries_ids:
  "map (\<lambda>c. nodeId (props c)) (distributeEntries h m av tot entries kids) = map (\<lambda>c. nodeId (props c)) kids"
proof (induction entries arbitrary: kids)
  case Nil
  then show ?case by simp
next
  case (Cons e entries)
  obtain k w where e: "e = (k, w)" by (cases e) auto
  show ?case using Cons[of "updateNode k (growChild h m (av * (w / tot))) kids"]
    by (simp add: e updateNode_ids growChild_axis)
qed

lemma distributeEntries_untouched:
  assumes "k \<notin> fst ` set entries"
    and "c \<in> set (distributeEntries h m av tot entries kids)" and "nodeId (props c) = k"
  shows "c \<in> set kids"
  using assms
proof (induction entries arbitrary: kids)
  case Nil
  then show ?case by simp
next
  case (Cons e entries)
  obtain k' w' where e: "e = (k', w')" by (cases e) auto
  from Cons.prems(1) e have ne: "k' \<noteq> k" and notin: "k \<notin> fst ` set entries" by auto
  from Cons.prems(2) e
  have "c \<in> set (distributeEntries h m av tot entries (updateNode k' (growChild h m (av * (w' / tot))) kids))"
    by simp
  from Cons.IH[OF notin this Cons.prems(3)]
  have "c \<in> set (updateNode k' (growChild h m (av * (w' / tot))) kids)" .
  then show ?case using ne Cons.prems(3) growChild_axis
    by (auto simp: updateNode_def split: if_splits)
qed

lemma distributeEntries_child:
  assumes "distinct (map fst entries)" and "(k, w) \<in> set entries"
    and "c \<in> set (distributeEntries h m av tot entries kids)" and "nodeId (props c) = k"
  shows "axisSize h c = av * (w / tot) \<and> axisSizing h c = FIXED"
  using assms
proof (induction entries arbitrary: kids)
  case Nil
  then show ?case by simp
next
  case (Cons e entries)
  obtain k' w' where e: "e = (k', w')" by (cases e) auto
  let ?kids1 = "updateNode k' (growChild h m (av * (w' / tot))) kids"
  from Cons.prems(3) e have c: "c \<in> set (distributeEntries h m av tot entries ?kids1)" by simp
  show ?case
  proof (cases "k' = k")
    case True
    with Cons.prems(1,2) e have w: "w' = w" and notin: "k \<notin> fst ` set entries" by force+
    from distributeEntries_untouched[OF notin c Cons.prems(4)] have "c \<in> set ?kids1" .
    then obtain c0 where "c = growChild h m (av * (w / tot)) c0"
      using True w Cons.prems(4) by (auto simp: updateNode_def split: if_splits)
    then show ?thesis using growChild_axis by simp
  next
    case False
    with Cons.prems(2) e have "(k, w) \<in> set entries" by auto
    moreover from Cons.prems(1) have "distinct (map fst entries)" by simp
    ultimately show ?thesis using Cons.IH c Cons.prems(4) by blast
  qed
qed

text \<open>
  What the pass does when it distributes (the frame has auto layout, the weights of the
  counted children sum to a positive number, more than one child is counted and the
  available space, container size minus padding minus the sizes of the other counted
  children minus the gaps, is positive): every child of the ledger ends with the size
  \<open>availableSpace * (growth / totalFlexGrow)\<close> on the growth axis and with the sizing mode
  \<open>FIXED\<close> on that axis; the children stay the same nodes in the same order. Here
  \<open>totalFlexGrow\<close> is the sum the pass itself computes, over the counted children of the
  frame. In the row \<open>exampleRow\<close>, where the three children of the ledger are counted, the
  weights 1, 1, 2 and 400 available give the sizes 100, 100 and 200.
\<close>

theorem flexGrowDistribution_shares:
  assumes mode: "layoutMode (props frame) \<noteq> NONE"
    and keys: "distinct (map fst flexGrowMap)"
    and totals: "flexTotals (layoutMode (props frame) = HORIZONTAL) (map_of flexGrowMap)
                   (childNodes frame) (0, 0, 0) = (totalFlexGrow, fixedSize, gapCount)"
    and total: "0 < totalFlexGrow" and gaps: "1 < gapCount"
    and avail: "availableSpace = flexAvailableSpace storedWidths (props frame) fixedSize gapCount"
    and space: "0 < availableSpace"
    and entry: "(k, growth) \<in> set flexGrowMap"
  shows "map (\<lambda>c. nodeId (props c))
           (childNodes (flexGrowDistribution flexGrowMap storedWidths nestedFlexGrowMap frame))
         = map (\<lambda>c. nodeId (props c)) (childNodes frame)
       \<and> (\<forall>c \<in> set (childNodes (flexGrowDistribution flexGrowMap storedWidths nestedFlexGrowMap frame)).
            nodeId (props c) = k \<longrightarrow>
              axisSize (layoutMode (props frame) = HORIZONTAL) c = availableSpace * (growth / totalFlexGrow)
              \<and> axisSizing (layoutMode (props frame) = HORIZONTAL) c = FIXED)"
proof -
  have ne: "flexGrowMap \<noteq> []" using entry by auto
  have res: "flexGrowDistribution flexGrowMap storedWidths nestedFlexGrowMap frame
      = SceneNode (props frame)
          (distributeEntries (layoutMode (props frame) = HORIZONTAL) nestedFlexGrowMap availableSpace
             totalFlexGrow flexGrowMap (childNodes frame))"
    using ne mode totals total gaps avail space by (simp add: flexGrowDistribution_def)
  show ?thesis
    unfolding res using distributeEntries_ids distributeEntries_child[OF keys entry] by simp
qed

theorem flexGrowDistribution_shares_witness:
  "flexTotals True (map_of [(2, 1), (3, 1), (4, 2)]) (childNodes exampleRow) (0, 0, 0) = (4, 50, 4)
   \<and> flexAvailableSpace Map.empty (props exampleRow) 50 4 = 400
   \<and> map (\<lambda>c. (nodeId (props c), axisSize True c, axisSizing True c))
        (childNodes (flexGrowDistribution [(2, 1), (3, 1), (4, 2)] Map.empty Map.empty exampleRow))
      = [(1, 50, FIXED), (2, 400 * (1 / 4), FIXED), (3, 400 * (1 / 4), FIXED), (4, 400 * (2 / 4), FIXED)]
   \<and> map (\<lambda>c. (width (props c), layoutSizingHorizontal (props c))) (childNodes exampleRow)
      = [(50, FIXED), (100, FILL), (100, FILL), (100, FILL)]"
proof -
  have mode: "layoutMode (props exampleRow) \<noteq> NONE" and h: "(layoutMode (props exampleRow) = HORIZONTAL) = True"
    by (simp_all add: exampleRow_def newFrame_def)
  have keys: "distinct (map fst [(2::nat, 1::real), (3, 1), (4, 2)])" by simp
  have totals: "flexTotals True (map_of [(2, 1), (3, 1), (4, 2)]) (childNodes exampleRow) (0, 0, 0) = (4, 50, 4)"
    by (simp add: exampleRow_def node_eval_defs)
  have avail: "400 = flexAvailableSpace Map.empty (props exampleRow) 50 4"
    by (simp add: exampleRow_def node_eval_defs)
  have before: "map (\<lambda>c. (width (props c), layoutSizingHorizontal (props c))) (childNodes exampleRow)
      = [(50, FIXED), (100, FILL), (100, FILL), (100, FILL)]"
    by (simp add: exampleRow_def newFrame_def)
  have kids: "\<exists>a b c d. childNodes (flexGrowDistribution [(2, 1), (3, 1), (4, 2)] Map.empty Map.empty exampleRow)
      = [a, b, c, d] \<and> axisSize True a = 50 \<and> axisSizing True a = FIXED \<and> nodeId (props a) = 1
        \<and> nodeId (props b) = 2 \<and> nodeId (props c) = 3 \<and> nodeId (props d) = 4"
    by (simp add: exampleRow_def node_eval_defs)
  note share = flexGrowDistribution_shares[of exampleRow "[(2, 1), (3, 1), (4, 2)]" 4 50 4 400 Map.empty _ _ Map.empty,
      unfolded h, OF mode keys totals _ _ avail]
  have s2: "\<forall>c \<in> set (childNodes (flexGrowDistribution [(2, 1), (3, 1), (4, 2)] Map.empty Map.empty exampleRow)).
        nodeId (props c) = 2 \<longrightarrow> axisSize True c = 400 * (1 / 4) \<and> axisSizing True c = FIXED"
    using share[of 2 1] by simp
  have s3: "\<forall>c \<in> set (childNodes (flexGrowDistribution [(2, 1), (3, 1), (4, 2)] Map.empty Map.empty exampleRow)).
        nodeId (props c) = 3 \<longrightarrow> axisSize True c = 400 * (1 / 4) \<and> axisSizing True c = FIXED"
    using share[of 3 1] by simp
  have s4: "\<forall>c \<in> set (childNodes (flexGrowDistribution [(2, 1), (3, 1), (4, 2)] Map.empty Map.empty exampleRow)).
        nodeId (props c) = 4 \<longrightarrow> axisSize True c = 400 * (2 / 4) \<and> axisSizing True c = FIXED"
    using share[of 4 2] by simp
  from kids obtain a b c d where
    k: "childNodes (flexGrowDistribution [(2, 1), (3, 1), (4, 2)] Map.empty Map.empty exampleRow) = [a, b, c, d]"
    and a: "axisSize True a = 50" "axisSizing True a = FIXED" "nodeId (props a) = 1"
    and ids: "nodeId (props b) = 2" "nodeId (props c) = 3" "nodeId (props d) = 4"
    by blast
  have "axisSize True b = 400 * (1 / 4) \<and> axisSizing True b = FIXED"
    "axisSize True c = 400 * (1 / 4) \<and> axisSizing True c = FIXED"
    "axisSize True d = 400 * (2 / 4) \<and> axisSizing True d = FIXED"
    using s2 s3 s4 ids unfolding k by simp_all
  then show ?thesis
    using totals avail before a ids unfolding k by simp
qed

lemma flexTotals_total:
  "fst (flexTotals h m kids (t, f, g))
     = t + sum_list (map (\<lambda>c. case m (nodeId (props c)) of None \<Rightarrow> 0 | Some w \<Rightarrow> if 0 < w then w else 0)
                       (filter countedChild kids))"
  by (induction kids arbitrary: t f g) (auto simp: countedChild_def split: option.splits)

lemma flexTotals_ledger:
  assumes keys: "distinct (map fst ledger)"
    and pos: "\<forall>e \<in> set ledger. 0 < snd e"
    and ids: "distinct (map (\<lambda>c. nodeId (props c)) kids)"
    and counted: "\<forall>e \<in> set ledger. \<exists>c \<in> set kids. nodeId (props c) = fst e \<and> countedChild c"
  shows "fst (flexTotals h (map_of ledger) kids (0, 0, 0)) = sum_list (map snd ledger)"
proof -
  define g :: "nat \<Rightarrow> real" where
    "g k = (case map_of ledger k of None \<Rightarrow> 0 | Some w \<Rightarrow> if 0 < w then w else 0)" for k
  define K where "K = map (\<lambda>c. nodeId (props c)) (filter countedChild kids)"
  have dK: "distinct K" unfolding K_def using ids by (rule distinct_map_filter)
  have sub: "fst ` set ledger \<subseteq> set K" using counted by (force simp: K_def)
  have zero: "\<forall>k \<in> set K - fst ` set ledger. g k = 0"
    by (auto simp: g_def map_of_eq_None_iff[symmetric] split: option.splits)
  have entry: "g (fst e) = snd e" if "e \<in> set ledger" for e
  proof -
    have "map_of ledger (fst e) = Some (snd e)" using keys that by (cases e) simp
    then show ?thesis using pos that by (simp add: g_def)
  qed
  have "fst (flexTotals h (map_of ledger) kids (0, 0, 0)) = sum_list (map g K)"
    by (simp add: flexTotals_total K_def g_def comp_def)
  also have "\<dots> = sum g (set K)" using dK by (simp add: sum_list_distinct_conv_sum_set)
  also have "\<dots> = sum g (fst ` set ledger)"
    using sub zero by (intro sum.mono_neutral_right) auto
  also have "\<dots> = sum_list (map g (map fst ledger))"
    using sum_list_distinct_conv_sum_set[OF keys, of g] by simp
  also have "\<dots> = sum_list (map snd ledger)"
    using entry by (simp add: comp_def cong: map_cong)
  finally show ?thesis .
qed

text \<open>
  When every child of the ledger is a counted child of the frame, with a positive weight,
  the sum the pass computes is the sum of the weights of the ledger, and the shares are
  the proportions of the ledger: they add up to the available space.
\<close>

lemma flexGrowDistribution_ledger_shares:
  assumes mode: "layoutMode (props frame) \<noteq> NONE"
    and keys: "distinct (map fst flexGrowMap)"
    and pos: "\<forall>e \<in> set flexGrowMap. 0 < snd e"
    and ids: "distinct (map (\<lambda>c. nodeId (props c)) (childNodes frame))"
    and counted: "\<forall>e \<in> set flexGrowMap. \<exists>c \<in> set (childNodes frame). nodeId (props c) = fst e \<and> countedChild c"
    and totals: "flexTotals (layoutMode (props frame) = HORIZONTAL) (map_of flexGrowMap)
                   (childNodes frame) (0, 0, 0) = (totalFlexGrow, fixedSize, gapCount)"
    and gaps: "1 < gapCount"
    and avail: "availableSpace = flexAvailableSpace storedWidths (props frame) fixedSize gapCount"
    and space: "0 < availableSpace"
    and entry: "(k, growth) \<in> set flexGrowMap"
  shows "totalFlexGrow = sum_list (map snd flexGrowMap)
       \<and> (\<forall>c \<in> set (childNodes (flexGrowDistribution flexGrowMap storedWidths nestedFlexGrowMap frame)).
            nodeId (props c) = k \<longrightarrow>
              axisSize (layoutMode (props frame) = HORIZONTAL) c
                = availableSpace * (growth / sum_list (map snd flexGrowMap))
              \<and> axisSizing (layoutMode (props frame) = HORIZONTAL) c = FIXED)"
proof -
  have tot: "totalFlexGrow = sum_list (map snd flexGrowMap)"
    using flexTotals_ledger[OF keys pos ids counted, of "layoutMode (props frame) = HORIZONTAL"] totals
    by simp
  have "0 < snd (k, growth)" using pos entry by blast
  moreover have "snd (k, growth) \<le> sum_list (map snd flexGrowMap)"
  proof (rule member_le_sum_list)
    show "snd (k, growth) \<in> set (map snd flexGrowMap)" using entry by force
    show "0 \<le> x" if "x \<in> set (map snd flexGrowMap)" for x using that pos by (auto intro: less_imp_le)
  qed
  ultimately have total: "0 < totalFlexGrow" using tot by simp
  from flexGrowDistribution_shares[OF mode keys totals total gaps avail space entry] tot
  show ?thesis by simp
qed

text \<open>
  C1. The pass does not do what the claim says when a child of the ledger has
  \<^verbatim>\<open>position: relative\<close> with an offset. The placeholder step has made that child \<^verbatim>\<open>ABSOLUTE\<close>
  before the pass runs; the loop that sums the weights passes over absolute children,
  and the loop that resizes goes through the whole ledger. In the row \<open>exampleRelativeRow\<close>,
  500 wide, the ledger holds the weights 1, 1 and 2 and its second child is relatively
  offset: the pass counts a total weight of 3 and the placeholder's 100 as fixed size,
  has 400 available, and resizes the three children of the ledger to 400/3, 400/3 and
  800/3, where the claim has 100, 100 and 200; the shares add up to 1600/3. The function
  \<^verbatim>\<open>recalculateNestedFlex\<close> of the same file sums and resizes over the same children.
\<close>

theorem flexGrowDistribution_relative_child:
  "map (\<lambda>c. (nodeId (props c), name (props c), layoutPositioning (props c), width (props c),
              layoutSizingHorizontal (props c)))
     (childNodes exampleRelativeRow)
     = [(1, ''div'', AUTO, 100, FILL), (4, ''relative-placeholder'', AUTO, 100, FILL),
        (3, ''div'', AUTO, 100, FILL), (2, ''div'', ABSOLUTE, 100, FILL)]
   \<and> flexTotals True (map_of exampleLedger) (childNodes exampleRelativeRow) (0, 0, 0) = (3, 100, 3)
   \<and> flexAvailableSpace Map.empty (props exampleRelativeRow) 100 3 = 400
   \<and> map (\<lambda>c. (nodeId (props c), width (props c), layoutSizingHorizontal (props c)))
        (childNodes (flexGrowDistribution exampleLedger Map.empty Map.empty exampleRelativeRow))
      = [(1, 400 / 3, FIXED), (4, 100, FILL), (3, 800 / 3, FIXED), (2, 400 / 3, FIXED)]"
  by (simp add: exampleRelativeRow_def exampleFlexRow_def exampleLedger_def relativePlaceholder_def
      node_eval_defs)

text \<open>
  C10. When at most one child of the frame is counted (not absolutely positioned, not a
  spacer or wrapper), the pass leaves the frame and all its children as they are,
  whatever the ledger holds.
\<close>

theorem single_counted_child_skips_distribution:
  assumes "length (filter countedChild (childNodes frame)) \<le> 1"
  shows "flexGrowDistribution flexGrowMap storedWidths nestedFlexGrowMap frame = frame"
proof -
  obtain t f g where tot: "flexTotals (layoutMode (props frame) = HORIZONTAL) (map_of flexGrowMap)
      (childNodes frame) (0, 0, 0) = (t, f, g)"
    by (metis prod_cases3)
  have "g = length (filter countedChild (childNodes frame))"
    using flexTotals_gapCount[of "layoutMode (props frame) = HORIZONTAL" "map_of flexGrowMap"
        "childNodes frame" 0 0 0] tot by simp
  then have "\<not> 1 < g" using assms by simp
  then show ?thesis using tot by (simp add: flexGrowDistribution_def)
qed

theorem single_counted_child_skips_distribution_witness:
  "length (filter countedChild (childNodes exampleSingle)) = 1
   \<and> flexGrowDistribution [(2, 1)] Map.empty Map.empty exampleSingle = exampleSingle"
proof -
  have c: "length (filter countedChild (childNodes exampleSingle)) = 1"
    by (simp add: exampleSingle_def node_eval_defs)
  then have "length (filter countedChild (childNodes exampleSingle)) \<le> 1" by simp
  from single_counted_child_skips_distribution[OF this] c show ?thesis by simp
qed

section \<open>Properties of \<^verbatim>\<open>applyFrameStyles\<close> and of the attachment step\<close>

lemma applyAutoLayout_size:
  "width (fst (applyAutoLayout st (frame, t))) = width frame
   \<and> height (fst (applyAutoLayout st (frame, t))) = height frame"
  by (simp add: applyAutoLayout_def Let_def split: option.splits justifyContent.splits alignItems.splits prod.splits)

lemma applyWidth_number:
  assumes "ParsedStyle.width st = Some (DimNumber w)"
  shows "width (fst (applyWidth st pw (frame, t)))
           = w + paddingAdded (ParsedStyle.padding st) (ParsedStyle.paddingLeft st) (ParsedStyle.paddingRight st)
       \<and> height (fst (applyWidth st pw (frame, t))) = height frame"
  using assms by (simp add: applyWidth_def Let_def resize_def)

lemma applyHeight_width: "width (fst (applyHeight st (frame, t))) = width frame"
  by (simp add: applyHeight_def Let_def resize_def split: option.splits dimension.splits)

lemma applyHeight_number:
  assumes "ParsedStyle.height st = Some (DimNumber h)"
  shows "height (fst (applyHeight st (frame, t)))
           = h + paddingAdded (ParsedStyle.padding st) (ParsedStyle.paddingTop st) (ParsedStyle.paddingBottom st)"
  using assms by (simp add: applyHeight_def Let_def resize_def)

lemma applyPadding_size: "width (applyPadding st frame) = width frame \<and> height (applyPadding st frame) = height frame"
  by (simp add: applyPadding_def Let_def split: option.splits)

lemma applyTextAlign_size:
  "width (applyTextAlign st frame) = width frame \<and> height (applyTextAlign st frame) = height frame"
  by (simp add: applyTextAlign_def Let_def split: option.splits textAlign.splits)

lemma applyScale_none: "scaleX st = None \<Longrightarrow> scaleY st = None \<Longrightarrow> applyScale st frame = frame"
  by (simp add: applyScale_def)

lemma applyPadding_sides:
  assumes "ParsedStyle.padding st = None
         \<or> (ParsedStyle.paddingTop st = None \<and> ParsedStyle.paddingRight st = None
             \<and> ParsedStyle.paddingBottom st = None \<and> ParsedStyle.paddingLeft st = None)"
    and "paddingTop frame = 0" "paddingRight frame = 0" "paddingBottom frame = 0" "paddingLeft frame = 0"
  shows "paddingLeft (applyPadding st frame) + paddingRight (applyPadding st frame)
           = paddingAdded (ParsedStyle.padding st) (ParsedStyle.paddingLeft st) (ParsedStyle.paddingRight st)
       \<and> paddingTop (applyPadding st frame) + paddingBottom (applyPadding st frame)
           = paddingAdded (ParsedStyle.padding st) (ParsedStyle.paddingTop st) (ParsedStyle.paddingBottom st)"
  using assms by (auto simp: applyPadding_def paddingAdded_def orElse_def Let_def split: option.splits)

lemma applyTextAlign_padding:
  "paddingLeft (applyTextAlign st frame) = paddingLeft frame
   \<and> paddingRight (applyTextAlign st frame) = paddingRight frame
   \<and> paddingTop (applyTextAlign st frame) = paddingTop frame
   \<and> paddingBottom (applyTextAlign st frame) = paddingBottom frame"
  by (simp add: applyTextAlign_def Let_def split: option.splits textAlign.splits)

lemma applyAutoLayout_padding:
  "paddingLeft (fst (applyAutoLayout st (frame, t))) = paddingLeft frame
   \<and> paddingRight (fst (applyAutoLayout st (frame, t))) = paddingRight frame
   \<and> paddingTop (fst (applyAutoLayout st (frame, t))) = paddingTop frame
   \<and> paddingBottom (fst (applyAutoLayout st (frame, t))) = paddingBottom frame"
  by (simp add: applyAutoLayout_def Let_def split: option.splits justifyContent.splits alignItems.splits prod.splits)

lemma applyWidth_padding:
  "paddingLeft (fst (applyWidth st pw (frame, t))) = paddingLeft frame
   \<and> paddingRight (fst (applyWidth st pw (frame, t))) = paddingRight frame
   \<and> paddingTop (fst (applyWidth st pw (frame, t))) = paddingTop frame
   \<and> paddingBottom (fst (applyWidth st pw (frame, t))) = paddingBottom frame"
  by (simp add: applyWidth_def Let_def resize_def split: option.splits dimension.splits)

lemma applyHeight_padding:
  "paddingLeft (fst (applyHeight st (frame, t))) = paddingLeft frame
   \<and> paddingRight (fst (applyHeight st (frame, t))) = paddingRight frame
   \<and> paddingTop (fst (applyHeight st (frame, t))) = paddingTop frame
   \<and> paddingBottom (fst (applyHeight st (frame, t))) = paddingBottom frame"
  by (simp add: applyHeight_def Let_def resize_def split: option.splits dimension.splits)

lemma sizing_padding_unchanged:
  "paddingLeft (fst (applyHeight st (applyWidth st pw (applyAutoLayout st (frame, t))))) = paddingLeft frame
   \<and> paddingRight (fst (applyHeight st (applyWidth st pw (applyAutoLayout st (frame, t))))) = paddingRight frame
   \<and> paddingTop (fst (applyHeight st (applyWidth st pw (applyAutoLayout st (frame, t))))) = paddingTop frame
   \<and> paddingBottom (fst (applyHeight st (applyWidth st pw (applyAutoLayout st (frame, t))))) = paddingBottom frame"
proof -
  obtain f1 t1 where a: "applyAutoLayout st (frame, t) = (f1, t1)" by (cases "applyAutoLayout st (frame, t)")
  obtain f2 t2 where b: "applyWidth st pw (f1, t1) = (f2, t2)" by (cases "applyWidth st pw (f1, t1)")
  show ?thesis
    using applyAutoLayout_padding[of st frame t] applyWidth_padding[of st pw f1 t1]
      applyHeight_padding[of st f2 t2]
    by (simp add: a b)
qed

text \<open>
  C2, as amended. When no scale transform is declared and the padding shorthand is not
  combined with paddings of single sides, \<^verbatim>\<open>applyFrameStyles\<close> leaves a fresh frame (its
  paddings 0 before) with: width = declared width + left padding + right padding when
  the width is a number, and height = declared height + top padding + bottom padding
  when the height is a number.
\<close>

theorem applyFrameStyles_content_box:
  assumes noScale: "scaleX st = None \<and> scaleY st = None"
    and notMixed: "ParsedStyle.padding st = None
         \<or> (ParsedStyle.paddingTop st = None \<and> ParsedStyle.paddingRight st = None
             \<and> ParsedStyle.paddingBottom st = None \<and> ParsedStyle.paddingLeft st = None)"
    and fresh: "paddingTop frame = 0 \<and> paddingRight frame = 0 \<and> paddingBottom frame = 0
                \<and> paddingLeft frame = 0"
    and res: "applyFrameStyles frame st parentWidth t = (frame', t')"
  shows "(\<forall>w. ParsedStyle.width st = Some (DimNumber w) \<longrightarrow>
            width frame' = w + paddingLeft frame' + paddingRight frame')
       \<and> (\<forall>h. ParsedStyle.height st = Some (DimNumber h) \<longrightarrow>
            height frame' = h + paddingTop frame' + paddingBottom frame')"
proof -
  obtain f0 t0 where a: "applyAutoLayout st (frame, t) = (f0, t0)" by (cases "applyAutoLayout st (frame, t)")
  obtain f1 t1 where b: "applyWidth st parentWidth (f0, t0) = (f1, t1)"
    by (cases "applyWidth st parentWidth (f0, t0)")
  obtain f2 t2 where c: "applyHeight st (f1, t1) = (f2, t2)" by (cases "applyHeight st (f1, t1)")
  have fr: "frame' = applyTextAlign st (applyPadding st f2)"
    using res noScale by (simp add: applyFrameStyles_def a b c applyScale_none)
  have pz: "paddingTop f2 = 0" "paddingRight f2 = 0" "paddingBottom f2 = 0" "paddingLeft f2 = 0"
    using sizing_padding_unchanged[of st parentWidth frame t] fresh by (simp_all add: a b c)
  note pad = applyPadding_sides[OF notMixed pz]
  have sz: "width frame' = width f2" "height frame' = height f2"
    by (simp_all add: fr applyTextAlign_size applyPadding_size)
  have pd: "paddingLeft frame' + paddingRight frame'
              = paddingAdded (ParsedStyle.padding st) (ParsedStyle.paddingLeft st) (ParsedStyle.paddingRight st)"
       "paddingTop frame' + paddingBottom frame'
              = paddingAdded (ParsedStyle.padding st) (ParsedStyle.paddingTop st) (ParsedStyle.paddingBottom st)"
    using pad by (simp_all add: fr applyTextAlign_padding)
  have w: "\<And>w. ParsedStyle.width st = Some (DimNumber w) \<Longrightarrow>
      width f2 = w + paddingAdded (ParsedStyle.padding st) (ParsedStyle.paddingLeft st) (ParsedStyle.paddingRight st)"
    using applyWidth_number[of st _ parentWidth f0 t0] applyHeight_width[of st f1 t1] by (simp add: b c)
  have h: "\<And>h. ParsedStyle.height st = Some (DimNumber h) \<Longrightarrow>
      height f2 = h + paddingAdded (ParsedStyle.padding st) (ParsedStyle.paddingTop st) (ParsedStyle.paddingBottom st)"
    using applyHeight_number[of st _ f1 t1] by (simp add: c)
  show ?thesis using w h sz pd by (auto simp: algebra_simps)
qed

lemmas apply_eval_defs =
  applyFrameStyles_def applyAutoLayout_def applyWidth_def applyHeight_def applyPadding_def
  applyScale_def applyTextAlign_def paddingAdded_def orElse_def marginNumber_def resize_def
  setPendingHorizontal_def setPendingHeight_def getPending_def noStyle_def noTables_def newFrame_def
  Let_def

theorem applyFrameStyles_content_box_witness:
  "width (fst (applyFrameStyles (newFrame 1) exampleBoxStyle None noTables)) = 240
   \<and> height (fst (applyFrameStyles (newFrame 1) exampleBoxStyle None noTables)) = 140"
proof -
  obtain f t where r: "applyFrameStyles (newFrame 1) exampleBoxStyle None noTables = (f, t)"
    by (cases "applyFrameStyles (newFrame 1) exampleBoxStyle None noTables")
  have p: "paddingLeft f = 20 \<and> paddingRight f = 20 \<and> paddingTop f = 20 \<and> paddingBottom f = 20"
    using r by (auto simp: exampleBoxStyle_def apply_eval_defs)
  have "(\<forall>w. ParsedStyle.width exampleBoxStyle = Some (DimNumber w) \<longrightarrow>
            width f = w + paddingLeft f + paddingRight f)
       \<and> (\<forall>h. ParsedStyle.height exampleBoxStyle = Some (DimNumber h) \<longrightarrow>
            height f = h + paddingTop f + paddingBottom f)"
    by (rule applyFrameStyles_content_box[OF _ _ _ r])
       (simp_all add: exampleBoxStyle_def noStyle_def newFrame_def)
  then have "width f = 240 \<and> height f = 140"
    using p by (simp add: exampleBoxStyle_def noStyle_def)
  then show ?thesis unfolding r by simp
qed

text \<open>
  C2 as stated fails: with width 200, padding 20 and a horizontal scale of 2 the frame
  ends 480 wide, its paddings being 20 and 20; the scale section of \<^verbatim>\<open>applyFrameStyles\<close>
  resizes the frame after the sizing section.
\<close>

theorem applyFrameStyles_scale_counterexample:
  "width (fst (applyFrameStyles (newFrame 1) (exampleBoxStyle\<lparr>scaleX := Some 2\<rparr>) None noTables)) = 480
   \<and> paddingLeft (fst (applyFrameStyles (newFrame 1) (exampleBoxStyle\<lparr>scaleX := Some 2\<rparr>) None noTables)) = 20
   \<and> paddingRight (fst (applyFrameStyles (newFrame 1) (exampleBoxStyle\<lparr>scaleX := Some 2\<rparr>) None noTables)) = 20"
  by (simp add: exampleBoxStyle_def apply_eval_defs)

text \<open>
  C5, as amended. Attaching a frame to a parent that has auto layout applies, at once,
  each entry that is set in the record pending for the frame: the entry becomes the
  sizing mode of the attached frame on its axis. The side table itself is not changed by
  the step: the record stays in it.
\<close>

theorem attachFrame_applies_pending:
  assumes "attachFrame parent frame t = (parent', t')"
  shows "t' = t
       \<and> (\<exists>attached. childNodes parent' = childNodes parent @ [attached]
             \<and> nodeId (props attached) = nodeId (props frame)
             \<and> (hasLayoutMode (props parent) \<and> layoutMode (props parent) \<noteq> NONE \<longrightarrow>
                  (\<forall>pending. pendingLayoutSizing t (nodeId (props frame)) = Some pending \<longrightarrow>
                     (\<forall>v. pendingHorizontal pending = Some v \<longrightarrow> layoutSizingHorizontal (props attached) = v)
                     \<and> (\<forall>v. pendingHeight pending = Some v \<longrightarrow> layoutSizingVertical (props attached) = v))))"
  using assms
  by (auto simp: attachFrame_def Let_def mapProps_def applyPendingSizing_def
      safeSetLayoutSizingHorizontal_def safeSetLayoutSizingVertical_def split: option.splits)

lemma examplePendingTables_eval:
  "pendingLayoutSizing examplePendingTables 1 = Some \<lparr>pendingHorizontal = Some FIXED, pendingHeight = None\<rparr>"
  by (simp add: examplePendingTables_def apply_eval_defs)

theorem attachFrame_applies_pending_witness:
  "snd (attachFrame exampleParent exampleChild examplePendingTables) = examplePendingTables
   \<and> map (\<lambda>c. layoutSizingHorizontal (props c))
        (childNodes (fst (attachFrame exampleParent exampleChild examplePendingTables))) = [FIXED]"
proof -
  obtain p t where r: "attachFrame exampleParent exampleChild examplePendingTables = (p, t)"
    by (cases "attachFrame exampleParent exampleChild examplePendingTables")
  have par: "hasLayoutMode (props exampleParent) \<and> layoutMode (props exampleParent) \<noteq> NONE"
    "childNodes exampleParent = []"
    by (simp_all add: exampleParent_def newFrame_def)
  have cid: "nodeId (props exampleChild) = 1"
    by (simp add: exampleChild_def apply_eval_defs)
  from attachFrame_applies_pending[OF r] obtain attached where
    t: "t = examplePendingTables" and k: "childNodes p = [attached]"
    and h: "layoutSizingHorizontal (props attached) = FIXED"
    using par cid examplePendingTables_eval by auto
  show ?thesis unfolding r using t k h by simp
qed

text \<open>
  C5 as stated fails: the record written by \<^verbatim>\<open>applyFrameStyles\<close> for a frame of width 200 is
  still in the table after the frame has been attached and the record applied. The source
  never removes an entry from \<^verbatim>\<open>pendingLayoutSizing\<close>.
\<close>

theorem attachFrame_keeps_record_counterexample:
  "pendingLayoutSizing (snd (attachFrame exampleParent exampleChild examplePendingTables)) 1
     = Some \<lparr>pendingHorizontal = Some FIXED, pendingHeight = None\<rparr>"
  using examplePendingTables_eval by (simp add: attachFrame_def Let_def)

section \<open>Children in stacking order, missing elements, fonts\<close>

lemma carriedAll_append: "carriedAll (xs @ ys) = carriedAll xs @ carriedAll ys"
  by (simp add: carriedAll_def)

lemma carried_simps:
  "carried (frameBox n []) = []"
  "carried (textBox n f) = []"
  "carried (setOrigin i b) = [i]"
  "carried (setAbsolute b) = carried b"
  by (simp_all add: carried_def frameBox_def textBox_def setOrigin_def setAbsolute_def map_filter_simps
      split: option.splits)

lemma carried_wrapper: "carried (wrapperBox st (setOrigin i b)) = [i]"
  by (simp add: carried_def wrapperBox_def frameBox_def setOrigin_def List.map_filter_def)

lemma appendSpacer_carried:
  "\<exists>s. fst (appendSpacer c n (kids, h)) = kids @ s \<and> carriedAll s = []"
  by (simp add: appendSpacer_def carriedAll_def carried_simps)

lemma leadingSpacers_carried:
  "\<exists>s. fst (leadingSpacers mode st (kids, h)) = kids @ s \<and> carriedAll s = []"
  by (simp add: leadingSpacers_def appendSpacer_def carriedAll_def carried_simps)

lemma trailingSpacers_carried:
  "\<exists>s. fst (trailingSpacers mode st (kids, h)) = kids @ s \<and> carriedAll s = []"
  by (simp add: trailingSpacers_def appendSpacer_def carriedAll_def carried_simps)

lemma placeChild_carried:
  assumes "placeChild mode st (setOrigin i b) (kids, rel) h = ((kids', rel'), h')"
  shows "\<exists>x. kids' = kids @ [x] \<and> carried x = [i] \<and> (rel' = rel \<or> rel' = rel @ [length kids])"
  using assms
  by (auto simp: placeChild_def carried_simps carried_wrapper split: if_splits)

lemma createAbsoluteChildren_carried:
  assumes "createAbsoluteChildren fonts xs kids h = (Inr kids', h')"
  shows "\<exists>bs. kids' = kids @ bs \<and> carriedAll bs = map snd xs"
  using assms
proof (induction xs arbitrary: kids h)
  case Nil
  then show ?case by (simp add: carriedAll_def)
next
  case (Cons a xs)
  obtain child i where a: "a = (child, i)" by (cases a)
  from Cons.prems a obtain b h1 where
    c: "createFigmaNode fonts child h = (Inr b, h1)"
    and r: "createAbsoluteChildren fonts xs (kids @ [setAbsolute (setOrigin i b)]) h1 = (Inr kids', h')"
    by (auto split: prod.splits sum.splits)
  from Cons.IH[OF r] obtain bs where bs: "kids' = (kids @ [setAbsolute (setOrigin i b)]) @ bs"
    "carriedAll bs = map snd xs" by blast
  have "kids' = kids @ (setAbsolute (setOrigin i b) # bs)" using bs by simp
  moreover have "carriedAll (setAbsolute (setOrigin i b) # bs) = map snd (a # xs)"
    using bs a by (simp add: carriedAll_def carried_simps)
  ultimately show ?case by blast
qed

lemma createRegularChildren_carried:
  assumes "createRegularChildren fonts mode xs (kids, rel) h = (Inr (kids', rel'), h')"
  shows "\<exists>m. kids' = kids @ m \<and> carriedAll m = map snd xs
           \<and> (\<forall>idx \<in> set rel'. idx \<in> set rel \<or> (length kids \<le> idx \<and> idx < length kids'))"
  using assms
proof (induction xs arbitrary: kids rel h)
  case Nil
  then show ?case by (simp add: carriedAll_def)
next
  case (Cons a xs)
  obtain child i where a: "a = (child, i)" by (cases a)
  define st where "st = expandMargin (styles child)"
  obtain kids1 h1 where lead: "leadingSpacers mode st (kids, h) = (kids1, h1)"
    by (cases "leadingSpacers mode st (kids, h)")
  define h2 where "h2 = (if isWrapped mode st then openWrapper st h1 else h1)"
  define target where "target = withStyles child (if isWrapped mode st then deleteHorizontalMargins st else st)"
  from Cons.prems a obtain b h3 kids2 rel2 h4 kids3 h5 where
    c: "createFigmaNode fonts target h2 = (Inr b, h3)"
    and p: "placeChild mode st (setOrigin i b) (kids1, rel) h3 = ((kids2, rel2), h4)"
    and t: "trailingSpacers mode st (kids2, h4) = (kids3, h5)"
    and r: "createRegularChildren fonts mode xs (kids3, rel2) h5 = (Inr (kids', rel'), h')"
    by (auto simp: Let_def lead st_def[symmetric] h2_def[symmetric] target_def[symmetric]
        split: prod.splits sum.splits)
  from leadingSpacers_carried[of mode st kids h] lead obtain s1 where
    s1: "kids1 = kids @ s1" "carriedAll s1 = []" by auto
  from placeChild_carried[OF p] obtain x where
    x: "kids2 = kids1 @ [x]" "carried x = [i]" "rel2 = rel \<or> rel2 = rel @ [length kids1]" by blast
  from trailingSpacers_carried[of mode st kids2 h4] t obtain s2 where
    s2: "kids3 = kids2 @ s2" "carriedAll s2 = []" by auto
  from Cons.IH[OF r] obtain m where
    m: "kids' = kids3 @ m" "carriedAll m = map snd xs"
    "\<forall>idx \<in> set rel'. idx \<in> set rel2 \<or> (length kids3 \<le> idx \<and> idx < length kids')" by blast
  have k: "kids' = kids @ (s1 @ [x] @ s2 @ m)" using s1 x s2 m by simp
  have ca: "carriedAll (s1 @ [x] @ s2 @ m) = map snd (a # xs)"
    using s1 x s2 m a by (simp add: carriedAll_append) (simp add: carriedAll_def)
  have idx: "\<forall>idx \<in> set rel'. idx \<in> set rel \<or> (length kids \<le> idx \<and> idx < length kids')"
  proof
    fix idx assume "idx \<in> set rel'"
    with m(3) have "idx \<in> set rel2 \<or> (length kids3 \<le> idx \<and> idx < length kids')" by blast
    then show "idx \<in> set rel \<or> (length kids \<le> idx \<and> idx < length kids')"
      using x(3) s1(1) x(1) s2(1) k by auto
  qed
  show ?case using k ca idx by blast
qed

lemma carriedAll_update_move:
  assumes "j < length xs"
  shows "mset (carriedAll (xs[j := frameBox n []] @ [setAbsolute (xs ! j)])) = mset (carriedAll xs)"
proof -
  have 1: "xs = take j xs @ [xs ! j] @ drop (Suc j) xs"
    using assms by (simp add: id_take_nth_drop)
  have 2: "xs[j := frameBox n []] = take j xs @ [frameBox n []] @ drop (Suc j) xs"
    using assms by (simp add: upd_conv_take_nth_drop)
  have "mset (carriedAll (xs[j := frameBox n []] @ [setAbsolute (xs ! j)]))
      = mset (carriedAll (take j xs)) + mset (carriedAll (drop (Suc j) xs)) + mset (carried (xs ! j))"
    unfolding 2 by (simp add: carriedAll_append) (simp add: carriedAll_def carried_simps)
  also have "\<dots> = mset (carriedAll (take j xs @ [xs ! j] @ drop (Suc j) xs))"
    by (simp add: carriedAll_append) (simp add: carriedAll_def)
  finally show ?thesis using 1 by simp
qed

lemma applyRelativeOffsets_carried:
  assumes "\<forall>idx \<in> set rel. n \<le> idx \<and> idx < length kids"
  shows "\<exists>m. fst (applyRelativeOffsets rel kids h) = take n kids @ m
           \<and> mset (carriedAll m) = mset (carriedAll (drop n kids))"
  using assms
proof (induction rel arbitrary: kids h)
  case Nil
  have "kids = take n kids @ drop n kids" by simp
  then show ?case by (metis applyRelativeOffsets.simps(1) fst_conv)
next
  case (Cons i rel)
  let ?kids1 = "kids[i := frameBox ''relative-placeholder'' []] @ [setAbsolute (kids ! i)]"
  from Cons.prems have i: "n \<le> i" "i < length kids" by auto
  have pre: "\<forall>idx \<in> set rel. n \<le> idx \<and> idx < length ?kids1" using Cons.prems by auto
  from Cons.IH[OF pre, of "createNode h"] obtain m where
    m: "fst (applyRelativeOffsets rel ?kids1 (createNode h)) = take n ?kids1 @ m"
    "mset (carriedAll m) = mset (carriedAll (drop n ?kids1))" by blast
  have tk: "take n ?kids1 = take n kids" using i by simp
  have dr: "drop n ?kids1 = (drop n kids)[i - n := frameBox ''relative-placeholder'' []] @ [setAbsolute (drop n kids ! (i - n))]"
    using i by (simp add: drop_update_swap)
  have mv: "mset (carriedAll (drop n ?kids1)) = mset (carriedAll (drop n kids))"
    unfolding dr using i by (intro carriedAll_update_move) simp
  have e: "fst (applyRelativeOffsets (i # rel) kids h) = fst (applyRelativeOffsets rel ?kids1 (createNode h))"
    by simp
  have A: "fst (applyRelativeOffsets (i # rel) kids h) = take n kids @ m"
    by (simp only: e m(1) tk)
  have B: "mset (carriedAll m) = mset (carriedAll (drop n kids))"
    by (simp only: m(2) mv)
  show ?case using A B by blast
qed

lemma insertAbsolute_set: "set (insertAbsolute a xs) = insert a (set xs)"
  by (induction xs) auto

lemma sortAbsolute_set: "set (sortAbsolute xs) = set xs"
  unfolding sortAbsolute_def by (induction xs) (auto simp: insertAbsolute_set)

lemma stackedBefore_trans: "stackedBefore a b \<Longrightarrow> stackedBefore b c \<Longrightarrow> stackedBefore a c"
  by (auto simp: stackedBefore_def)

lemma compare_stackedBefore:
  assumes "snd a \<noteq> snd b"
  shows "(absoluteCompare a b \<le> 0) = stackedBefore a b"
    and "(\<not> absoluteCompare a b \<le> 0) = stackedBefore b a"
  using assms by (auto simp: absoluteCompare_def stackedBefore_def)

lemma insertAbsolute_sorted:
  assumes "sorted_wrt stackedBefore xs" and "\<forall>x \<in> set xs. snd x \<noteq> snd a"
  shows "sorted_wrt stackedBefore (insertAbsolute a xs)"
  using assms
proof (induction xs)
  case Nil
  then show ?case by simp
next
  case (Cons b xs)
  have ne: "snd a \<noteq> snd b" using Cons.prems(2) by auto
  show ?case
  proof (cases "absoluteCompare a b \<le> 0")
    case True
    then have ab: "stackedBefore a b" using compare_stackedBefore(1)[OF ne] by simp
    then have "\<forall>x \<in> set xs. stackedBefore a x"
      using Cons.prems(1) stackedBefore_trans by auto
    then show ?thesis using True ab Cons.prems(1) by simp
  next
    case False
    then have ba: "stackedBefore b a" using compare_stackedBefore(2)[OF ne] by simp
    have "sorted_wrt stackedBefore (insertAbsolute a xs)"
      using Cons.IH Cons.prems by simp
    then show ?thesis using False ba Cons.prems(1) by (auto simp: insertAbsolute_set)
  qed
qed

lemma sortAbsolute_sorted:
  assumes "distinct (map snd xs)"
  shows "sorted_wrt stackedBefore (sortAbsolute xs)"
  using assms
proof (induction xs)
  case Nil
  then show ?case by (simp add: sortAbsolute_def)
next
  case (Cons a xs)
  have s: "sorted_wrt stackedBefore (foldr insertAbsolute xs [])"
    using Cons by (simp add: sortAbsolute_def)
  have "set (foldr insertAbsolute xs []) = set xs"
    using sortAbsolute_set[of xs] by (simp add: sortAbsolute_def)
  moreover have "\<forall>x \<in> set xs. snd x \<noteq> snd a"
  proof
    fix x assume "x \<in> set xs"
    then have "snd x \<in> snd ` set xs" by simp
    moreover have "snd a \<notin> snd ` set xs" using Cons.prems by simp
    ultimately show "snd x \<noteq> snd a" by metis
  qed
  ultimately have "\<forall>x \<in> set (foldr insertAbsolute xs []). snd x \<noteq> snd a" by simp
  from insertAbsolute_sorted[OF s this] show ?case by (simp add: sortAbsolute_def)
qed

lemma indexed_distinct: "distinct (map snd (indexed kids))"
  by (simp add: indexed_def)

lemma absoluteChildren_sorted: "sorted_wrt stackedBefore (absoluteChildren kids)"
  unfolding absoluteChildren_def
  by (intro sortAbsolute_sorted) (simp add: distinct_map_filter indexed_distinct)

lemma children_partition:
  "set (absoluteBeforeContent kids) = {a \<in> set (indexed kids). isAbsoluteElement (fst a) \<and> zIndexOf a < 1}"
  "set (absoluteAfterContent kids) = {a \<in> set (indexed kids). isAbsoluteElement (fst a) \<and> 1 \<le> zIndexOf a}"
  "set (regularChildren kids) = {a \<in> set (indexed kids). \<not> isAbsoluteElement (fst a)}"
  by (auto simp: absoluteBeforeContent_def absoluteAfterContent_def regularChildren_def
      absoluteChildren_def sortAbsolute_set)

lemma createFigmaNode_carried:
  assumes "createFigmaNode fonts element h = (Inr box, h')"
  shows "\<exists>M. carriedAll (boxChildren box)
            = map snd (absoluteBeforeContent (children element)) @ M
              @ map snd (absoluteAfterContent (children element))
          \<and> mset M = mset (map snd (regularChildren (children element)))"
proof (cases "isTextLeaf element")
  case True
  then have k: "children element = []" by (simp add: isTextLeaf_def)
  from assms True have "boxChildren box = []"
    by (auto simp: createFigmaNode.simps textBox_def split: prod.splits sum.splits)
  then show ?thesis
    using k by (simp add: carriedAll_def absoluteBeforeContent_def absoluteAfterContent_def
        regularChildren_def absoluteChildren_def sortAbsolute_def indexed_def)
next
  case False
  from assms False obtain kids0 h1 kids1 h2 kids2 rel h3 kids3 h4 kids4 where
    t0: "createFrameWithText fonts element h = (Inr kids0, h1)"
    and b: "createAbsoluteChildren fonts (absoluteBeforeContent (children element)) kids0 h1 = (Inr kids1, h2)"
    and r: "createRegularChildren fonts (frameLayoutMode element) (regularChildren (children element))
              (kids1, []) h2 = (Inr (kids2, rel), h3)"
    and o: "applyRelativeOffsets rel kids2 h3 = (kids3, h4)"
    and a: "createAbsoluteChildren fonts (absoluteAfterContent (children element)) kids3 h4 = (Inr kids4, h')"
    and bx: "box = frameBox (tagName element) kids4"
    by (auto simp: createFigmaNode.simps split: prod.splits sum.splits)
  have t: "kids0 = [] \<or> (\<exists>f. kids0 = [textBox ''text'' f])"
    using t0 by (auto simp: createFrameWithText_def split: if_splits prod.splits sum.splits)
  have c0: "carriedAll kids0 = []" using t by (auto simp: carriedAll_def carried_simps)
  from createAbsoluteChildren_carried[OF b] obtain B where
    B: "kids1 = kids0 @ B" "carriedAll B = map snd (absoluteBeforeContent (children element))" by blast
  from createRegularChildren_carried[OF r] obtain m where
    m: "kids2 = kids1 @ m" "carriedAll m = map snd (regularChildren (children element))"
    "\<forall>idx \<in> set rel. idx \<in> set [] \<or> (length kids1 \<le> idx \<and> idx < length kids2)" by blast
  have pre: "\<forall>idx \<in> set rel. length kids1 \<le> idx \<and> idx < length kids2" using m(3) by simp
  from applyRelativeOffsets_carried[OF pre, of h3] o obtain m' where
    m': "kids3 = take (length kids1) kids2 @ m'"
    "mset (carriedAll m') = mset (carriedAll (drop (length kids1) kids2))" by auto
  have k3: "kids3 = kids1 @ m'" using m'(1) m(1) by simp
  have mm: "mset (carriedAll m') = mset (map snd (regularChildren (children element)))"
    using m'(2) m(1,2) by simp
  from createAbsoluteChildren_carried[OF a] obtain A where
    A: "kids4 = kids3 @ A" "carriedAll A = map snd (absoluteAfterContent (children element))" by blast
  have "carriedAll (boxChildren box) = carriedAll kids0 @ carriedAll B @ carriedAll m' @ carriedAll A"
    using bx A(1) k3 B(1) by (simp add: frameBox_def carriedAll_append)
  then have "carriedAll (boxChildren box)
      = map snd (absoluteBeforeContent (children element)) @ carriedAll m'
        @ map snd (absoluteAfterContent (children element))"
    using c0 B(2) A(2) by simp
  then show ?thesis using mm by blast
qed

text \<open>
  C3. In the list of the child nodes of the frame created for an element, read by the
  indices of the child elements they were created for (\<open>carriedAll\<close>): first come the
  absolute children of stack order below 1, then the regular children (each once, a
  relatively offset one possibly moved behind the others), last the absolute children of
  stack order 1 or more. The first and the last group are exactly these children and are
  ordered by stack order, children of equal stack order in document order.
\<close>

theorem stacking_order:
  assumes "createFigmaNode fonts element h = (Inr box, h')"
  shows "(\<exists>M. carriedAll (boxChildren box)
            = map snd (absoluteBeforeContent (children element)) @ M
              @ map snd (absoluteAfterContent (children element))
          \<and> mset M = mset (map snd (regularChildren (children element))))
       \<and> set (absoluteBeforeContent (children element))
           = {a \<in> set (indexed (children element)). isAbsoluteElement (fst a) \<and> zIndexOf a < 1}
       \<and> set (absoluteAfterContent (children element))
           = {a \<in> set (indexed (children element)). isAbsoluteElement (fst a) \<and> 1 \<le> zIndexOf a}
       \<and> set (regularChildren (children element))
           = {a \<in> set (indexed (children element)). \<not> isAbsoluteElement (fst a)}
       \<and> sorted_wrt stackedBefore (absoluteBeforeContent (children element))
       \<and> sorted_wrt stackedBefore (absoluteAfterContent (children element))"
  using createFigmaNode_carried[OF assms] children_partition[of "children element"]
    absoluteChildren_sorted[of "children element"]
  by (simp add: absoluteBeforeContent_def absoluteAfterContent_def sorted_wrt_filter)

lemmas create_eval_defs =
  createFigmaNode.simps createFrameWithText_def isTextLeaf_def hasText_def textTags_def hasFlexProperties_def
  hasFrameStyles_def positiveWeight_def frameLayoutMode_def absoluteBeforeContent_def
  absoluteAfterContent_def absoluteChildren_def regularChildren_def sortAbsolute_def indexed_def
  isAbsoluteElement_def zIndexOf_def absoluteCompare_def orElse_def expandMargin_def withStyles_def
  deleteHorizontalMargins_def hasHorizontalMargin_def positiveMargin_def marginNumber_def
  appendSpacer_def leadingSpacers_def trailingSpacers_def isWrapped_def openWrapper_def
  wrapperBox_def isRelativeOffset_def placeChild_def frameBox_def textBox_def setOrigin_def
  setAbsolute_def createNode_def loadFontAsync_def loadFontWithFallback_def fontFamilyOf_def
  isItalic_def derivedFontStyle_def leafFontStyle_def noStyle_def handleCreateComponent_def
  Let_def upt_rec

theorem stacking_order_witness:
  "\<exists>box h'. createFigmaNode allFonts exampleStack host0 = (Inr box, h')
      \<and> carriedAll (boxChildren box) = [2, 1, 0]
      \<and> map snd (absoluteBeforeContent (children exampleStack)) = [2]
      \<and> map snd (absoluteAfterContent (children exampleStack)) = [0]
      \<and> map snd (regularChildren (children exampleStack)) = [1]"
proof -
  have ok: "\<exists>box h'. createFigmaNode allFonts exampleStack host0 = (Inr box, h')"
    by (simp add: exampleStack_def host0_def allFonts_def create_eval_defs)
  then obtain box h' where c: "createFigmaNode allFonts exampleStack host0 = (Inr box, h')" by blast
  have b: "map snd (absoluteBeforeContent (children exampleStack)) = [2]"
    and a: "map snd (absoluteAfterContent (children exampleStack)) = [0]"
    and r: "map snd (regularChildren (children exampleStack)) = [1]"
    by (simp_all add: exampleStack_def create_eval_defs)
  from stacking_order[OF c] obtain M where
    M: "carriedAll (boxChildren box)
          = map snd (absoluteBeforeContent (children exampleStack)) @ M
            @ map snd (absoluteAfterContent (children exampleStack))"
    "mset M = mset (map snd (regularChildren (children exampleStack)))" by blast
  have "M = [1]" using M(2) unfolding r by simp
  then have k: "carriedAll (boxChildren box) = [2, 1, 0]" using M(1) unfolding b a by simp
  show ?thesis
    by (rule exI[of _ box], rule exI[of _ h']) (simp only: c k b a r simp_thms)
qed

text \<open>
  C4. With elements absent or empty, \<^verbatim>\<open>handleCreateComponent\<close> fails with the error of the
  missing elements and leaves the host as it was: no node has been created (the root
  frame is created after the check), no font asked for.
\<close>

theorem handleCreateComponent_no_elements:
  assumes "elements payload = None \<or> elements payload = Some []"
  shows "handleCreateComponent fonts payload h = (Inl NoElements, h)"
  using assms by (auto simp: handleCreateComponent_def)

theorem handleCreateComponent_no_elements_witness:
  "handleCreateComponent allFonts (examplePayload (Some [])) host0 = (Inl NoElements, host0)
   \<and> handleCreateComponent allFonts (examplePayload None) host0 = (Inl NoElements, host0)
   \<and> created (snd (handleCreateComponent allFonts (examplePayload (Some [exampleStack])) host0)) = 5"
proof -
  have e: "elements (examplePayload (Some [])) = None \<or> elements (examplePayload (Some [])) = Some []"
    and n: "elements (examplePayload None) = None \<or> elements (examplePayload None) = Some []"
    by (simp_all add: examplePayload_def)
  have c: "created (snd (handleCreateComponent allFonts (examplePayload (Some [exampleStack])) host0)) = 5"
    by (simp add: examplePayload_def exampleStack_def host0_def allFonts_def create_eval_defs)
  show ?thesis
    using handleCreateComponent_no_elements[OF e, of allFonts host0]
      handleCreateComponent_no_elements[OF n, of allFonts host0] c by simp
qed







end
